(* ===== verification/Prelude.thy ===== *)
theory Prelude
  imports Main "HOL-Library.List_Lexorder" "HOL-Library.Multiset"
begin

text \<open>
  Shared vocabulary of the development. Python strings are modelled as lists of
  Unicode code points (\<open>str\<close>), so that the Cyrillic literals of the program are
  representable, \<open>len\<close> and slicing count what Python counts, and the
  lexicographic order of \<open>HOL-Library.List_Lexorder\<close> on code points is the order
  SQLite's BINARY collation gives on the UTF-8 encoding. This theory also holds
  the generic list lemmas the components share; the Python string builtins are in
  \<open>Pystr\<close>.
\<close>

named_theorems store_ops "definitions of the store operations (database.py)"
named_theorems service_ops "definitions of the service operations (package_service.py)"

type_synonym str = "nat list"

definition asc :: "string \<Rightarrow> str" where
  "asc s = map of_char s"

subsection \<open>Generic lemmas\<close>

lemma fold_max_le_iff:
  "fold max xs a \<le> s \<longleftrightarrow> a \<le> s \<and> list_all (\<lambda>x. x \<le> s) xs" for a s :: nat
  by (induction xs arbitrary: a) auto

lemma fold_max_ge: "a \<le> fold max xs a" for a :: nat
  by (induction xs arbitrary: a) (auto intro: order_trans [OF max.cobounded2])

lemma distinct_map_filter [intro]:
  "distinct (map f xs) \<Longrightarrow> distinct (map f (filter P xs))"
  by (induction xs) auto

lemma sorted_wrt_map_filter [intro]:
  "sorted_wrt R (map f xs) \<Longrightarrow> sorted_wrt R (map f (filter P xs))"
  by (induction xs) auto

lemma find_fresh_append:
  "k \<notin> set (map f xs) \<Longrightarrow> f x = k \<Longrightarrow> find (\<lambda>p. f p = k) (xs @ [x]) = Some x"
  by (induction xs) auto

lemma find_Some_in_set: "find P xs = Some x \<Longrightarrow> x \<in> set xs \<and> P x"
  by (auto simp: find_Some_iff)

lemma take_drop_eq_nth:
  assumes "take (length sep) (drop i w) = sep" "j < length sep"
  shows "w ! (i + j) = sep ! j"
proof -
  have "length (take (length sep) (drop i w)) = length sep" using assms(1) by simp
  then have le: "i \<le> length w" using assms(2) by auto
  have "sep ! j = take (length sep) (drop i w) ! j" using assms(1) by simp
  also have "\<dots> = drop i w ! j" using assms(2) by simp
  also have "\<dots> = w ! (i + j)" using le by simp
  finally show ?thesis by simp
qed

lemma find_distinct_key:
  "distinct (map f xs) \<Longrightarrow> x \<in> set xs \<Longrightarrow> find (\<lambda>y. f y = f x) xs = Some x"
  by (induction xs) (auto simp: image_iff)

lemma lex_append_same_length:
  "length xs = length ys \<Longrightarrow> (xs @ us < ys @ vs) \<longleftrightarrow> xs < ys \<or> xs = ys \<and> us < vs"
  for xs ys :: "'a::linorder list"
  by (induction xs ys rule: list_induct2) auto

lemma nat_less_div_mod10:
  "(n::nat) < m \<longleftrightarrow> n div 10 < m div 10 \<or> n div 10 = m div 10 \<and> n mod 10 < m mod 10"
proof -
  have n: "n = 10 * (n div 10) + n mod 10" and m: "m = 10 * (m div 10) + m mod 10" by simp_all
  have r: "n mod 10 < 10" "m mod 10 < 10" by simp_all
  show ?thesis
  proof (cases "n div 10" "m div 10" rule: linorder_cases)
    case less
    then show ?thesis using n m r by linarith
  next
    case equal
    have "n < m \<Longrightarrow> n mod 10 < m mod 10" using equal n m by linarith
    moreover have "n mod 10 < m mod 10 \<Longrightarrow> n < m" using equal n m by linarith
    ultimately show ?thesis using equal by auto
  next
    case greater
    then show ?thesis using n m r by linarith
  qed
qed

lemma rev_sort_key_desc:
  fixes f :: "'a \<Rightarrow> 'b::linorder"
  assumes "i < j" "j < length (rev (sort_key f xs))"
  shows "\<not> f (rev (sort_key f xs) ! i) < f (rev (sort_key f xs) ! j)"
proof -
  let ?s = "sort_key f xs"
  have "sorted (map f ?s)" by simp
  then have "f (?s ! (length ?s - Suc j)) \<le> f (?s ! (length ?s - Suc i))"
    using assms by (auto simp: sorted_iff_nth_mono)
  then show ?thesis using assms by (simp add: rev_nth)
qed

end
