(* ===== verification/Pystr.thy ===== *)
theory Pystr
  imports Prelude "HOL-Library.Sublist"
begin

text \<open>
  The Python string builtins the program calls, on strings as code-point lists:
  \<open>str.isspace\<close>, \<open>str.strip()\<close>, truthiness, \<open>str(n)\<close> for a natural number,
  \<open>str.split(sep)\<close>, \<open>str.split()\<close>, \<open>str.replace\<close>, \<open>int(s)\<close> and the
  substring test \<open>in\<close>. Where Python raises, the model returns \<open>Inl\<close> of a
  \<open>py_error\<close>.
\<close>

datatype py_error = ValueError | IndexError | UnicodeEncodeError

text \<open>\<open>str.isspace\<close> on one code point: the characters of bidirectional class
  WS, B or S or of category Zs, as CPython's \<open>_PyUnicode_IsWhitespace\<close> lists them.\<close>

definition py_isspace :: "nat \<Rightarrow> bool" where
  "py_isspace c \<longleftrightarrow>
     (9 \<le> c \<and> c \<le> 13) \<or> (28 \<le> c \<and> c \<le> 32) \<or> c = 133 \<or> c = 160 \<or> c = 5760 \<or>
     (8192 \<le> c \<and> c \<le> 8202) \<or> c = 8232 \<or> c = 8233 \<or> c = 8239 \<or> c = 8287 \<or> c = 12288"

text \<open>\<open>str.strip()\<close> with no argument removes leading and trailing whitespace.\<close>

definition py_strip :: "str \<Rightarrow> str" where
  "py_strip s = rev (dropWhile py_isspace (rev (dropWhile py_isspace s)))"

text \<open>A string is falsy in Python exactly when it is empty: \<open>not s\<close>.\<close>

abbreviation py_falsy :: "str \<Rightarrow> bool" where
  "py_falsy s \<equiv> s = []"

text \<open>Decimal digits of a natural number, most significant first (\<open>str(n)\<close>).\<close>

fun dec_digits :: "nat \<Rightarrow> str" where
  "dec_digits n = (if n < 10 then [48 + n] else dec_digits (n div 10) @ [48 + n mod 10])"

declare dec_digits.simps [simp del]

text \<open>\<open>str.split(sep)\<close>: the pieces between the leftmost non-overlapping occurrences
  of \<open>sep\<close>; an empty separator raises \<open>ValueError\<close>. \<open>split_on sep acc s\<close> scans
  \<open>s\<close> with the current piece, reversed, in \<open>acc\<close>.\<close>

function split_on :: "str \<Rightarrow> str \<Rightarrow> str \<Rightarrow> str list" where
  "split_on sep acc [] = [rev acc]"
| "split_on sep acc (c # s) =
     (if sep \<noteq> [] \<and> take (length sep) (c # s) = sep
      then rev acc # split_on sep [] (drop (length sep) (c # s))
      else split_on sep (c # acc) s)"
  by pat_completeness auto
termination
  by (relation "measure (\<lambda>(sep, acc, s). length s)") auto

definition py_split :: "str \<Rightarrow> str \<Rightarrow> py_error + str list" where
  "py_split s sep = (if sep = [] then Inl ValueError else Inr (split_on sep [] s))"

text \<open>\<open>str.split()\<close> with no argument: the maximal runs of non-whitespace.\<close>

fun split_ws :: "str \<Rightarrow> str \<Rightarrow> str list" where
  "split_ws acc [] = (if acc = [] then [] else [rev acc])"
| "split_ws acc (c # s) =
     (if py_isspace c then (if acc = [] then split_ws [] s else rev acc # split_ws [] s)
      else split_ws (c # acc) s)"

definition py_split_ws :: "str \<Rightarrow> str list" where
  "py_split_ws s = split_ws [] s"

text \<open>\<open>xs[i]\<close> for a non-negative index: \<open>IndexError\<close> past the end.\<close>

definition py_index :: "'a list \<Rightarrow> nat \<Rightarrow> py_error + 'a" where
  "py_index xs i = (if i < length xs then Inr (xs ! i) else Inl IndexError)"

text \<open>\<open>str.replace(old, new)\<close>: every non-overlapping occurrence of \<open>old\<close>, left to
  right; an empty \<open>old\<close> inserts \<open>new\<close> around every character.\<close>

function replace_on :: "str \<Rightarrow> str \<Rightarrow> str \<Rightarrow> str" where
  "replace_on old new [] = []"
| "replace_on old new (c # s) =
     (if old \<noteq> [] \<and> take (length old) (c # s) = old
      then new @ replace_on old new (drop (length old) (c # s))
      else c # replace_on old new s)"
  by pat_completeness auto
termination
  by (relation "measure (\<lambda>(old, new, s). length s)") auto

definition py_replace :: "str \<Rightarrow> str \<Rightarrow> str \<Rightarrow> str" where
  "py_replace s old new =
     (if old = [] then new @ concat (map (\<lambda>c. c # new) s) else replace_on old new s)"

text \<open>\<open>sub in s\<close>.\<close>

definition py_contains :: "str \<Rightarrow> str \<Rightarrow> bool" where
  "py_contains sub s \<longleftrightarrow> list_ex (\<lambda>i. take (length sub) (drop i s) = sub) [0..<Suc (length s)]"

text \<open>\<open>int(s)\<close> for a string: surrounding whitespace, an optional sign, then ASCII
  digits with single underscores between digits (PEP 515); anything else raises
  \<open>ValueError\<close>. (CPython also accepts non-ASCII decimal digits; the program only
  parses the ids it printed itself, which are ASCII.)\<close>

definition is_digit :: "nat \<Rightarrow> bool" where
  "is_digit c \<longleftrightarrow> 48 \<le> c \<and> c \<le> 57"

fun digits_ok :: "str \<Rightarrow> bool" where
  "digits_ok [] = False"
| "digits_ok [c] = is_digit c"
| "digits_ok (c # d # s) =
     (is_digit c \<and> (if d = 95 then s \<noteq> [] \<and> is_digit (hd s) \<and> digits_ok s else digits_ok (d # s)))"

definition digits_value :: "str \<Rightarrow> nat" where
  "digits_value ds = foldl (\<lambda>n c. 10 * n + (c - 48)) 0 (filter (\<lambda>c. c \<noteq> 95) ds)"

definition py_int :: "str \<Rightarrow> py_error + int" where
  "py_int s =
     (let t = py_strip s;
          sign = (if t \<noteq> [] \<and> hd t = 45 then -1 else 1);
          ds = (if t \<noteq> [] \<and> (hd t = 45 \<or> hd t = 43) then tl t else t)
      in if digits_ok ds then Inr (sign * int (digits_value ds)) else Inl ValueError)"

text \<open>Binding a computation that may raise: the exception propagates.\<close>

definition py_bind :: "py_error + 'a \<Rightarrow> ('a \<Rightarrow> py_error + 'b) \<Rightarrow> py_error + 'b" where
  "py_bind r f = (case r of Inl e \<Rightarrow> Inl e | Inr x \<Rightarrow> f x)"

text \<open>\<open>s.split(sep)[0]\<close> for a non-empty literal separator, which never raises
  (lemma \<open>split_head_py\<close>).\<close>

definition split_head :: "str \<Rightarrow> str \<Rightarrow> str" where
  "split_head s sep = hd (split_on sep [] s)"

text \<open>\<open>urllib.parse.quote(s)\<close> with the default \<open>safe='/'\<close>: the UTF-8 bytes of
  \<open>s\<close>, each byte outside \<open>A-Za-z0-9_.-~/\<close> written as \<open>%XX\<close> in upper-case
  hexadecimal. A lone surrogate cannot be encoded and raises.\<close>

definition utf8_encode :: "nat \<Rightarrow> nat list" where
  "utf8_encode c =
     (if c < 128 then [c]
      else if c < 2048 then [192 + c div 64, 128 + c mod 64]
      else if c < 65536 then [224 + c div 4096, 128 + c div 64 mod 64, 128 + c mod 64]
      else [240 + c div 262144, 128 + c div 4096 mod 64, 128 + c div 64 mod 64, 128 + c mod 64])"

definition is_surrogate :: "nat \<Rightarrow> bool" where
  "is_surrogate c \<longleftrightarrow> 55296 \<le> c \<and> c \<le> 57343"

definition url_safe_byte :: "nat \<Rightarrow> bool" where
  "url_safe_byte b \<longleftrightarrow>
     (65 \<le> b \<and> b \<le> 90) \<or> (97 \<le> b \<and> b \<le> 122) \<or> (48 \<le> b \<and> b \<le> 57) \<or>
     b = 95 \<or> b = 46 \<or> b = 45 \<or> b = 126 \<or> b = 47"

definition hex_upper :: "nat \<Rightarrow> nat" where
  "hex_upper n = (if n < 10 then 48 + n else 55 + n)"

definition quote_byte :: "nat \<Rightarrow> str" where
  "quote_byte b = (if url_safe_byte b then [b] else [37, hex_upper (b div 16), hex_upper (b mod 16)])"

definition py_quote :: "str \<Rightarrow> py_error + str" where
  "py_quote s =
     (if list_ex is_surrogate s then Inl UnicodeEncodeError
      else Inr (concat (map quote_byte (concat (map utf8_encode s)))))"

subsection \<open>Lemmas\<close>

lemma dropWhile_hd_not:
  "dropWhile P xs \<noteq> [] \<Longrightarrow> \<not> P (hd (dropWhile P xs))"
  by (induction xs) auto

lemma py_strip_Nil_iff: "py_strip s = [] \<longleftrightarrow> (\<forall>c\<in>set s. py_isspace c)"
proof -
  have "py_strip s = [] \<longleftrightarrow> (\<forall>c\<in>set (dropWhile py_isspace s). py_isspace c)"
    by (simp add: py_strip_def)
  also have "\<dots> \<longleftrightarrow> (\<forall>c\<in>set s. py_isspace c)"
    by (induction s) (auto dest: set_dropWhileD)
  finally show ?thesis .
qed

lemma dec_digits_digit: "c \<in> set (dec_digits n) \<Longrightarrow> 48 \<le> c \<and> c \<le> 57"
proof (induction n rule: dec_digits.induct)
  case (1 n)
  then show ?case
    by (cases "n < 10") (auto simp: dec_digits.simps [of n])
qed

lemma dec_digits_ne [simp]: "dec_digits n \<noteq> []"
  by (subst dec_digits.simps) simp

lemma split_on_first:
  assumes "\<forall>i<length x. take (length sep) (drop i (x @ z)) \<noteq> sep" "sep \<noteq> []"
    and "take (length sep) z = sep"
  shows "split_on sep acc (x @ z) = (rev acc @ x) # split_on sep [] (drop (length sep) z)"
  using assms(1)
proof (induction x arbitrary: acc)
  case Nil
  from assms(2,3) obtain c z' where "z = c # z'" by (cases z) auto
  with assms(2,3) show ?case by simp
next
  case (Cons c x)
  have "take (length sep) (c # x @ z) \<noteq> sep" using Cons.prems by (metis drop0 length_Cons zero_less_Suc append_Cons)
  moreover have "\<forall>i<length x. take (length sep) (drop i (x @ z)) \<noteq> sep"
    using Cons.prems by (metis Suc_mono append_Cons drop_Suc_Cons length_Cons)
  ultimately show ?case using Cons.IH [of "c # acc"] by simp
qed

lemma split_on_no_sep:
  "\<forall>i<length x. take (length sep) (drop i x) \<noteq> sep \<Longrightarrow> split_on sep acc x = [rev acc @ x]"
proof (induction x arbitrary: acc)
  case Nil then show ?case by simp
next
  case (Cons c x)
  have "take (length sep) (c # x) \<noteq> sep" using Cons.prems by (metis drop0 length_Cons zero_less_Suc)
  moreover have "\<forall>i<length x. take (length sep) (drop i x) \<noteq> sep"
    using Cons.prems by (metis Suc_mono drop_Suc_Cons length_Cons)
  ultimately show ?case using Cons.IH [of "c # acc"] by simp
qed

lemma replace_on_prefix:
  "old \<noteq> [] \<Longrightarrow> replace_on old new (old @ s) = new @ replace_on old new s"
  by (cases old) simp_all

lemma replace_on_absent:
  "old \<noteq> [] \<Longrightarrow> hd old \<notin> set s \<Longrightarrow> replace_on old new s = s"
  by (induction s) (auto simp: take_Cons' split: if_splits dest: arg_cong [where f = hd])

lemma digits_value_dec_digits: "digits_value (dec_digits n) = n"
proof (induction n rule: dec_digits.induct)
  case (1 n)
  have nd: "95 \<notin> set (dec_digits m)" for m using dec_digits_digit [of 95 m] by auto
  show ?case
  proof (cases "n < 10")
    case True then show ?thesis by (simp add: dec_digits.simps [of n] digits_value_def)
  next
    case False
    have "foldl (\<lambda>n c. 10 * n + (c - 48)) 0 (filter (\<lambda>c. c \<noteq> 95) (dec_digits (n div 10))) = n div 10"
      using "1" False by (simp add: digits_value_def)
    then show ?thesis using False by (simp add: dec_digits.simps [of n] digits_value_def)
  qed
qed

lemma digits_ok_all_digits: "s \<noteq> [] \<Longrightarrow> list_all is_digit s \<Longrightarrow> digits_ok s"
  by (induction s rule: digits_ok.induct) (auto simp: is_digit_def)

lemma py_strip_no_space: "\<forall>c\<in>set s. \<not> py_isspace c \<Longrightarrow> s \<noteq> [] \<Longrightarrow> py_strip s = s"
proof -
  assume a: "\<forall>c\<in>set s. \<not> py_isspace c" and ne: "s \<noteq> []"
  have "dropWhile py_isspace s = s" using a ne by (cases s) auto
  moreover have "dropWhile py_isspace (rev s) = rev s" using a ne by (cases "rev s") auto
  ultimately show ?thesis by (simp add: py_strip_def)
qed

lemma py_int_dec_digits: "py_int (dec_digits n) = Inr (int n)"
proof -
  have dig: "\<forall>c\<in>set (dec_digits n). 48 \<le> c \<and> c \<le> 57" using dec_digits_digit by blast
  then have sp: "\<forall>c\<in>set (dec_digits n). \<not> py_isspace c" by (auto simp: py_isspace_def)
  have strip: "py_strip (dec_digits n) = dec_digits n" by (rule py_strip_no_space [OF sp dec_digits_ne])
  have h: "hd (dec_digits n) \<noteq> 45" "hd (dec_digits n) \<noteq> 43"
    using dig hd_in_set [OF dec_digits_ne] by fastforce+
  have ok: "digits_ok (dec_digits n)"
    using dig by (auto intro: digits_ok_all_digits simp: is_digit_def list_all_iff)
  show ?thesis using strip h ok by (simp add: py_int_def digits_value_dec_digits)
qed

lemma take_one_drop: "take (Suc 0) (drop i s) = [c] \<longleftrightarrow> i < length s \<and> s ! i = c"
  by (cases "i < length s") (simp_all add: Cons_nth_drop_Suc [symmetric])

lemma py_contains_single: "py_contains [c] s \<longleftrightarrow> c \<in> set s"
  by (auto simp: py_contains_def list_ex_iff take_one_drop in_set_conv_nth less_Suc_eq)

lemma hex_upper_safe: "n < 16 \<Longrightarrow> url_safe_byte (hex_upper n)"
  by (auto simp: hex_upper_def url_safe_byte_def)

lemma quote_byte_safe: "b < 256 \<Longrightarrow> c \<in> set (quote_byte b) \<Longrightarrow> url_safe_byte c \<or> c = 37"
proof -
  assume b: "b < 256" and c: "c \<in> set (quote_byte b)"
  have "b div 16 < 16" "b mod 16 < 16" using b by auto
  then show ?thesis using c hex_upper_safe by (auto simp: quote_byte_def split: if_splits)
qed

lemma utf8_encode_bytes: "c < 1114112 \<Longrightarrow> b \<in> set (utf8_encode c) \<Longrightarrow> b < 256"
  by (auto simp: utf8_encode_def split: if_splits)

lemma py_quote_safe:
  "list_all (\<lambda>c. c < 1114112) s \<Longrightarrow> py_quote s = Inr q \<Longrightarrow> list_all (\<lambda>c. url_safe_byte c \<or> c = 37) q"
proof -
  assume s: "list_all (\<lambda>c. c < 1114112) s" and q: "py_quote s = Inr q"
  then have q_eq: "q = concat (map quote_byte (concat (map utf8_encode s)))"
    by (simp add: py_quote_def split: if_splits)
  have "url_safe_byte c \<or> c = 37" if "c \<in> set q" for c
  proof -
    from that q_eq obtain x b where "x \<in> set s" "b \<in> set (utf8_encode x)" "c \<in> set (quote_byte b)"
      by auto
    with s show ?thesis by (meson list_all_iff quote_byte_safe utf8_encode_bytes)
  qed
  then show ?thesis by (simp add: list_all_iff)
qed

lemma split_ws_word:
  "list_all (\<lambda>c. \<not> py_isspace c) w \<Longrightarrow> split_ws acc (w @ s) = split_ws (rev w @ acc) s"
  by (induction w arbitrary: acc) auto

lemma split_ws_first:
  "acc \<noteq> [] \<Longrightarrow> s = [] \<or> py_isspace (hd s) \<Longrightarrow> \<exists>rest. split_ws acc s = rev acc # rest"
  by (cases s) auto

lemma py_split_ws_second:
  assumes "list_all (\<lambda>c. \<not> py_isspace c) w1" "w1 \<noteq> []" "py_isspace c"
    "list_all (\<lambda>c. \<not> py_isspace c) w" "w \<noteq> []" "s = [] \<or> py_isspace (hd s)"
  shows "py_index (py_split_ws (w1 @ c # w @ s)) 1 = Inr w"
proof -
  obtain rest where "split_ws (rev w) s = w # rest"
    using split_ws_first [of "rev w" s] assms(5,6) by auto
  then show ?thesis
    using assms(1-4) by (simp add: py_split_ws_def split_ws_word py_index_def)
qed

lemma py_contains_append: "py_contains sub (x @ sub @ y)"
  by (auto simp: py_contains_def list_ex_iff intro!: bexI [of _ "length x"])

lemma set_py_strip: "set (py_strip s) \<subseteq> set s"
proof -
  have h: "\<And>xs. set (dropWhile py_isspace xs) \<subseteq> set xs" by (meson set_dropWhileD subsetI)
  show ?thesis using h [of "rev (dropWhile py_isspace s)"] h [of s] by (auto simp: py_strip_def)
qed

lemma split_head_before:
  assumes "c \<notin> set x"
  shows "split_head (x @ [c] @ y) [c] = x"
proof -
  have "\<forall>i<length x. take (length [c]) (drop i (x @ [c] @ y)) \<noteq> [c]"
    using assms by (auto simp: take_one_drop nth_append)
  from split_on_first [OF this] show ?thesis by (simp add: split_head_def)
qed

text \<open>The index scan of \<open>py_contains\<close> is the library's \<open>sublist\<close>.\<close>

lemma py_contains_sublist: "py_contains sub s \<longleftrightarrow> sublist sub s"
proof
  assume "py_contains sub s"
  then obtain i where i: "take (length sub) (drop i s) = sub"
    by (auto simp: py_contains_def list_ex_iff)
  then have "s = take i s @ sub @ drop (length sub) (drop i s)"
    by (metis append_take_drop_id)
  then show "sublist sub s" by (metis sublist_def)
next
  assume "sublist sub s"
  then obtain ps ss where s: "s = ps @ sub @ ss" by (auto simp: sublist_def)
  then show "py_contains sub s"
    by (auto simp: py_contains_def list_ex_iff intro!: bexI [of _ "length ps"])
qed

end
