(* ===== verification/Timestamp.thy ===== *)
theory Timestamp
  imports Prelude Pystr
begin

text \<open>
  The \<open>created_at\<close> columns receive \<open>datetime.now()\<close>. Python's \<open>sqlite3\<close>
  module stores a \<open>datetime\<close> through its default adapter, which is
  \<open>val.isoformat(" ")\<close>: the text \<open>YYYY-MM-DD HH:MM:SS\<close>, followed by
  \<open>.ffffff\<close> only when the microsecond is not zero (CPython's \<open>_format_time\<close>
  with \<open>timespec='auto'\<close>). The connections are opened without
  \<open>detect_types\<close>, so the column is read back as that text. This theory models
  the adapter; \<open>datetime\<close> is a record of its seven fields. Its lemmas show that,
  for valid datetimes, the lexicographic order of the stored texts (SQLite's BINARY
  collation, which \<open>ORDER BY created_at\<close> uses) is the order of the datetimes:
  every field is zero-padded to a fixed width and the optional microsecond part
  compares as the number it writes.
\<close>

record datetime =
  dt_year :: nat
  dt_month :: nat
  dt_day :: nat
  dt_hour :: nat
  dt_minute :: nat
  dt_second :: nat
  dt_microsecond :: nat

text \<open>Python's \<open>datetime.min\<close>, 0001-01-01 00:00:00.\<close>

definition datetime_min :: datetime where
  "datetime_min = \<lparr>dt_year = 1, dt_month = 1, dt_day = 1, dt_hour = 0, dt_minute = 0,
     dt_second = 0, dt_microsecond = 0\<rparr>"

text \<open>\<open>'%0*d' % (w, n)\<close>: zero-padded to at least \<open>w\<close> digits.\<close>

definition zpad :: "nat \<Rightarrow> nat \<Rightarrow> str" where
  "zpad w n = replicate (w - length (dec_digits n)) 48 @ dec_digits n"

definition adapt_datetime :: "datetime \<Rightarrow> str" where
  "adapt_datetime dt =
     zpad 4 (dt_year dt) @ [45] @ zpad 2 (dt_month dt) @ [45] @ zpad 2 (dt_day dt) @ [32] @
     zpad 2 (dt_hour dt) @ [58] @ zpad 2 (dt_minute dt) @ [58] @ zpad 2 (dt_second dt) @
     (if dt_microsecond dt = 0 then [] else [46] @ zpad 6 (dt_microsecond dt))"

text \<open>The range checks of the \<open>datetime\<close> constructor (with the day bounded by 31, a
  weaker bound than the month's length), and the order Python compares datetimes by:
  the tuple of their fields.\<close>

definition dt_valid :: "datetime \<Rightarrow> bool" where
  "dt_valid dt \<longleftrightarrow> 1 \<le> dt_year dt \<and> dt_year dt \<le> 9999 \<and> 1 \<le> dt_month dt \<and> dt_month dt \<le> 12 \<and>
     1 \<le> dt_day dt \<and> dt_day dt \<le> 31 \<and> dt_hour dt < 24 \<and> dt_minute dt < 60 \<and> dt_second dt < 60 \<and>
     dt_microsecond dt < 1000000"

definition dt_key :: "datetime \<Rightarrow> nat list" where
  "dt_key dt = [dt_year dt, dt_month dt, dt_day dt, dt_hour dt, dt_minute dt, dt_second dt, dt_microsecond dt]"

text \<open>Reading a stored timestamp back (as \<open>datetime.fromisoformat\<close> would): the
  fields at their fixed offsets, for a text of the adapter's two lengths. A text is a
  well-formed timestamp when it decodes to a valid datetime that the adapter writes as
  that same text.\<close>

definition parse_stamp :: "str \<Rightarrow> datetime option" where
  "parse_stamp s =
     (if length s = 19 \<or> length s = 26
      then Some \<lparr>dt_year = digits_value (take 4 s), dt_month = digits_value (take 2 (drop 5 s)),
                 dt_day = digits_value (take 2 (drop 8 s)), dt_hour = digits_value (take 2 (drop 11 s)),
                 dt_minute = digits_value (take 2 (drop 14 s)), dt_second = digits_value (take 2 (drop 17 s)),
                 dt_microsecond = digits_value (drop 20 s)\<rparr>
      else None)"

definition stamp_ok :: "str \<Rightarrow> bool" where
  "stamp_ok s = (case parse_stamp s of None \<Rightarrow> False | Some t \<Rightarrow> dt_valid t \<and> adapt_datetime t = s)"

lemma zpad_digit: "c \<in> set (zpad w n) \<Longrightarrow> 48 \<le> c \<and> c \<le> 57"
  by (auto simp: zpad_def dest: dec_digits_digit)

lemma zpad_ne: "zpad w n \<noteq> []"
  by (simp add: zpad_def)

lemma adapt_datetime_split:
  "adapt_datetime dt = adapt_datetime (dt\<lparr>dt_microsecond := 0\<rparr>) @
     (if dt_microsecond dt = 0 then [] else [46] @ zpad 6 (dt_microsecond dt))"
  by (simp add: adapt_datetime_def)

lemma adapt_datetime_no_dot: "46 \<notin> set (adapt_datetime (dt\<lparr>dt_microsecond := 0\<rparr>))"
  by (auto simp: adapt_datetime_def dest: zpad_digit)

lemma zpad_Suc: "0 < w \<Longrightarrow> zpad (Suc w) n = zpad w (n div 10) @ [48 + n mod 10]"
proof (cases "n < 10")
  case True
  assume w: "0 < w"
  have "dec_digits n = [48 + n]" "dec_digits 0 = [48]" using True by (simp_all add: dec_digits.simps)
  then show ?thesis using True w by (cases w) (simp_all add: zpad_def replicate_append_same)
next
  case False
  then have "dec_digits n = dec_digits (n div 10) @ [48 + n mod 10]" by (simp add: dec_digits.simps [of n])
  then show ?thesis by (simp add: zpad_def)
qed

lemma zpad_length: "0 < w \<Longrightarrow> n < 10 ^ w \<Longrightarrow> length (zpad w n) = w"
proof (induction w arbitrary: n)
  case 0 then show ?case by simp
next
  case (Suc w)
  show ?case
  proof (cases "w = 0")
    case True then show ?thesis using Suc.prems by (simp add: zpad_def dec_digits.simps)
  next
    case False
    have "n div 10 < 10 ^ w" using Suc.prems by (simp add: less_mult_imp_div_less mult.commute)
    then show ?thesis using Suc.IH [of "n div 10"] False by (simp add: zpad_Suc)
  qed
qed

lemma zpad_less:
  "0 < w \<Longrightarrow> n < 10 ^ w \<Longrightarrow> m < 10 ^ w \<Longrightarrow> zpad w n < zpad w m \<longleftrightarrow> n < m"
proof (induction w arbitrary: n m)
  case 0 then show ?case by simp
next
  case (Suc w)
  show ?case
  proof (cases "w = 0")
    case True then show ?thesis using Suc.prems by (simp add: zpad_def dec_digits.simps)
  next
    case False
    have b: "n div 10 < 10 ^ w" "m div 10 < 10 ^ w"
      using Suc.prems by (simp_all add: less_mult_imp_div_less mult.commute)
    have ih: "zpad w (n div 10) < zpad w (m div 10) \<longleftrightarrow> n div 10 < m div 10"
      "zpad w (m div 10) < zpad w (n div 10) \<longleftrightarrow> m div 10 < n div 10"
      using Suc.IH b False by simp_all
    have eq: "zpad w (n div 10) = zpad w (m div 10) \<longleftrightarrow> n div 10 = m div 10"
      using ih by (metis less_irrefl linorder_neqE_nat)
    show ?thesis
      using False b zpad_length [OF _ b(1)] zpad_length [OF _ b(2)] ih eq nat_less_div_mod10 [of n m]
      by (simp add: zpad_Suc lex_append_same_length)
  qed
qed

lemma zpad_eq_iff:
  "0 < w \<Longrightarrow> n < 10 ^ w \<Longrightarrow> m < 10 ^ w \<Longrightarrow> zpad w n = zpad w m \<longleftrightarrow> n = m"
  using zpad_less [of w n m] zpad_less [of w m n] by (metis less_irrefl linorder_neqE_nat)

lemma microsecond_tail_less:
  assumes "u < 10 ^ 6" "v < 10 ^ 6"
  shows "(if u = 0 then [] else [46] @ zpad 6 u) < (if v = 0 then [] else [46] @ zpad 6 v) \<longleftrightarrow> u < v"
  using zpad_less [OF _ assms] by auto

theorem adapt_datetime_order:
  assumes "dt_valid a" "dt_valid b"
  shows "adapt_datetime a < adapt_datetime b \<longleftrightarrow> dt_key a < dt_key b"
proof -
  have bounds: "dt_year a < 10 ^ 4" "dt_year b < 10 ^ 4" "dt_month a < 10 ^ 2" "dt_month b < 10 ^ 2"
    "dt_day a < 10 ^ 2" "dt_day b < 10 ^ 2" "dt_hour a < 10 ^ 2" "dt_hour b < 10 ^ 2"
    "dt_minute a < 10 ^ 2" "dt_minute b < 10 ^ 2" "dt_second a < 10 ^ 2" "dt_second b < 10 ^ 2"
    "dt_microsecond a < 10 ^ 6" "dt_microsecond b < 10 ^ 6"
    using assms by (simp_all add: dt_valid_def)
  note len = bounds [THEN zpad_length [rotated]]
  note less = zpad_less [OF _ bounds(1,2)] zpad_less [OF _ bounds(3,4)] zpad_less [OF _ bounds(5,6)]
    zpad_less [OF _ bounds(7,8)] zpad_less [OF _ bounds(9,10)] zpad_less [OF _ bounds(11,12)]
  note eqs = zpad_eq_iff [OF _ bounds(1,2)] zpad_eq_iff [OF _ bounds(3,4)] zpad_eq_iff [OF _ bounds(5,6)]
    zpad_eq_iff [OF _ bounds(7,8)] zpad_eq_iff [OF _ bounds(9,10)] zpad_eq_iff [OF _ bounds(11,12)]
  show ?thesis
    unfolding adapt_datetime_def dt_key_def
    using len less eqs microsecond_tail_less [OF bounds(13,14)]
    by (simp add: lex_append_same_length)
qed

lemma digits_value_zpad: "digits_value (zpad w n) = n"
proof -
  have "foldl (\<lambda>n c. 10 * n + (c - 48)) 0 (replicate k (48::nat)) = 0" for k
    by (induction k) simp_all
  then show ?thesis
    using digits_value_dec_digits [of n]
    by (simp add: zpad_def digits_value_def)
qed

theorem parse_stamp_adapt:
  assumes "dt_valid t"
  shows "parse_stamp (adapt_datetime t) = Some t"
proof -
  have b: "dt_year t < 10 ^ 4" "dt_month t < 10 ^ 2" "dt_day t < 10 ^ 2" "dt_hour t < 10 ^ 2"
    "dt_minute t < 10 ^ 2" "dt_second t < 10 ^ 2" "dt_microsecond t < 10 ^ 6"
    using assms by (simp_all add: dt_valid_def)
  note len = b [THEN zpad_length [rotated]]
  have "digits_value [] = 0" by (simp add: digits_value_def)
  then show ?thesis
    using len by (cases t) (simp add: parse_stamp_def adapt_datetime_def digits_value_zpad)
qed

lemma stamp_ok_adapt: "dt_valid t \<Longrightarrow> stamp_ok (adapt_datetime t)"
  by (simp add: stamp_ok_def parse_stamp_adapt)

subsection \<open>Properties of the adapter\<close>

lemma stamp_okD: "stamp_ok s \<Longrightarrow> \<exists>t. dt_valid t \<and> s = adapt_datetime t"
  by (auto simp: stamp_ok_def split: option.splits)

lemma adapt_datetime_fields:
  assumes "dt_valid t"
  shows "\<exists>y mo da h mi se us.
           adapt_datetime t = y @ [45] @ mo @ [45] @ da @ [32] @ h @ [58] @ mi @ [58] @ se @ us \<and>
           length y = 4 \<and> length mo = 2 \<and> length da = 2 \<and> length h = 2 \<and> length mi = 2 \<and>
           length se = 2 \<and> list_all is_digit (y @ mo @ da @ h @ mi @ se) \<and>
           (us = [] \<or> (\<exists>f. us = 46 # f \<and> length f = 6 \<and> list_all is_digit f))"
proof -
  have b: "dt_year t < 10 ^ 4" "dt_month t < 10 ^ 2" "dt_day t < 10 ^ 2" "dt_hour t < 10 ^ 2"
    "dt_minute t < 10 ^ 2" "dt_second t < 10 ^ 2" "dt_microsecond t < 10 ^ 6"
    using assms by (simp_all add: dt_valid_def)
  note len = b [THEN zpad_length [rotated]]
  have dig: "list_all is_digit (zpad w n)" for w n
    using zpad_digit by (auto simp: list_all_iff is_digit_def)
  show ?thesis
    unfolding adapt_datetime_def
    by (rule exI [of _ "zpad 4 (dt_year t)"], rule exI [of _ "zpad 2 (dt_month t)"],
        rule exI [of _ "zpad 2 (dt_day t)"], rule exI [of _ "zpad 2 (dt_hour t)"],
        rule exI [of _ "zpad 2 (dt_minute t)"], rule exI [of _ "zpad 2 (dt_second t)"],
        rule exI [of _ "if dt_microsecond t = 0 then [] else 46 # zpad 6 (dt_microsecond t)"])
      (use len dig in simp)
qed

end
