(* ===== verification/Tracking.thy ===== *)
theory Tracking
  imports Prelude
begin

text \<open>
  The tracking-number generator \<open>generate_tracking_number\<close> of
  \<open>package_service.py\<close>: two letters drawn by \<open>random.choices\<close> from
  \<open>string.ascii_uppercase\<close>, a hyphen, six digits drawn from \<open>string.digits\<close>.
  \<open>random.choices(pop, k=k)\<close> picks \<open>pop[floor(random() * len(pop))]\<close> \<open>k\<close>
  times; the model takes the indices it picked as an argument (the draws), and
  \<open>draws_ok n k rs\<close> is what the random source guarantees about them: \<open>k\<close>
  indices below \<open>n\<close>. The theory proves that every generated number has the
  documented shape \<open>[A-Z]{2}-[0-9]{6}\<close>, that the draws can be read back from
  the number (so distinct draws give distinct numbers), that every number of
  that shape is generated, and how many numbers there are.
\<close>

definition ascii_uppercase :: str where
  "ascii_uppercase = [65..<91]"

definition digits :: str where
  "digits = [48..<58]"

definition choices :: "str \<Rightarrow> nat list \<Rightarrow> str" where
  "choices pop rs = map (\<lambda>r. pop ! r) rs"

definition draws_ok :: "nat \<Rightarrow> nat \<Rightarrow> nat list \<Rightarrow> bool" where
  "draws_ok n k rs \<longleftrightarrow> length rs = k \<and> list_all (\<lambda>r. r < n) rs"

definition generate_tracking_number :: "nat list \<Rightarrow> nat list \<Rightarrow> str" where
  "generate_tracking_number ls ds = choices ascii_uppercase ls @ [45] @ choices digits ds"

subsection \<open>The documented shape\<close>

definition is_ascii_upper :: "nat \<Rightarrow> bool" where
  "is_ascii_upper c \<longleftrightarrow> 65 \<le> c \<and> c \<le> 90"

definition is_ascii_digit :: "nat \<Rightarrow> bool" where
  "is_ascii_digit c \<longleftrightarrow> 48 \<le> c \<and> c \<le> 57"

text \<open>The regular expression \<open>[A-Z]{2}-[0-9]{6}\<close>, matched against the whole string.\<close>

definition tracking_format :: "str \<Rightarrow> bool" where
  "tracking_format s \<longleftrightarrow>
     length s = 9 \<and> list_all is_ascii_upper (take 2 s) \<and> s ! 2 = 45 \<and>
     list_all is_ascii_digit (drop 3 s)"

text \<open>Reading the draws back from a number: the inverse of the generator.\<close>

definition tracking_draws :: "str \<Rightarrow> nat list \<times> nat list" where
  "tracking_draws s = (map (\<lambda>c. c - 65) (take 2 s), map (\<lambda>c. c - 48) (drop 3 s))"

definition valid_draws :: "(nat list \<times> nat list) set" where
  "valid_draws = {(ls, ds). draws_ok 26 2 ls \<and> draws_ok 10 6 ds}"

subsection \<open>Lemmas\<close>

lemma choices_upt:
  "list_all (\<lambda>r. r < n) rs \<Longrightarrow> choices [a..<a + n] rs = map (\<lambda>r. a + r) rs"
  by (induction rs) (auto simp: choices_def)

lemma generate_tracking_number_eq:
  assumes "draws_ok 26 2 ls" and "draws_ok 10 6 ds"
  shows "generate_tracking_number ls ds = map (\<lambda>r. 65 + r) ls @ [45] @ map (\<lambda>r. 48 + r) ds"
proof -
  have "choices ascii_uppercase ls = map (\<lambda>r. 65 + r) ls"
    using assms(1) choices_upt [of 26 ls 65] by (simp add: ascii_uppercase_def draws_ok_def)
  moreover have "choices digits ds = map (\<lambda>r. 48 + r) ds"
    using assms(2) choices_upt [of 10 ds 48] by (simp add: digits_def draws_ok_def)
  ultimately show ?thesis by (simp add: generate_tracking_number_def)
qed

lemma generate_tracking_number_ne [simp]: "generate_tracking_number ls ds \<noteq> []"
  by (simp add: generate_tracking_number_def)

lemma length_generate_tracking_number:
  "draws_ok 26 2 ls \<Longrightarrow> draws_ok 10 6 ds \<Longrightarrow> length (generate_tracking_number ls ds) = 9"
  by (simp add: generate_tracking_number_eq draws_ok_def)

lemma list_all_shift:
  "list_all (\<lambda>r. r < n) rs \<Longrightarrow> list_all (\<lambda>c. a \<le> c \<and> c < a + n) (map (\<lambda>r. a + r) rs)"
  for a n :: nat
  by (induction rs) auto

lemma generate_tracking_number_format:
  assumes "draws_ok 26 2 ls" and "draws_ok 10 6 ds"
  shows "tracking_format (generate_tracking_number ls ds)"
proof -
  have l: "length ls = 2" and d: "length ds = 6"
    using assms by (simp_all add: draws_ok_def)
  have "list_all is_ascii_upper (map (\<lambda>r. 65 + r) ls)"
    using assms(1) list_all_shift [of 26 ls 65]
    by (auto simp: draws_ok_def is_ascii_upper_def list_all_iff)
  moreover have "list_all is_ascii_digit (map (\<lambda>r. 48 + r) ds)"
    using assms(2) list_all_shift [of 10 ds 48]
    by (auto simp: draws_ok_def is_ascii_digit_def list_all_iff)
  ultimately show ?thesis
    using l d by (simp add: generate_tracking_number_eq [OF assms] tracking_format_def nth_append)
qed

lemma tracking_draws_generate:
  assumes "draws_ok 26 2 ls" and "draws_ok 10 6 ds"
  shows "tracking_draws (generate_tracking_number ls ds) = (ls, ds)"
proof -
  have "length ls = 2" using assms(1) by (simp add: draws_ok_def)
  then show ?thesis
    by (simp add: generate_tracking_number_eq [OF assms] tracking_draws_def comp_def)
qed

lemma list_all_unshift:
  "list_all (\<lambda>c. a \<le> c \<and> c < a + n) s \<Longrightarrow>
   list_all (\<lambda>r. r < n) (map (\<lambda>c. c - a) s) \<and> map (\<lambda>r. a + r) (map (\<lambda>c. c - a) s) = s"
  for a n :: nat
  by (induction s) (auto simp: less_diff_conv2)

lemma generate_tracking_draws:
  assumes "tracking_format s"
  shows "draws_ok 26 2 (fst (tracking_draws s)) \<and> draws_ok 10 6 (snd (tracking_draws s)) \<and>
         generate_tracking_number (fst (tracking_draws s)) (snd (tracking_draws s)) = s"
proof -
  have len: "length s = 9" and h: "s ! 2 = 45"
    and u: "list_all (\<lambda>c. 65 \<le> c \<and> c < 65 + 26) (take 2 s)"
    and g: "list_all (\<lambda>c. 48 \<le> c \<and> c < 48 + 10) (drop 3 s)"
    using assms
    by (auto simp: tracking_format_def is_ascii_upper_def is_ascii_digit_def list_all_iff)
  note U = list_all_unshift [OF u] and G = list_all_unshift [OF g]
  let ?ls = "map (\<lambda>c. c - 65) (take 2 s)" and ?ds = "map (\<lambda>c. c - 48) (drop 3 s)"
  have ok: "draws_ok 26 2 ?ls" "draws_ok 10 6 ?ds"
    using U G len by (simp_all add: draws_ok_def)
  have "drop 2 s = s ! 2 # drop (Suc 2) s"
    using len Cons_nth_drop_Suc [of 2 s] by simp
  then have split: "s = take 2 s @ [45] @ drop 3 s"
    using h by (metis append_take_drop_id append_Cons append_Nil numeral_3_eq_3 numeral_2_eq_2)
  have "generate_tracking_number ?ls ?ds = take 2 s @ [45] @ drop 3 s"
    using U G by (simp only: generate_tracking_number_eq [OF ok])
  with ok split show ?thesis by (simp add: tracking_draws_def)
qed

lemma card_valid_draws: "card valid_draws = 26 ^ 2 * 10 ^ 6"
proof -
  have lists: "{rs. draws_ok n k rs} = {xs. set xs \<subseteq> {..<n} \<and> length xs = k}" for n k
    by (auto simp: draws_ok_def list_all_iff)
  have V: "valid_draws = {ls. draws_ok 26 2 ls} \<times> {ds. draws_ok 10 6 ds}"
    by (auto simp: valid_draws_def)
  have "card valid_draws = card {ls. draws_ok 26 2 ls} * card {ds. draws_ok 10 6 ds}"
    unfolding V by (rule card_cartesian_product)
  then show ?thesis
    by (simp only: lists card_lists_length_eq finite_lessThan card_lessThan)
qed

lemma generated_numbers_image:
  "{generate_tracking_number ls ds | ls ds. draws_ok 26 2 ls \<and> draws_ok 10 6 ds} =
   (\<lambda>(ls, ds). generate_tracking_number ls ds) ` valid_draws"
  by (auto simp: valid_draws_def)

lemma inj_on_generate: "inj_on (\<lambda>(ls, ds). generate_tracking_number ls ds) valid_draws"
proof (rule inj_onI)
  fix x y assume x: "x \<in> valid_draws" and y: "y \<in> valid_draws"
    and eq: "(\<lambda>(ls, ds). generate_tracking_number ls ds) x = (\<lambda>(ls, ds). generate_tracking_number ls ds) y"
  from x y eq show "x = y"
    by (cases x, cases y) (metis (mono_tags, lifting) case_prod_conv mem_Collect_eq
        tracking_draws_generate valid_draws_def)
qed

subsection \<open>Properties of the generator\<close>

text \<open>C3. The numbers \<open>generate_tracking_number\<close> can return are exactly the strings
  matching \<open>[A-Z]{2}-[0-9]{6}\<close>: every generated number has that shape, and every
  string of that shape is produced by some outcome of the random draws.\<close>

theorem tracking_numbers_format:
  "{generate_tracking_number ls ds | ls ds. draws_ok 26 2 ls \<and> draws_ok 10 6 ds} =
   {s. tracking_format s}"
proof (intro set_eqI iffI)
  fix s assume "s \<in> {generate_tracking_number ls ds | ls ds. draws_ok 26 2 ls \<and> draws_ok 10 6 ds}"
  then show "s \<in> {s. tracking_format s}"
    by (auto intro: generate_tracking_number_format)
next
  fix s assume "s \<in> {s. tracking_format s}"
  then have "tracking_format s" by simp
  from generate_tracking_draws [OF this] show
    "s \<in> {generate_tracking_number ls ds | ls ds. draws_ok 26 2 ls \<and> draws_ok 10 6 ds}"
    by (metis (mono_tags, lifting) mem_Collect_eq)
qed

text \<open>C11. Distinct outcomes of the random draws give distinct tracking numbers: the
  generator loses no randomness, so collisions come only from repeated draws.\<close>

theorem generate_tracking_number_inj:
  assumes "draws_ok 26 2 ls" "draws_ok 10 6 ds" "draws_ok 26 2 ls'" "draws_ok 10 6 ds'"
  shows "generate_tracking_number ls ds = generate_tracking_number ls' ds' \<longleftrightarrow> ls = ls' \<and> ds = ds'"
proof
  assume "generate_tracking_number ls ds = generate_tracking_number ls' ds'"
  then have "tracking_draws (generate_tracking_number ls ds) =
             tracking_draws (generate_tracking_number ls' ds')" by simp
  then show "ls = ls' \<and> ds = ds'"
    by (simp add: tracking_draws_generate [OF assms(1,2)] tracking_draws_generate [OF assms(3,4)])
qed simp

theorem generate_tracking_number_inj_witness:
  "draws_ok 26 2 [0, 1] \<and> draws_ok 10 6 [0, 0, 0, 0, 0, 0] \<and>
   draws_ok 26 2 [1, 0] \<and> draws_ok 10 6 [0, 0, 0, 0, 0, 0] \<and>
   generate_tracking_number [0, 1] [0, 0, 0, 0, 0, 0] \<noteq> generate_tracking_number [1, 0] [0, 0, 0, 0, 0, 0]"
proof -
  have ok: "draws_ok 26 2 [0, 1]" "draws_ok 10 6 [0, 0, 0, 0, 0, 0]" "draws_ok 26 2 [1, 0]"
    by (simp_all add: draws_ok_def)
  show ?thesis
    using generate_tracking_number_inj [OF ok(1,2) ok(3,2)] ok by simp
qed

text \<open>C10. The generator has \<open>26^2 * 10^6\<close> = 676,000,000 possible outputs. (The
  specification's estimate, 2 * 26 * 10^6 = 52 million, undercounts the letter pairs.)\<close>

theorem card_tracking_numbers:
  "card {generate_tracking_number ls ds | ls ds. draws_ok 26 2 ls \<and> draws_ok 10 6 ds} = 676000000"
proof -
  have "card {generate_tracking_number ls ds | ls ds. draws_ok 26 2 ls \<and> draws_ok 10 6 ds} =
        card valid_draws"
    unfolding generated_numbers_image by (rule card_image [OF inj_on_generate])
  then show ?thesis by (simp add: card_valid_draws)
qed

end
