(* ===== verification/Store.thy ===== *)
theory Store
  imports Prelude Timestamp
begin

text \<open>
  The store, \<open>database.py\<close>: three SQLite tables (\<open>packages\<close>, \<open>couriers\<close>,
  \<open>reviews\<close>) and one function per statement. Each function opens a connection,
  runs one statement, commits and closes, so a call is atomic: it either takes
  effect whole or raises and leaves the file as it was. The state \<open>db\<close> is the
  content of \<open>delivery_service.db\<close>: whether \<open>initialize_db\<close> has created the
  tables, the rows of each table in rowid order, and the \<open>sqlite_sequence\<close>
  counter of each \<open>AUTOINCREMENT\<close> key.

  Every function takes two inputs from its environment: \<open>fault\<close>, true when
  \<open>sqlite3\<close> raises an error the program does not cause (the file cannot be
  opened, the database is locked), and where a row is written, \<open>now\<close>, the value
  of \<open>datetime.now()\<close>. A statement on a table that does not exist raises
  \<open>OperationalError\<close>, like a fault; both end in \<open>except Exception\<close>.
\<close>

subsection \<open>Rows and the database\<close>

record package_row =
  pkg_id :: nat
  pkg_tracking_number :: str
  pkg_description :: str
  pkg_status :: str
  pkg_sender :: str
  pkg_recipient :: str
  pkg_sender_address :: str
  pkg_recipient_address :: str
  pkg_created_at :: str

record courier_row =
  cour_id :: nat
  cour_name :: str
  cour_phone :: str
  cour_email :: str
  cour_status :: str
  cour_created_at :: str

record review_row =
  rev_id :: nat
  rev_tracking_number :: str
  rev_customer_name :: str
  rev_rating :: int
  rev_comment :: str
  rev_created_at :: str

record db =
  tables_created :: bool
  packages :: "package_row list"
  couriers :: "courier_row list"
  reviews :: "review_row list"
  seq_packages :: nat
  seq_couriers :: nat
  seq_reviews :: nat

text \<open>A new \<open>delivery_service.db\<close>: no tables yet.\<close>

definition empty_db :: db where
  "empty_db = \<lparr>tables_created = False, packages = [], couriers = [], reviews = [],
     seq_packages = 0, seq_couriers = 0, seq_reviews = 0\<rparr>"

text \<open>Initial status of a package, \<open>"Otpravlena"\<close> (Russian for "sent"), and the column default of
  \<open>couriers.status\<close>, \<open>'Aktiven'\<close> ("active"), as code points.\<close>

definition status_sent :: str where
  "status_sent = [1054, 1090, 1087, 1088, 1072, 1074, 1083, 1077, 1085, 1072]"

definition courier_status_active :: str where
  "courier_status_active = [1040, 1082, 1090, 1080, 1074, 1077, 1085]"

subsection \<open>SQLite behaviour the functions rely on\<close>

text \<open>\<open>AUTOINCREMENT\<close>: the new rowid is one more than the larger of the
  \<open>sqlite_sequence\<close> entry and the largest rowid in the table; when that is the
  largest rowid SQLite allows, the insert fails with \<open>SQLITE_FULL\<close>.\<close>

definition max_rowid :: nat where
  "max_rowid = 2 ^ 63 - 1"

definition last_rowid :: "nat \<Rightarrow> nat list \<Rightarrow> nat" where
  "last_rowid seq ids = fold max ids seq"

definition rowid_full :: "nat \<Rightarrow> nat list \<Rightarrow> bool" where
  "rowid_full seq ids \<longleftrightarrow> max_rowid \<le> last_rowid seq ids"

definition stmt_fails :: "bool \<Rightarrow> db \<Rightarrow> bool" where
  "stmt_fails fault d \<longleftrightarrow> fault \<or> \<not> tables_created d"

subsection \<open>The functions of database.py\<close>

text \<open>\<open>initialize_db\<close> has no \<open>try\<close>: an error propagates to \<open>main\<close>
  (\<open>None\<close>). \<open>CREATE TABLE IF NOT EXISTS\<close> keeps existing tables and rows.\<close>

definition initialize_db :: "bool \<Rightarrow> db \<Rightarrow> db option" where
  "initialize_db fault d = (if fault then None else Some (d\<lparr>tables_created := True\<rparr>))"

definition create_package ::
  "bool \<Rightarrow> datetime \<Rightarrow> str \<Rightarrow> str \<Rightarrow> str \<Rightarrow> str \<Rightarrow> str \<Rightarrow> str \<Rightarrow> db \<Rightarrow> bool \<times> db" where
  "create_package fault now tracking_number description sender recipient
      sender_address recipient_address d =
    (let ids = map pkg_id (packages d) in
     if stmt_fails fault d then (False, d)
     else if rowid_full (seq_packages d) ids then (False, d)
     else if tracking_number \<in> set (map pkg_tracking_number (packages d)) then (False, d)
     else
       let i = Suc (last_rowid (seq_packages d) ids);
           row = \<lparr>pkg_id = i, pkg_tracking_number = tracking_number,
                  pkg_description = description, pkg_status = status_sent,
                  pkg_sender = sender, pkg_recipient = recipient,
                  pkg_sender_address = sender_address,
                  pkg_recipient_address = recipient_address,
                  pkg_created_at = adapt_datetime now\<rparr>
       in (True, d\<lparr>packages := packages d @ [row], seq_packages := i\<rparr>))"

definition get_package_by_tracking :: "bool \<Rightarrow> str \<Rightarrow> db \<Rightarrow> package_row option" where
  "get_package_by_tracking fault tracking_number d =
    (if stmt_fails fault d then None
     else find (\<lambda>p. pkg_tracking_number p = tracking_number) (packages d))"

definition update_package_status :: "bool \<Rightarrow> str \<Rightarrow> str \<Rightarrow> db \<Rightarrow> bool \<times> db" where
  "update_package_status fault tracking_number new_status d =
    (if stmt_fails fault d then (False, d)
     else (list_ex (\<lambda>p. pkg_tracking_number p = tracking_number) (packages d),
           d\<lparr>packages := map (\<lambda>p. if pkg_tracking_number p = tracking_number
                                  then p\<lparr>pkg_status := new_status\<rparr> else p) (packages d)\<rparr>))"

definition create_courier :: "bool \<Rightarrow> datetime \<Rightarrow> str \<Rightarrow> str \<Rightarrow> str \<Rightarrow> db \<Rightarrow> bool \<times> db" where
  "create_courier fault now name phone email d =
    (let ids = map cour_id (couriers d) in
     if stmt_fails fault d then (False, d)
     else if rowid_full (seq_couriers d) ids then (False, d)
     else
       let i = Suc (last_rowid (seq_couriers d) ids);
           row = \<lparr>cour_id = i, cour_name = name, cour_phone = phone, cour_email = email,
                  cour_status = courier_status_active, cour_created_at = adapt_datetime now\<rparr>
       in (True, d\<lparr>couriers := couriers d @ [row], seq_couriers := i\<rparr>))"

text \<open>\<open>ORDER BY name\<close>: SQL leaves the order of equal names open; the model keeps
  them in rowid order (a stable sort of the table scan).\<close>

definition get_all_couriers :: "bool \<Rightarrow> db \<Rightarrow> courier_row list" where
  "get_all_couriers fault d =
    (if stmt_fails fault d then [] else sort_key cour_name (couriers d))"

definition delete_courier :: "bool \<Rightarrow> int \<Rightarrow> db \<Rightarrow> bool \<times> db" where
  "delete_courier fault courier_id d =
    (if stmt_fails fault d then (False, d)
     else (list_ex (\<lambda>c. int (cour_id c) = courier_id) (couriers d),
           d\<lparr>couriers := filter (\<lambda>c. int (cour_id c) \<noteq> courier_id) (couriers d)\<rparr>))"

definition create_review :: "bool \<Rightarrow> datetime \<Rightarrow> str \<Rightarrow> str \<Rightarrow> int \<Rightarrow> str \<Rightarrow> db \<Rightarrow> bool \<times> db" where
  "create_review fault now tracking_number customer_name rating comment d =
    (let ids = map rev_id (reviews d) in
     if stmt_fails fault d then (False, d)
     else if rowid_full (seq_reviews d) ids then (False, d)
     else
       let i = Suc (last_rowid (seq_reviews d) ids);
           row = \<lparr>rev_id = i, rev_tracking_number = tracking_number,
                  rev_customer_name = customer_name, rev_rating = rating,
                  rev_comment = comment, rev_created_at = adapt_datetime now\<rparr>
       in (True, d\<lparr>reviews := reviews d @ [row], seq_reviews := i\<rparr>))"

text \<open>\<open>ORDER BY created_at DESC\<close>, with equal timestamps in reverse rowid order.\<close>

definition get_all_reviews :: "bool \<Rightarrow> db \<Rightarrow> review_row list" where
  "get_all_reviews fault d =
    (if stmt_fails fault d then [] else rev (sort_key rev_created_at (reviews d)))"

definition get_all_packages :: "bool \<Rightarrow> db \<Rightarrow> package_row list" where
  "get_all_packages fault d =
    (if stmt_fails fault d then [] else rev (sort_key pkg_created_at (packages d)))"

text \<open>The writes of \<open>database.py\<close> as one type of calls, and their effect on the
  file; a run is a sequence of calls.\<close>

datatype store_call =
    Create_package bool datetime str str str str str str
  | Update_package_status bool str str
  | Create_courier bool datetime str str str
  | Delete_courier bool int
  | Create_review bool datetime str str int str
  | Initialize_db bool

fun store_effect :: "store_call \<Rightarrow> db \<Rightarrow> db" where
  "store_effect (Create_package f t tn de s r sa ra) d = snd (create_package f t tn de s r sa ra d)"
| "store_effect (Update_package_status f tn st) d = snd (update_package_status f tn st d)"
| "store_effect (Create_courier f t n p e) d = snd (create_courier f t n p e d)"
| "store_effect (Delete_courier f cid) d = snd (delete_courier f cid d)"
| "store_effect (Create_review f t tn n rt c) d = snd (create_review f t tn n rt c d)"
| "store_effect (Initialize_db f) d = (case initialize_db f d of None \<Rightarrow> d | Some d' \<Rightarrow> d')"

definition run_store :: "store_call list \<Rightarrow> db \<Rightarrow> db" where
  "run_store cs d = fold store_effect cs d"

text \<open>The file as \<open>main\<close> leaves it when it starts on a new database.\<close>

definition fresh_db :: db where
  "fresh_db = the (initialize_db False empty_db)"

declare create_package_def [store_ops] get_package_by_tracking_def [store_ops]
  update_package_status_def [store_ops] create_courier_def [store_ops]
  get_all_couriers_def [store_ops] delete_courier_def [store_ops]
  create_review_def [store_ops] get_all_reviews_def [store_ops]
  get_all_packages_def [store_ops] initialize_db_def [store_ops]

subsection \<open>The store invariant\<close>

text \<open>What the schema and \<open>AUTOINCREMENT\<close> keep true: tracking numbers are unique
  (\<open>UNIQUE\<close>); the rowids of each table increase in scan order, are positive and
  never exceed the table's \<open>sqlite_sequence\<close> entry, which stays within the
  rowid range; rows exist only once the tables do.\<close>

definition ids_ok :: "nat \<Rightarrow> nat list \<Rightarrow> bool" where
  "ids_ok seq ids \<longleftrightarrow>
     sorted_wrt (<) ids \<and> list_all (\<lambda>i. 0 < i \<and> i \<le> seq) ids \<and> seq \<le> max_rowid"

definition db_inv :: "db \<Rightarrow> bool" where
  "db_inv d \<longleftrightarrow>
     distinct (map pkg_tracking_number (packages d)) \<and>
     ids_ok (seq_packages d) (map pkg_id (packages d)) \<and>
     ids_ok (seq_couriers d) (map cour_id (couriers d)) \<and>
     ids_ok (seq_reviews d) (map rev_id (reviews d)) \<and>
     (tables_created d \<or> packages d = [] \<and> couriers d = [] \<and> reviews d = [])"

lemma db_inv_empty_db: "db_inv empty_db"
  by (simp add: db_inv_def empty_db_def ids_ok_def max_rowid_def)

lemma fresh_db_simps [simp]:
  "tables_created fresh_db" "packages fresh_db = []" "couriers fresh_db = []" "reviews fresh_db = []"
  "seq_packages fresh_db = 0" "seq_couriers fresh_db = 0" "seq_reviews fresh_db = 0"
  by (simp_all add: fresh_db_def initialize_db_def empty_db_def)

lemma db_inv_fresh_db: "db_inv fresh_db"
  by (simp add: db_inv_def ids_ok_def max_rowid_def)

lemma stmt_ok_fresh_db: "\<not> stmt_fails False fresh_db"
  by (simp add: stmt_fails_def)

lemma max_rowid_pos: "0 < max_rowid"
  by (simp add: max_rowid_def)

lemma last_rowid_ids_ok: "ids_ok seq ids \<Longrightarrow> last_rowid seq ids = seq"
  using fold_max_le_iff [of ids seq seq] fold_max_ge [of seq ids]
  by (auto simp: ids_ok_def last_rowid_def list_all_iff)

lemma rowid_full_ids_ok: "ids_ok seq ids \<Longrightarrow> rowid_full seq ids \<longleftrightarrow> seq = max_rowid"
  by (auto simp: rowid_full_def last_rowid_ids_ok ids_ok_def)

lemma ids_ok_append:
  "ids_ok seq ids \<Longrightarrow> seq \<noteq> max_rowid \<Longrightarrow> ids_ok (Suc seq) (ids @ [Suc seq])"
  by (auto simp: ids_ok_def sorted_wrt_append list_all_iff)

lemma ids_ok_filter: "ids_ok seq (map f xs) \<Longrightarrow> ids_ok seq (map f (filter P xs))"
  by (auto simp: ids_ok_def list_all_iff)

lemmas db_inv_simps = db_inv_def ids_ok_def

text \<open>Every write either fails and leaves the file unchanged, or succeeds with the
  effect below; a read never changes it.\<close>

lemma create_package_result:
  assumes "db_inv d"
  shows "create_package fault now tn de s r sa ra d =
    (if stmt_fails fault d \<or> seq_packages d = max_rowid \<or> tn \<in> set (map pkg_tracking_number (packages d))
     then (False, d)
     else (True, d\<lparr>packages := packages d @ [\<lparr>pkg_id = Suc (seq_packages d), pkg_tracking_number = tn,
                  pkg_description = de, pkg_status = status_sent, pkg_sender = s, pkg_recipient = r,
                  pkg_sender_address = sa, pkg_recipient_address = ra,
                  pkg_created_at = adapt_datetime now\<rparr>], seq_packages := Suc (seq_packages d)\<rparr>))"
proof -
  have I: "ids_ok (seq_packages d) (map pkg_id (packages d))" using assms by (simp add: db_inv_def)
  show ?thesis
    unfolding create_package_def Let_def rowid_full_ids_ok [OF I] last_rowid_ids_ok [OF I] by simp
qed

lemma create_courier_result:
  assumes "db_inv d"
  shows "create_courier fault now n p e d =
    (if stmt_fails fault d \<or> seq_couriers d = max_rowid then (False, d)
     else (True, d\<lparr>couriers := couriers d @ [\<lparr>cour_id = Suc (seq_couriers d), cour_name = n,
                  cour_phone = p, cour_email = e, cour_status = courier_status_active,
                  cour_created_at = adapt_datetime now\<rparr>], seq_couriers := Suc (seq_couriers d)\<rparr>))"
proof -
  have I: "ids_ok (seq_couriers d) (map cour_id (couriers d))" using assms by (simp add: db_inv_def)
  show ?thesis
    unfolding create_courier_def Let_def rowid_full_ids_ok [OF I] last_rowid_ids_ok [OF I] by simp
qed

lemma create_review_result:
  assumes "db_inv d"
  shows "create_review fault now tn n rt c d =
    (if stmt_fails fault d \<or> seq_reviews d = max_rowid then (False, d)
     else (True, d\<lparr>reviews := reviews d @ [\<lparr>rev_id = Suc (seq_reviews d), rev_tracking_number = tn,
                  rev_customer_name = n, rev_rating = rt, rev_comment = c,
                  rev_created_at = adapt_datetime now\<rparr>], seq_reviews := Suc (seq_reviews d)\<rparr>))"
proof -
  have I: "ids_ok (seq_reviews d) (map rev_id (reviews d))" using assms by (simp add: db_inv_def)
  show ?thesis
    unfolding create_review_def Let_def rowid_full_ids_ok [OF I] last_rowid_ids_ok [OF I] by simp
qed

lemma create_package_False: "create_package fault now tn de s r sa ra d = (False, d') \<Longrightarrow> d' = d"
  by (auto simp: create_package_def Let_def split: if_splits)

lemma create_courier_False: "create_courier fault now n p e d = (False, d') \<Longrightarrow> d' = d"
  by (auto simp: create_courier_def Let_def split: if_splits)

lemma create_review_False: "create_review fault now tn n rt c d = (False, d') \<Longrightarrow> d' = d"
  by (auto simp: create_review_def Let_def split: if_splits)

subsection \<open>Each write keeps the invariant\<close>

lemma create_package_inv:
  "db_inv d \<Longrightarrow> db_inv (snd (create_package fault now tn de s r sa ra d))"
  by (auto simp: create_package_result db_inv_def stmt_fails_def comp_def intro: ids_ok_append)

lemma create_package_inv_pair:
  "create_package fault now tn de s r sa ra d = (b, d') \<Longrightarrow> db_inv d \<Longrightarrow> db_inv d'"
  using create_package_inv [of d fault now tn de s r sa ra] by simp

lemma create_courier_inv:
  "db_inv d \<Longrightarrow> db_inv (snd (create_courier fault now n p e d))"
  by (auto simp: create_courier_result db_inv_def stmt_fails_def intro: ids_ok_append)

lemma create_review_inv:
  "db_inv d \<Longrightarrow> db_inv (snd (create_review fault now tn n rt c d))"
  by (auto simp: create_review_result db_inv_def stmt_fails_def intro: ids_ok_append)

lemma status_update_keeps_keys [simp]:
  "pkg_tracking_number \<circ> (\<lambda>p. if P p then p\<lparr>pkg_status := v\<rparr> else p) = pkg_tracking_number"
  "pkg_id \<circ> (\<lambda>p. if P p then p\<lparr>pkg_status := v\<rparr> else p) = pkg_id"
  by (simp_all add: fun_eq_iff)

lemma update_package_status_inv:
  "db_inv d \<Longrightarrow> db_inv (snd (update_package_status fault tn st d))"
  by (auto simp: update_package_status_def db_inv_def)

lemma delete_courier_inv:
  "db_inv d \<Longrightarrow> db_inv (snd (delete_courier fault cid d))"
  by (auto simp: delete_courier_def db_inv_def intro: ids_ok_filter)

lemma initialize_db_inv:
  "db_inv d \<Longrightarrow> initialize_db fault d = Some d' \<Longrightarrow> db_inv d'"
  by (auto simp: initialize_db_def db_inv_def split: if_splits)

lemma store_effect_inv_aux: "db_inv d \<Longrightarrow> db_inv (store_effect c d)"
  by (cases c) (auto simp: create_package_inv create_courier_inv create_review_inv
      update_package_status_inv delete_courier_inv intro: initialize_db_inv split: option.splits)

lemma run_store_inv: "db_inv d \<Longrightarrow> db_inv (run_store cs d)"
  by (induction cs arbitrary: d) (simp_all add: run_store_def store_effect_inv_aux)

lemma sorted_wrt_less_inj:
  "sorted_wrt (<) (map f xs) \<Longrightarrow> x \<in> set xs \<Longrightarrow> y \<in> set xs \<Longrightarrow> f x = f y \<Longrightarrow> x = y"
  for f :: "'a \<Rightarrow> nat"
  by (induction xs) auto

lemma store_effect_seq_couriers: "seq_couriers d \<le> seq_couriers (store_effect c d)"
  by (cases c) (auto simp: create_package_def create_courier_def create_review_def Let_def
      update_package_status_def delete_courier_def initialize_db_def last_rowid_def
      intro: le_SucI fold_max_ge split: option.splits)

lemma store_effect_new_couriers:
  assumes "db_inv d" and "x \<in> set (couriers (store_effect c d))"
  shows "x \<in> set (couriers d) \<or> seq_couriers d < cour_id x"
  using assms
  by (cases c) (auto simp: create_package_result create_courier_result create_review_result
      update_package_status_def delete_courier_def initialize_db_def split: if_splits option.splits)

lemma run_store_new_couriers:
  "db_inv d \<Longrightarrow> x \<in> set (couriers (run_store cs d)) \<Longrightarrow> x \<in> set (couriers d) \<or> seq_couriers d < cour_id x"
proof (induction cs arbitrary: d)
  case Nil
  then show ?case by (simp add: run_store_def)
next
  case (Cons c cs)
  let ?d1 = "store_effect c d"
  have "x \<in> set (couriers (run_store cs ?d1))" using Cons.prems(2) by (simp add: run_store_def)
  then have "x \<in> set (couriers ?d1) \<or> seq_couriers ?d1 < cour_id x"
    using Cons.IH store_effect_inv_aux [OF Cons.prems(1)] by blast
  then show ?case
    using store_effect_new_couriers [OF Cons.prems(1)] store_effect_seq_couriers [of d c]
    by (meson order.strict_trans1)
qed

subsection \<open>Properties of the store\<close>

text \<open>C9. Every write of the store keeps the store invariant: unique tracking numbers,
  increasing rowids bounded by \<open>sqlite_sequence\<close>, no rows before the tables.\<close>

theorem store_effect_inv: "db_inv d \<Longrightarrow> db_inv (store_effect c d)"
  by (rule store_effect_inv_aux)

theorem store_effect_inv_witness:
  "db_inv empty_db \<and> db_inv (store_effect (Initialize_db False) empty_db)"
  using db_inv_empty_db store_effect_inv [OF db_inv_empty_db, of "Initialize_db False"] by simp

text \<open>C14. Courier ids are never reused (\<open>AUTOINCREMENT\<close>): after any sequence of
  writes, a courier row carrying the id of a courier that existed before is that same
  courier, even when couriers were deleted and others created in between.\<close>

theorem courier_id_never_reused:
  assumes "db_inv d" "c \<in> set (couriers d)"
    and "c' \<in> set (couriers (run_store cs d))" "cour_id c' = cour_id c"
  shows "c' = c"
proof -
  have ids: "ids_ok (seq_couriers d) (map cour_id (couriers d))"
    using assms(1) by (simp add: db_inv_def)
  then have "cour_id c \<le> seq_couriers d"
    using assms(2) by (auto simp: ids_ok_def list_all_iff)
  then have "c' \<in> set (couriers d)"
    using run_store_new_couriers [OF assms(1,3)] assms(4) by auto
  with ids assms(2,4) show ?thesis
    by (auto simp: ids_ok_def intro: sorted_wrt_less_inj)
qed

text \<open>C16. \<open>update_package_status\<close> reports success exactly when a package with the
  tracking number exists; afterwards that package reads back with the new status and
  every other field unchanged, and no other package changes.\<close>

lemma find_status_update_same:
  "find (\<lambda>p. pkg_tracking_number p = tn)
     (map (\<lambda>p. if pkg_tracking_number p = tn then p\<lparr>pkg_status := st\<rparr> else p) ps) =
   map_option (\<lambda>p. p\<lparr>pkg_status := st\<rparr>) (find (\<lambda>p. pkg_tracking_number p = tn) ps)"
  by (induction ps) auto

lemma find_status_update_other:
  "tn' \<noteq> tn \<Longrightarrow>
   find (\<lambda>p. pkg_tracking_number p = tn')
     (map (\<lambda>p. if pkg_tracking_number p = tn then p\<lparr>pkg_status := st\<rparr> else p) ps) =
   find (\<lambda>p. pkg_tracking_number p = tn') ps"
  by (induction ps) auto

theorem update_package_status_effect:
  assumes "\<not> stmt_fails fault d" and "update_package_status fault tn st d = (b, d')"
  shows "(b \<longleftrightarrow> tn \<in> set (map pkg_tracking_number (packages d))) \<and>
         get_package_by_tracking False tn d' =
           map_option (\<lambda>p. p\<lparr>pkg_status := st\<rparr>) (get_package_by_tracking False tn d) \<and>
         (\<forall>tn'. tn' \<noteq> tn \<longrightarrow> get_package_by_tracking False tn' d' = get_package_by_tracking False tn' d)"
proof -
  have eq: "b \<longleftrightarrow> tn \<in> set (map pkg_tracking_number (packages d))"
    and d': "d' = d\<lparr>packages := map (\<lambda>p. if pkg_tracking_number p = tn
                                  then p\<lparr>pkg_status := st\<rparr> else p) (packages d)\<rparr>"
    using assms by (auto simp: update_package_status_def list_ex_iff)
  have T: "\<not> stmt_fails False d" "\<not> stmt_fails False d'"
    using assms(1) d' by (simp_all add: stmt_fails_def)
  show ?thesis
    using eq T by (simp add: get_package_by_tracking_def d' find_status_update_same
        find_status_update_other)
qed

theorem update_package_status_effect_witness:
  "\<not> stmt_fails False fresh_db \<and>
   update_package_status False [65] [66] fresh_db = (False, fresh_db) \<and>
   get_package_by_tracking False [65] fresh_db = None"
proof -
  have u: "update_package_status False [65] [66] fresh_db = (False, fresh_db)"
    by (simp add: update_package_status_def stmt_fails_def)
  show ?thesis
    using stmt_ok_fresh_db u update_package_status_effect [OF stmt_ok_fresh_db u]
    by (simp add: get_package_by_tracking_def)
qed

theorem courier_id_never_reused_witness:
  "db_inv (fresh_db\<lparr>couriers := [\<lparr>cour_id = 1, cour_name = [65], cour_phone = [], cour_email = [],
             cour_status = courier_status_active, cour_created_at = []\<rparr>], seq_couriers := 1\<rparr>) \<and>
   \<lparr>cour_id = 1, cour_name = [65], cour_phone = [], cour_email = [],
             cour_status = courier_status_active, cour_created_at = []\<rparr> \<in>
     set (couriers (fresh_db\<lparr>couriers := [\<lparr>cour_id = 1, cour_name = [65], cour_phone = [], cour_email = [],
             cour_status = courier_status_active, cour_created_at = []\<rparr>], seq_couriers := 1\<rparr>)) \<and>
   \<lparr>cour_id = 1, cour_name = [65], cour_phone = [], cour_email = [],
             cour_status = courier_status_active, cour_created_at = []\<rparr> \<in>
     set (couriers (run_store [Delete_courier False 5, Create_courier False datetime_min [66] [] []]
       (fresh_db\<lparr>couriers := [\<lparr>cour_id = 1, cour_name = [65], cour_phone = [], cour_email = [],
             cour_status = courier_status_active, cour_created_at = []\<rparr>], seq_couriers := 1\<rparr>)))"
proof -
  let ?c = "\<lparr>cour_id = 1, cour_name = [65], cour_phone = [], cour_email = [],
             cour_status = courier_status_active, cour_created_at = []\<rparr>"
  let ?d = "fresh_db\<lparr>couriers := [?c], seq_couriers := 1\<rparr>"
  have inv: "db_inv ?d" by (simp add: db_inv_def ids_ok_def max_rowid_def)
  have c: "?c \<in> set (couriers ?d)" by simp
  have c': "?c \<in> set (couriers (run_store [Delete_courier False 5, Create_courier False datetime_min [66] [] []] ?d))"
    by (simp add: run_store_def delete_courier_def create_courier_def stmt_fails_def rowid_full_def
        last_rowid_def max_rowid_def)
  show ?thesis using inv c c' courier_id_never_reused [OF inv c c' refl] by simp
qed

lemma get_all_packages_set: "set (get_all_packages fault d) \<subseteq> set (packages d)"
  by (auto simp: get_all_packages_def)

lemma get_all_reviews_set: "set (get_all_reviews fault d) \<subseteq> set (reviews d)"
  by (auto simp: get_all_reviews_def)

end
