(* ===== verification/Service.thy ===== *)
theory Service
  imports Prelude Tracking Store
begin

text \<open>
  The service layer, \<open>package_service.py\<close>: validation of the user's input,
  generation of the tracking number, and translation of the store's boolean results
  into the pair \<open>(success, payload)\<close> the GUI receives. The pair is modelled as a
  sum: \<open>Inl m\<close> is \<open>(False, m)\<close> with the error message \<open>m\<close>, \<open>Inr v\<close> is
  \<open>(True, v)\<close>. Operations that write return the sum with the new database.
  The messages are the source's Russian literals as code points; each is introduced
  by its transliteration and translation.
\<close>

subsection \<open>Messages\<close>

text \<open>Zapolnite vse obyazatelnye polya (fill in all required fields)\<close>

definition msg_fill_required :: str where
  "msg_fill_required =
     [1047, 1072, 1087, 1086, 1083, 1085, 1080, 1090, 1077, 32, 1074, 1089, 1077, 32, 1086,
      1073, 1103, 1079, 1072, 1090, 1077, 1083, 1100, 1085, 1099, 1077, 32, 1087, 1086,
      1083, 1103]"

text \<open>Oshibka pri sozdanii posylki... (error creating the package, please try again)\<close>

definition msg_create_failed :: str where
  "msg_create_failed =
     [1054, 1096, 1080, 1073, 1082, 1072, 32, 1087, 1088, 1080, 32, 1089, 1086, 1079, 1076,
      1072, 1085, 1080, 1080, 32, 1087, 1086, 1089, 1099, 1083, 1082, 1080, 46, 32, 1055,
      1086, 1078, 1072, 1083, 1091, 1081, 1089, 1090, 1072, 44, 32, 1087, 1086, 1087, 1088,
      1086, 1073, 1091, 1081, 1090, 1077, 32, 1077, 1097, 1077, 32, 1088, 1072, 1079, 46]"

text \<open>Vvedite nomer otslezhivaniya (enter the tracking number)\<close>

definition msg_enter_tracking :: str where
  "msg_enter_tracking =
     [1042, 1074, 1077, 1076, 1080, 1090, 1077, 32, 1085, 1086, 1084, 1077, 1088, 32, 1086,
      1090, 1089, 1083, 1077, 1078, 1080, 1074, 1072, 1085, 1080, 1103]"

text \<open>Posylka s takim nomerom ne naidena (no package with this number)\<close>

definition msg_not_found :: str where
  "msg_not_found =
     [1055, 1086, 1089, 1099, 1083, 1082, 1072, 32, 1089, 32, 1090, 1072, 1082, 1080, 1084,
      32, 1085, 1086, 1084, 1077, 1088, 1086, 1084, 32, 1085, 1077, 32, 1085, 1072, 1081,
      1076, 1077, 1085, 1072]"

text \<open>Imya kurera obyazatelno... (courier name is required)\<close>

definition msg_courier_name_required :: str where
  "msg_courier_name_required =
     [1048, 1084, 1103, 32, 1082, 1091, 1088, 1100, 1077, 1088, 1072, 32, 1086, 1073, 1103,
      1079, 1072, 1090, 1077, 1083, 1100, 1085, 1086, 32, 1076, 1083, 1103, 32, 1079, 1072,
      1087, 1086, 1083, 1085, 1077, 1085, 1080, 1103]"

text \<open>Kurer uspeshno dobavlen (courier added)\<close>

definition msg_courier_added :: str where
  "msg_courier_added =
     [1050, 1091, 1088, 1100, 1077, 1088, 32, 1091, 1089, 1087, 1077, 1096, 1085, 1086, 32,
      1076, 1086, 1073, 1072, 1074, 1083, 1077, 1085]"

text \<open>Oshibka pri dobavlenii kurera (error adding courier)\<close>

definition msg_courier_add_failed :: str where
  "msg_courier_add_failed =
     [1054, 1096, 1080, 1073, 1082, 1072, 32, 1087, 1088, 1080, 32, 1076, 1086, 1073, 1072,
      1074, 1083, 1077, 1085, 1080, 1080, 32, 1082, 1091, 1088, 1100, 1077, 1088, 1072]"

text \<open>Kurer uspeshno udalen (courier removed)\<close>

definition msg_courier_removed :: str where
  "msg_courier_removed =
     [1050, 1091, 1088, 1100, 1077, 1088, 32, 1091, 1089, 1087, 1077, 1096, 1085, 1086, 32,
      1091, 1076, 1072, 1083, 1077, 1085]"

text \<open>Oshibka pri udalenii kurera ili kurer ne naiden (error removing courier or not found)\<close>

definition msg_courier_remove_failed :: str where
  "msg_courier_remove_failed =
     [1054, 1096, 1080, 1073, 1082, 1072, 32, 1087, 1088, 1080, 32, 1091, 1076, 1072, 1083,
      1077, 1085, 1080, 1080, 32, 1082, 1091, 1088, 1100, 1077, 1088, 1072, 32, 1080, 1083,
      1080, 32, 1082, 1091, 1088, 1100, 1077, 1088, 32, 1085, 1077, 32, 1085, 1072, 1081,
      1076, 1077, 1085]"

text \<open>Imya klienta i reiting obyazatelny... (customer name and rating are required)\<close>

definition msg_review_required :: str where
  "msg_review_required =
     [1048, 1084, 1103, 32, 1082, 1083, 1080, 1077, 1085, 1090, 1072, 32, 1080, 32, 1088,
      1077, 1081, 1090, 1080, 1085, 1075, 32, 1086, 1073, 1103, 1079, 1072, 1090, 1077,
      1083, 1100, 1085, 1099, 32, 1076, 1083, 1103, 32, 1079, 1072, 1087, 1086, 1083, 1085,
      1077, 1085, 1080, 1103]"

text \<open>Reiting dolzhen byt ot 1 do 5 (rating must be from 1 to 5)\<close>

definition msg_rating_range :: str where
  "msg_rating_range =
     [1056, 1077, 1081, 1090, 1080, 1085, 1075, 32, 1076, 1086, 1083, 1078, 1077, 1085, 32,
      1073, 1099, 1090, 1100, 32, 1086, 1090, 32, 49, 32, 1076, 1086, 32, 53]"

text \<open>Otzyv uspeshno dobavlen (review added)\<close>

definition msg_review_added :: str where
  "msg_review_added =
     [1054, 1090, 1079, 1099, 1074, 32, 1091, 1089, 1087, 1077, 1096, 1085, 1086, 32, 1076,
      1086, 1073, 1072, 1074, 1083, 1077, 1085]"

text \<open>Oshibka pri dobavlenii otzyva (error adding review)\<close>

definition msg_review_add_failed :: str where
  "msg_review_add_failed =
     [1054, 1096, 1080, 1073, 1082, 1072, 32, 1087, 1088, 1080, 32, 1076, 1086, 1073, 1072,
      1074, 1083, 1077, 1085, 1080, 1080, 32, 1086, 1090, 1079, 1099, 1074, 1072]"

subsection \<open>Operations\<close>

text \<open>\<open>send_package\<close>: the draws \<open>ls\<close>, \<open>ds\<close> are the outcome of the two
  \<open>random.choices\<close> calls of \<open>generate_tracking_number\<close>.\<close>

definition send_package ::
  "nat list \<Rightarrow> nat list \<Rightarrow> bool \<Rightarrow> datetime \<Rightarrow> str \<Rightarrow> str \<Rightarrow> str \<Rightarrow> str \<Rightarrow> str \<Rightarrow> db \<Rightarrow>
   (str + str) \<times> db" where
  "send_package ls ds fault now description sender recipient sender_address recipient_address d =
    (if description = [] \<or> sender = [] \<or> recipient = [] then (Inl msg_fill_required, d)
     else
       let tracking_number = generate_tracking_number ls ds in
       (case create_package fault now tracking_number description sender recipient
               sender_address recipient_address d of
          (success, d') \<Rightarrow> if success then (Inr tracking_number, d') else (Inl msg_create_failed, d')))"

definition track_package :: "bool \<Rightarrow> str \<Rightarrow> db \<Rightarrow> str + package_row" where
  "track_package fault tracking_number d =
    (if tracking_number = [] then Inl msg_enter_tracking
     else (case get_package_by_tracking fault tracking_number d of
             Some package_info \<Rightarrow> Inr package_info
           | None \<Rightarrow> Inl msg_not_found))"

definition update_status :: "bool \<Rightarrow> str \<Rightarrow> str \<Rightarrow> db \<Rightarrow> bool \<times> db" where
  "update_status fault tracking_number new_status d =
     update_package_status fault tracking_number new_status d"

definition add_courier :: "bool \<Rightarrow> datetime \<Rightarrow> str \<Rightarrow> str \<Rightarrow> str \<Rightarrow> db \<Rightarrow> (str + str) \<times> db" where
  "add_courier fault now name phone email d =
    (if name = [] then (Inl msg_courier_name_required, d)
     else (case create_courier fault now name phone email d of
             (success, d') \<Rightarrow>
               if success then (Inr msg_courier_added, d') else (Inl msg_courier_add_failed, d')))"

definition get_couriers :: "bool \<Rightarrow> db \<Rightarrow> courier_row list" where
  "get_couriers fault d = get_all_couriers fault d"

definition remove_courier :: "bool \<Rightarrow> int \<Rightarrow> db \<Rightarrow> (str + str) \<times> db" where
  "remove_courier fault courier_id d =
    (case delete_courier fault courier_id d of
       (success, d') \<Rightarrow>
         if success then (Inr msg_courier_removed, d') else (Inl msg_courier_remove_failed, d'))"

text \<open>\<open>add_review\<close>: \<open>not rating\<close> holds exactly for the integer 0.\<close>

definition add_review :: "bool \<Rightarrow> datetime \<Rightarrow> str \<Rightarrow> str \<Rightarrow> int \<Rightarrow> str \<Rightarrow> db \<Rightarrow> (str + str) \<times> db" where
  "add_review fault now tracking_number customer_name rating comment d =
    (if customer_name = [] \<or> rating = 0 then (Inl msg_review_required, d)
     else if \<not> (1 \<le> rating \<and> rating \<le> 5) then (Inl msg_rating_range, d)
     else (case create_review fault now tracking_number customer_name rating comment d of
             (success, d') \<Rightarrow>
               if success then (Inr msg_review_added, d') else (Inl msg_review_add_failed, d')))"

definition get_reviews :: "bool \<Rightarrow> db \<Rightarrow> review_row list" where
  "get_reviews fault d = get_all_reviews fault d"

declare send_package_def [service_ops] track_package_def [service_ops]
  update_status_def [service_ops] add_courier_def [service_ops] get_couriers_def [service_ops]
  remove_courier_def [service_ops] add_review_def [service_ops] get_reviews_def [service_ops]

subsection \<open>Each operation on every branch\<close>

lemma send_package_result:
  assumes "db_inv d"
  shows "send_package ls ds fault now de s r sa ra d =
    (if de = [] \<or> s = [] \<or> r = [] then (Inl msg_fill_required, d)
     else if stmt_fails fault d \<or> seq_packages d = max_rowid \<or>
             generate_tracking_number ls ds \<in> set (map pkg_tracking_number (packages d))
     then (Inl msg_create_failed, d)
     else (Inr (generate_tracking_number ls ds),
           d\<lparr>packages := packages d @ [\<lparr>pkg_id = Suc (seq_packages d),
                  pkg_tracking_number = generate_tracking_number ls ds,
                  pkg_description = de, pkg_status = status_sent, pkg_sender = s, pkg_recipient = r,
                  pkg_sender_address = sa, pkg_recipient_address = ra,
                  pkg_created_at = adapt_datetime now\<rparr>], seq_packages := Suc (seq_packages d)\<rparr>))"
  by (simp add: send_package_def create_package_result [OF assms] Let_def)

lemma add_courier_result:
  assumes "db_inv d"
  shows "add_courier fault now n p e d =
    (if n = [] then (Inl msg_courier_name_required, d)
     else if stmt_fails fault d \<or> seq_couriers d = max_rowid then (Inl msg_courier_add_failed, d)
     else (Inr msg_courier_added,
           d\<lparr>couriers := couriers d @ [\<lparr>cour_id = Suc (seq_couriers d), cour_name = n,
                  cour_phone = p, cour_email = e, cour_status = courier_status_active,
                  cour_created_at = adapt_datetime now\<rparr>], seq_couriers := Suc (seq_couriers d)\<rparr>))"
  by (simp add: add_courier_def create_courier_result [OF assms])

lemma remove_courier_result:
  "remove_courier fault cid d =
    (if \<not> stmt_fails fault d \<and> (\<exists>c\<in>set (couriers d). int (cour_id c) = cid)
     then (Inr msg_courier_removed, d\<lparr>couriers := filter (\<lambda>c. int (cour_id c) \<noteq> cid) (couriers d)\<rparr>)
     else (Inl msg_courier_remove_failed, d))"
proof -
  have "\<forall>c\<in>set (couriers d). int (cour_id c) \<noteq> cid \<Longrightarrow>
        filter (\<lambda>c. int (cour_id c) \<noteq> cid) (couriers d) = couriers d"
    by simp
  then show ?thesis
    by (auto simp: remove_courier_def delete_courier_def list_ex_iff)
qed

lemma send_package_inv: "db_inv d \<Longrightarrow> db_inv (snd (send_package ls ds fault now de s r sa ra d))"
  by (auto simp: send_package_def Let_def split: prod.splits intro: create_package_inv_pair)

lemma add_courier_inv: "db_inv d \<Longrightarrow> db_inv (snd (add_courier fault now n p e d))"
  using create_courier_inv [of d fault now n p e]
  by (auto simp: add_courier_def split: prod.splits)

lemma remove_courier_inv: "db_inv d \<Longrightarrow> db_inv (snd (remove_courier fault cid d))"
  using delete_courier_inv [of d fault cid]
  by (auto simp: remove_courier_def split: prod.splits)

lemma add_review_inv: "db_inv d \<Longrightarrow> db_inv (snd (add_review fault now tn n rt c d))"
  using create_review_inv [of d fault now tn n rt c]
  by (auto simp: add_review_def split: prod.splits)

lemma update_status_inv: "db_inv d \<Longrightarrow> db_inv (snd (update_status fault tn st d))"
  by (simp add: update_status_def update_package_status_inv)

subsection \<open>Properties of the service\<close>

lemma couriers_send_package: "couriers (snd (send_package ls ds f t de s r sa ra d)) = couriers d"
  by (simp add: send_package_def create_package_def Let_def split: prod.splits)

lemma couriers_add_review: "couriers (snd (add_review f t tn n rt c d)) = couriers d"
  by (simp add: add_review_def create_review_def Let_def split: prod.splits)

lemma add_courier_Inl: "add_courier f t n p e d = (Inl m, d') \<Longrightarrow> d' = d"
  by (auto simp: add_courier_def create_courier_def Let_def split: if_splits prod.splits)

lemma remove_courier_Inl: "remove_courier f cid d = (Inl m, d') \<Longrightarrow> couriers d' = couriers d"
  by (simp add: remove_courier_result split: if_splits)

lemma packages_service_calls:
  "set (packages d) \<subseteq> set (packages (snd (send_package ls ds f t de s r sa ra d)))"
  "packages (snd (add_review f t tn n rt c d)) = packages d"
  "packages (snd (add_courier f t n p e d)) = packages d"
  "packages (snd (remove_courier f cid d)) = packages d"
  by (auto simp: service_ops store_ops Let_def split: prod.splits if_splits)

lemma track_stored_package:
  assumes "db_inv d" "p \<in> set (packages d)" "pkg_tracking_number p \<noteq> []" "\<not> stmt_fails fault d"
  shows "track_package fault (pkg_tracking_number p) d = Inr p"
proof -
  have "find (\<lambda>q. pkg_tracking_number q = pkg_tracking_number p) (packages d) = Some p"
    using find_distinct_key [of pkg_tracking_number, OF _ assms(2)] assms(1) by (simp add: db_inv_def)
  then show ?thesis using assms(3,4) by (simp add: track_package_def get_package_by_tracking_def)
qed

text \<open>C1. Sending a package with an empty description, sender or recipient fails with
  the message "fill in all required fields" and writes nothing: the database is
  returned unchanged.\<close>

theorem send_package_missing_field:
  assumes "description = [] \<or> sender = [] \<or> recipient = []"
  shows "send_package ls ds fault now description sender recipient sa ra d = (Inl msg_fill_required, d)"
  using assms by (simp add: send_package_def)

theorem send_package_missing_field_witness:
  "([] = [] \<or> [65] = [] \<or> [66] = ([]::str)) \<and>
   send_package [0, 0] [0, 0, 0, 0, 0, 0] False datetime_min [] [65] [66] [] [] fresh_db =
     (Inl msg_fill_required, fresh_db)"
  using send_package_missing_field [of "[]" "[65]" "[66]" "[0, 0]" "[0, 0, 0, 0, 0, 0]" False
          datetime_min "[]" "[]" fresh_db]
  by simp

text \<open>C2. Looking up the tracking number that a successful \<open>send_package\<close> returned
  gives back the package just written: the same description, sender, recipient and
  addresses, the initial status, the next rowid and the creation time.\<close>

theorem send_track_roundtrip:
  assumes "db_inv d" and "send_package ls ds fault now de s r sa ra d = (Inr tn, d')"
  shows "track_package False tn d' = Inr \<lparr>pkg_id = Suc (seq_packages d), pkg_tracking_number = tn,
           pkg_description = de, pkg_status = status_sent, pkg_sender = s, pkg_recipient = r,
           pkg_sender_address = sa, pkg_recipient_address = ra, pkg_created_at = adapt_datetime now\<rparr>"
  using assms(2)
  by (auto simp: send_package_result [OF assms(1)] track_package_def
      get_package_by_tracking_def stmt_fails_def find_fresh_append split: if_splits)

theorem send_track_roundtrip_witness:
  "db_inv fresh_db \<and>
   send_package [0, 0] [0, 0, 0, 0, 0, 1] False datetime_min [68] [83] [82] [] [] fresh_db =
     (Inr [65, 65, 45, 48, 48, 48, 48, 48, 49],
      snd (send_package [0, 0] [0, 0, 0, 0, 0, 1] False datetime_min [68] [83] [82] [] [] fresh_db)) \<and>
   track_package False [65, 65, 45, 48, 48, 48, 48, 48, 49]
     (snd (send_package [0, 0] [0, 0, 0, 0, 0, 1] False datetime_min [68] [83] [82] [] [] fresh_db)) =
     Inr \<lparr>pkg_id = 1, pkg_tracking_number = [65, 65, 45, 48, 48, 48, 48, 48, 49],
           pkg_description = [68], pkg_status = status_sent, pkg_sender = [83], pkg_recipient = [82],
           pkg_sender_address = [], pkg_recipient_address = [], pkg_created_at = adapt_datetime datetime_min\<rparr>"
proof -
  have sent: "send_package [0, 0] [0, 0, 0, 0, 0, 1] False datetime_min [68] [83] [82] [] [] fresh_db =
     (Inr [65, 65, 45, 48, 48, 48, 48, 48, 49],
      snd (send_package [0, 0] [0, 0, 0, 0, 0, 1] False datetime_min [68] [83] [82] [] [] fresh_db))"
    unfolding send_package_result [OF db_inv_fresh_db]
    by (simp add: generate_tracking_number_def choices_def ascii_uppercase_def digits_def
        stmt_fails_def max_rowid_def)
  show ?thesis
    using db_inv_fresh_db sent send_track_roundtrip [OF db_inv_fresh_db sent] by simp
qed

text \<open>C4. A review whose rating lies outside 1..5 is refused and nothing is written;
  the message is "customer name and rating are required" when the name is empty or the
  rating is 0 (Python's \<open>not rating\<close>), and "rating must be from 1 to 5"
  otherwise.\<close>

theorem add_review_rejected:
  assumes "\<not> (1 \<le> rating \<and> rating \<le> 5)"
  shows "add_review fault now tn name rating c d =
           (Inl (if name = [] \<or> rating = 0 then msg_review_required else msg_rating_range), d)"
  using assms by (simp add: add_review_def)

theorem add_review_rejected_witness:
  "\<not> (1 \<le> (6::int) \<and> (6::int) \<le> 5) \<and>
   add_review False datetime_min [] [65] 6 [] fresh_db = (Inl msg_rating_range, fresh_db) \<and>
   \<not> (1 \<le> (0::int) \<and> (0::int) \<le> 5) \<and>
   add_review False datetime_min [] [65] 0 [] fresh_db = (Inl msg_review_required, fresh_db)"
  using add_review_rejected [of 6 False datetime_min "[]" "[65]" "[]" fresh_db]
        add_review_rejected [of 0 False datetime_min "[]" "[65]" "[]" fresh_db] by simp

text \<open>C5. A review with a non-empty customer name and a rating from 1 to 5 (the bounds
  included) is written, with the next rowid, when the store works and has rowids
  left.\<close>

theorem add_review_accepted:
  assumes "db_inv d" "\<not> stmt_fails fault d" "seq_reviews d \<noteq> max_rowid"
    and "name \<noteq> []" "1 \<le> rating" "rating \<le> 5"
  shows "add_review fault now tn name rating c d =
           (Inr msg_review_added,
            d\<lparr>reviews := reviews d @ [\<lparr>rev_id = Suc (seq_reviews d), rev_tracking_number = tn,
                  rev_customer_name = name, rev_rating = rating, rev_comment = c,
                  rev_created_at = adapt_datetime now\<rparr>], seq_reviews := Suc (seq_reviews d)\<rparr>)"
  using assms(2-) by (simp add: add_review_def create_review_result [OF assms(1)])

theorem add_review_accepted_witness:
  "db_inv fresh_db \<and> \<not> stmt_fails False fresh_db \<and> seq_reviews fresh_db \<noteq> max_rowid \<and>
   [65] \<noteq> ([]::str) \<and>
   fst (add_review False datetime_min [] [65] 1 [] fresh_db) = Inr msg_review_added \<and>
   fst (add_review False datetime_min [] [65] 5 [] fresh_db) = Inr msg_review_added"
proof -
  have h: "db_inv fresh_db" "\<not> stmt_fails False fresh_db" "seq_reviews fresh_db \<noteq> max_rowid"
    using db_inv_fresh_db stmt_ok_fresh_db max_rowid_pos by simp_all
  show ?thesis
    using h add_review_accepted [OF h, of "[65]" 1 datetime_min "[]" "[]"]
          add_review_accepted [OF h, of "[65]" 5 datetime_min "[]" "[]"] by simp
qed

text \<open>C6. Removing a courier id that no courier has fails with "error removing the
  courier or courier not found" and leaves the database unchanged.\<close>

theorem remove_courier_missing:
  assumes "\<forall>c\<in>set (couriers d). int (cour_id c) \<noteq> cid"
  shows "remove_courier fault cid d = (Inl msg_courier_remove_failed, d)"
  using assms by (simp add: remove_courier_result)

theorem remove_courier_missing_witness:
  "couriers fresh_db = [] \<and>
   remove_courier False 7 fresh_db = (Inl msg_courier_remove_failed, fresh_db)"
  using remove_courier_missing [of fresh_db 7 False] by simp

text \<open>C7. Removing an existing courier succeeds, and the courier list read afterwards
  is the list read before with exactly the rows of that id left out; in particular the
  id no longer appears.\<close>

theorem remove_courier_existing:
  assumes "\<not> stmt_fails fault d" and "c \<in> set (couriers d)"
  shows "\<exists>d'. remove_courier fault (int (cour_id c)) d = (Inr msg_courier_removed, d') \<and>
              get_couriers False d' = filter (\<lambda>c'. cour_id c' \<noteq> cour_id c) (get_couriers False d) \<and>
              cour_id c \<notin> cour_id ` set (get_couriers False d')"
  using assms
  by (auto simp: remove_courier_result get_couriers_def get_all_couriers_def
      stmt_fails_def filter_sort)

theorem remove_courier_existing_witness:
  "\<not> stmt_fails False (snd (add_courier False datetime_min [65] [] [] fresh_db)) \<and>
   hd (couriers (snd (add_courier False datetime_min [65] [] [] fresh_db)))
     \<in> set (couriers (snd (add_courier False datetime_min [65] [] [] fresh_db))) \<and>
   fst (remove_courier False 1 (snd (add_courier False datetime_min [65] [] [] fresh_db))) =
     Inr msg_courier_removed"
proof -
  let ?d = "snd (add_courier False datetime_min [65] [] [] fresh_db)"
  have d: "?d = fresh_db\<lparr>couriers := [\<lparr>cour_id = 1, cour_name = [65], cour_phone = [],
             cour_email = [], cour_status = courier_status_active,
             cour_created_at = adapt_datetime datetime_min\<rparr>], seq_couriers := 1\<rparr>"
    unfolding add_courier_result [OF db_inv_fresh_db] using stmt_ok_fresh_db max_rowid_pos by simp
  have h: "\<not> stmt_fails False ?d" "hd (couriers ?d) \<in> set (couriers ?d)"
    unfolding d by (simp_all add: stmt_fails_def)
  have "cour_id (hd (couriers ?d)) = 1" unfolding d by simp
  then show ?thesis
    using h remove_courier_existing [OF h] by force
qed

text \<open>C12. When the generated tracking number is already taken, \<open>send_package\<close>
  reports "error creating the package, please try again" and writes nothing; it does
  not retry.\<close>

theorem send_package_collision:
  assumes "db_inv d" "de \<noteq> []" "s \<noteq> []" "r \<noteq> []"
    and "generate_tracking_number ls ds \<in> set (map pkg_tracking_number (packages d))"
  shows "send_package ls ds fault now de s r sa ra d = (Inl msg_create_failed, d)"
  using assms(2-) by (simp add: send_package_result [OF assms(1)])

text \<open>C13. With the required fields filled in, a working store with rowids left, and a
  generated number not yet taken, \<open>send_package\<close> succeeds and returns that number.\<close>

theorem send_package_fresh:
  assumes "db_inv d" "\<not> stmt_fails fault d" "seq_packages d \<noteq> max_rowid"
    and "de \<noteq> []" "s \<noteq> []" "r \<noteq> []"
    and "generate_tracking_number ls ds \<notin> set (map pkg_tracking_number (packages d))"
  shows "fst (send_package ls ds fault now de s r sa ra d) = Inr (generate_tracking_number ls ds)"
  using assms(2-) by (simp add: send_package_result [OF assms(1)])

theorem send_package_fresh_witness:
  "db_inv fresh_db \<and> \<not> stmt_fails False fresh_db \<and> seq_packages fresh_db \<noteq> max_rowid \<and>
   [68] \<noteq> ([]::str) \<and> [83] \<noteq> ([]::str) \<and> [82] \<noteq> ([]::str) \<and>
   generate_tracking_number [0, 0] [0, 0, 0, 0, 0, 1] \<notin> set (map pkg_tracking_number (packages fresh_db)) \<and>
   fst (send_package [0, 0] [0, 0, 0, 0, 0, 1] False datetime_min [68] [83] [82] [] [] fresh_db) =
     Inr (generate_tracking_number [0, 0] [0, 0, 0, 0, 0, 1])"
proof -
  have h: "db_inv fresh_db" "\<not> stmt_fails False fresh_db" "seq_packages fresh_db \<noteq> max_rowid"
    "[68] \<noteq> ([]::str)" "[83] \<noteq> ([]::str)" "[82] \<noteq> ([]::str)"
    "generate_tracking_number [0, 0] [0, 0, 0, 0, 0, 1] \<notin> set (map pkg_tracking_number (packages fresh_db))"
    using db_inv_fresh_db stmt_ok_fresh_db max_rowid_pos by simp_all
  show ?thesis using h send_package_fresh [OF h] by blast
qed

theorem send_package_collision_witness:
  "db_inv (snd (send_package [0, 0] [0, 0, 0, 0, 0, 1] False datetime_min [68] [83] [82] [] [] fresh_db)) \<and>
   generate_tracking_number [0, 0] [0, 0, 0, 0, 0, 1] \<in> set (map pkg_tracking_number
     (packages (snd (send_package [0, 0] [0, 0, 0, 0, 0, 1] False datetime_min [68] [83] [82] [] [] fresh_db)))) \<and>
   send_package [0, 0] [0, 0, 0, 0, 0, 1] False datetime_min [69] [83] [82] [] []
     (snd (send_package [0, 0] [0, 0, 0, 0, 0, 1] False datetime_min [68] [83] [82] [] [] fresh_db)) =
   (Inl msg_create_failed, snd (send_package [0, 0] [0, 0, 0, 0, 0, 1] False datetime_min [68] [83] [82] [] [] fresh_db))"
proof -
  let ?d = "snd (send_package [0, 0] [0, 0, 0, 0, 0, 1] False datetime_min [68] [83] [82] [] [] fresh_db)"
  have inv: "db_inv ?d" by (rule send_package_inv [OF db_inv_fresh_db])
  have taken: "generate_tracking_number [0, 0] [0, 0, 0, 0, 0, 1] \<in> set (map pkg_tracking_number (packages ?d))"
    unfolding send_package_result [OF db_inv_fresh_db] using stmt_ok_fresh_db max_rowid_pos by simp
  show ?thesis
    using inv taken send_package_collision [OF inv _ _ _ taken, of "[69]" "[83]" "[82]" False datetime_min "[]" "[]"]
    by simp
qed

end
