(* ===== verification/Gui_Text.thy ===== *)
theory Gui_Text
  imports Prelude
begin

text \<open>
  The string literals of the handlers of \<open>gui.py\<close>: dialog titles, messages, label
  prefixes and the pieces of the f-strings around their holes. Each Russian literal
  is a list of code points, with its meaning in a comment; the ASCII ones are written
  with \<open>asc\<close>.
\<close>

definition g_ready :: str where
  \<comment> \<open>ready\<close>
  "g_ready =
     [1043, 1086, 1090, 1086, 1074, 1086, 32, 1082, 32, 1088, 1072, 1073, 1086, 1090, 1077]"

definition g_result_placeholder :: str where
  \<comment> \<open>the result of sending a package will be shown here\<close>
  "g_result_placeholder =
     [1047, 1076, 1077, 1089, 1100, 32, 1073, 1091, 1076, 1077, 1090, 32, 1087, 1086, 1082, 1072,
      1079, 1072, 1085, 32, 1088, 1077, 1079, 1091, 1083, 1100, 1090, 1072, 1090, 32, 1086, 1090,
      1087, 1088, 1072, 1074, 1082, 1080, 32, 1087, 1086, 1089, 1099, 1083, 1082, 1080]"

definition t_error :: str where
  \<comment> \<open>Oshibka (Error): dialog title\<close>
  "t_error =
     [1054, 1096, 1080, 1073, 1082, 1072]"

definition t_success :: str where
  \<comment> \<open>Uspekh (Success): dialog title\<close>
  "t_success =
     [1059, 1089, 1087, 1077, 1093]"

definition t_info :: str where
  \<comment> \<open>Informatsiya (Information): dialog title\<close>
  "t_info =
     [1048, 1085, 1092, 1086, 1088, 1084, 1072, 1094, 1080, 1103]"

definition t_confirm :: str where
  \<comment> \<open>Podtverzhdenie (Confirmation): dialog title\<close>
  "t_confirm =
     [1055, 1086, 1076, 1090, 1074, 1077, 1088, 1078, 1076, 1077, 1085, 1080, 1077]"

definition g_fill_required :: str where
  \<comment> \<open>please fill in all required fields\<close>
  "g_fill_required =
     [1055, 1086, 1078, 1072, 1083, 1091, 1081, 1089, 1090, 1072, 44, 32, 1079, 1072, 1087,
      1086, 1083, 1085, 1080, 1090, 1077, 32, 1074, 1089, 1077, 32, 1086, 1073, 1103, 1079,
      1072, 1090, 1077, 1083, 1100, 1085, 1099, 1077, 32, 1087, 1086, 1083, 1103, 46]"

definition g_sent_prefix :: str where
  \<comment> \<open>package sent! tracking number: \<close>
  "g_sent_prefix =
     [1055, 1086, 1089, 1099, 1083, 1082, 1072, 32, 1091, 1089, 1087, 1077, 1096, 1085,
      1086, 32, 1086, 1090, 1087, 1088, 1072, 1074, 1083, 1077, 1085, 1072, 33, 10, 1053,
      1086, 1084, 1077, 1088, 32, 1076, 1083, 1103, 32, 1086, 1090, 1089, 1083, 1077, 1078,
      1080, 1074, 1072, 1085, 1080, 1103, 58, 32]"

definition g_sent_status_prefix :: str where
  \<comment> \<open>package sent. number: \<close>
  "g_sent_status_prefix =
     [1055, 1086, 1089, 1099, 1083, 1082, 1072, 32, 1086, 1090, 1087, 1088, 1072, 1074,
      1083, 1077, 1085, 1072, 46, 32, 1053, 1086, 1084, 1077, 1088, 58, 32]"

definition g_send_error_prefix :: str where
  \<comment> \<open>error sending the package: \<close>
  "g_send_error_prefix =
     [1054, 1096, 1080, 1073, 1082, 1072, 32, 1087, 1088, 1080, 32, 1086, 1090, 1087, 1088,
      1072, 1074, 1082, 1077, 32, 1087, 1086, 1089, 1099, 1083, 1082, 1080, 58, 32]"

definition g_send_error_status :: str where
  \<comment> \<open>error sending the package\<close>
  "g_send_error_status =
     [1054, 1096, 1080, 1073, 1082, 1072, 32, 1087, 1088, 1080, 32, 1086, 1090, 1087, 1088,
      1072, 1074, 1082, 1077, 32, 1087, 1086, 1089, 1099, 1083, 1082, 1080]"

definition g_enter_tracking :: str where
  \<comment> \<open>please enter the tracking number\<close>
  "g_enter_tracking =
     [1055, 1086, 1078, 1072, 1083, 1091, 1081, 1089, 1090, 1072, 44, 32, 1074, 1074, 1077,
      1076, 1080, 1090, 1077, 32, 1085, 1086, 1084, 1077, 1088, 32, 1086, 1090, 1089, 1083,
      1077, 1078, 1080, 1074, 1072, 1085, 1080, 1103, 46]"

definition not_specified :: str where
  \<comment> \<open>not specified (neuter)\<close>
  "not_specified =
     [1053, 1077, 32, 1091, 1082, 1072, 1079, 1072, 1085, 1086]"

definition lbl_status :: str where
  \<comment> \<open>Status: \<close>
  "lbl_status =
     [1057, 1090, 1072, 1090, 1091, 1089, 58, 32]"

definition lbl_sender :: str where
  \<comment> \<open>Sender: \<close>
  "lbl_sender =
     [1054, 1090, 1087, 1088, 1072, 1074, 1080, 1090, 1077, 1083, 1100, 58, 32]"

definition lbl_recipient :: str where
  \<comment> \<open>Recipient: \<close>
  "lbl_recipient =
     [1055, 1086, 1083, 1091, 1095, 1072, 1090, 1077, 1083, 1100, 58, 32]"

definition lbl_date :: str where
  \<comment> \<open>Date sent: \<close>
  "lbl_date =
     [1044, 1072, 1090, 1072, 32, 1086, 1090, 1087, 1088, 1072, 1074, 1082, 1080, 58, 32]"

definition info_not_found :: str where
  \<comment> \<open>information not found\<close>
  "info_not_found =
     [1048, 1085, 1092, 1086, 1088, 1084, 1072, 1094, 1080, 1103, 32, 1085, 1077, 32, 1085,
      1072, 1081, 1076, 1077, 1085, 1072]"

definition g_tracked_mid :: str where
  \<comment> \<open> tracked. Status: \<close>
  "g_tracked_mid =
     [32, 1086, 1090, 1089, 1083, 1077, 1078, 1077, 1085, 1072, 46, 32, 1057, 1090, 1072,
      1090, 1091, 1089, 58, 32]"

definition g_track_error_prefix :: str where
  \<comment> \<open>error tracking package \<close>
  "g_track_error_prefix =
     [1054, 1096, 1080, 1073, 1082, 1072, 32, 1087, 1088, 1080, 32, 1086, 1090, 1089, 1083,
      1077, 1078, 1080, 1074, 1072, 1085, 1080, 1080, 32, 1087, 1086, 1089, 1099, 1083,
      1082, 1080, 32]"

definition g_not_found :: str where
  \<comment> \<open>no package with this number\<close>
  "g_not_found =
     [1055, 1086, 1089, 1099, 1083, 1082, 1072, 32, 1089, 32, 1090, 1072, 1082, 1080, 1084,
      32, 1085, 1086, 1084, 1077, 1088, 1086, 1084, 32, 1085, 1077, 32, 1085, 1072, 1081,
      1076, 1077, 1085, 1072]"

definition g_enter_name :: str where
  \<comment> \<open>please enter your name\<close>
  "g_enter_name =
     [1055, 1086, 1078, 1072, 1083, 1091, 1081, 1089, 1090, 1072, 44, 32, 1074, 1074, 1077,
      1076, 1080, 1090, 1077, 32, 1074, 1072, 1096, 1077, 32, 1080, 1084, 1103, 46]"

definition g_review_added_status :: str where
  \<comment> \<open>review added\<close>
  "g_review_added_status =
     [1054, 1090, 1079, 1099, 1074, 32, 1091, 1089, 1087, 1077, 1096, 1085, 1086, 32, 1076,
      1086, 1073, 1072, 1074, 1083, 1077, 1085]"

definition g_review_error_status :: str where
  \<comment> \<open>error adding review\<close>
  "g_review_error_status =
     [1054, 1096, 1080, 1073, 1082, 1072, 32, 1087, 1088, 1080, 32, 1076, 1086, 1073, 1072,
      1074, 1083, 1077, 1085, 1080, 1080, 32, 1086, 1090, 1079, 1099, 1074, 1072]"

definition review_pkg_prefix :: str where
  \<comment> \<open> (Package: \<close>
  "review_pkg_prefix =
     [32, 40, 1055, 1086, 1089, 1099, 1083, 1082, 1072, 58, 32]"

definition g_enter_courier_name :: str where
  \<comment> \<open>please enter the courier's name\<close>
  "g_enter_courier_name =
     [1055, 1086, 1078, 1072, 1083, 1091, 1081, 1089, 1090, 1072, 44, 32, 1074, 1074, 1077,
      1076, 1080, 1090, 1077, 32, 1080, 1084, 1103, 32, 1082, 1091, 1088, 1100, 1077, 1088,
      1072, 46]"

definition g_courier_added_status :: str where
  \<comment> \<open>courier added\<close>
  "g_courier_added_status =
     [1050, 1091, 1088, 1100, 1077, 1088, 32, 1091, 1089, 1087, 1077, 1096, 1085, 1086, 32,
      1076, 1086, 1073, 1072, 1074, 1083, 1077, 1085]"

definition g_courier_error_status :: str where
  \<comment> \<open>error adding courier\<close>
  "g_courier_error_status =
     [1054, 1096, 1080, 1073, 1082, 1072, 32, 1087, 1088, 1080, 32, 1076, 1086, 1073, 1072,
      1074, 1083, 1077, 1085, 1080, 1080, 32, 1082, 1091, 1088, 1100, 1077, 1088, 1072]"

definition courier_tel_prefix :: str where
  \<comment> \<open> | Tel: \<close>
  "courier_tel_prefix =
     [32, 124, 32, 1058, 1077, 1083, 58, 32]"

definition g_select_courier :: str where
  \<comment> \<open>please select a courier to delete\<close>
  "g_select_courier =
     [1055, 1086, 1078, 1072, 1083, 1091, 1081, 1089, 1090, 1072, 44, 32, 1074, 1099, 1073,
      1077, 1088, 1080, 1090, 1077, 32, 1082, 1091, 1088, 1100, 1077, 1088, 1072, 32, 1076,
      1083, 1103, 32, 1091, 1076, 1072, 1083, 1077, 1085, 1080, 1103, 46]"

definition g_confirm_delete :: str where
  \<comment> \<open>are you sure you want to delete this courier?\<close>
  "g_confirm_delete =
     [1042, 1099, 32, 1091, 1074, 1077, 1088, 1077, 1085, 1099, 44, 32, 1095, 1090, 1086,
      32, 1093, 1086, 1090, 1080, 1090, 1077, 32, 1091, 1076, 1072, 1083, 1080, 1090, 1100,
      32, 1101, 1090, 1086, 1075, 1086, 32, 1082, 1091, 1088, 1100, 1077, 1088, 1072, 63]"

definition g_courier_removed_status :: str where
  \<comment> \<open>courier removed\<close>
  "g_courier_removed_status =
     [1050, 1091, 1088, 1100, 1077, 1088, 32, 1091, 1089, 1087, 1077, 1096, 1085, 1086, 32,
      1091, 1076, 1072, 1083, 1077, 1085]"

definition g_courier_remove_error_status :: str where
  \<comment> \<open>error removing courier\<close>
  "g_courier_remove_error_status =
     [1054, 1096, 1080, 1073, 1082, 1072, 32, 1087, 1088, 1080, 32, 1091, 1076, 1072, 1083,
      1077, 1085, 1080, 1080, 32, 1082, 1091, 1088, 1100, 1077, 1088, 1072]"

definition g_enter_address :: str where
  \<comment> \<open>please enter an address to search\<close>
  "g_enter_address =
     [1055, 1086, 1078, 1072, 1083, 1091, 1081, 1089, 1090, 1072, 44, 32, 1074, 1074, 1077,
      1076, 1080, 1090, 1077, 32, 1072, 1076, 1088, 1077, 1089, 32, 1076, 1083, 1103, 32,
      1087, 1086, 1080, 1089, 1082, 1072, 46]"

definition g_address_prefix :: str where
  \<comment> \<open>Address '\<close>
  "g_address_prefix =
     [1040, 1076, 1088, 1077, 1089, 32, 39]"

definition g_opened_suffix :: str where
  \<comment> \<open>' opened in Yandex Maps\<close>
  "g_opened_suffix =
     [39, 32, 1086, 1090, 1082, 1088, 1099, 1090, 32, 1074, 32, 1071, 1085, 1076, 1077,
      1082, 1089, 46, 1050, 1072, 1088, 1090, 1072, 1093]"

definition g_browser_error_prefix :: str where
  \<comment> \<open>could not open the browser: \<close>
  "g_browser_error_prefix =
     [1053, 1077, 32, 1091, 1076, 1072, 1083, 1086, 1089, 1100, 32, 1086, 1090, 1082, 1088,
      1099, 1090, 1100, 32, 1073, 1088, 1072, 1091, 1079, 1077, 1088, 58, 32]"

definition g_no_packages :: str where
  \<comment> \<open>no packages with addresses\<close>
  "g_no_packages =
     [1053, 1077, 1090, 32, 1087, 1086, 1089, 1099, 1083, 1086, 1082, 32, 1089, 32, 1072,
      1076, 1088, 1077, 1089, 1072, 1084, 1080]"

definition pkg_prefix :: str where
  \<comment> \<open>Package \<close>
  "pkg_prefix =
     [1055, 1086, 1089, 1099, 1083, 1082, 1072, 32]"

definition pkg_from_prefix :: str where
  \<comment> \<open> | From: \<close>
  "pkg_from_prefix =
     [32, 124, 32, 1054, 1090, 58, 32]"

definition pkg_to_prefix :: str where
  \<comment> \<open> | To: \<close>
  "pkg_to_prefix =
     [32, 124, 32, 1044, 1086, 58, 32]"

definition not_specified_m :: str where
  \<comment> \<open>not specified (masculine)\<close>
  "not_specified_m =
     [1053, 1077, 32, 1091, 1082, 1072, 1079, 1072, 1085]"

definition g_select_package :: str where
  \<comment> \<open>please select a package from the list\<close>
  "g_select_package =
     [1055, 1086, 1078, 1072, 1083, 1091, 1081, 1089, 1090, 1072, 44, 32, 1074, 1099, 1073,
      1077, 1088, 1080, 1090, 1077, 32, 1087, 1086, 1089, 1099, 1083, 1082, 1091, 32, 1080,
      1079, 32, 1089, 1087, 1080, 1089, 1082, 1072, 46]"

definition marker_no_packages :: str where
  \<comment> \<open>no packages\<close>
  "marker_no_packages =
     [1053, 1077, 1090, 32, 1087, 1086, 1089, 1099, 1083, 1086, 1082]"

definition marker_unavailable :: str where
  \<comment> \<open>unavailable\<close>
  "marker_unavailable =
     [1085, 1077, 1076, 1086, 1089, 1090, 1091, 1087, 1077, 1085]"

definition g_choose_real :: str where
  \<comment> \<open>choose a real package from the list\<close>
  "g_choose_real =
     [1042, 1099, 1073, 1077, 1088, 1080, 1090, 1077, 32, 1088, 1077, 1072, 1083, 1100,
      1085, 1091, 1102, 32, 1087, 1086, 1089, 1099, 1083, 1082, 1091, 32, 1080, 1079, 32,
      1089, 1087, 1080, 1089, 1082, 1072, 46]"

definition g_no_addresses :: str where
  \<comment> \<open>no addresses are given for this package\<close>
  "g_no_addresses =
     [1044, 1083, 1103, 32, 1101, 1090, 1086, 1081, 32, 1087, 1086, 1089, 1099, 1083, 1082,
      1080, 32, 1085, 1077, 32, 1091, 1082, 1072, 1079, 1072, 1085, 1099, 32, 1072, 1076,
      1088, 1077, 1089, 1072, 46]"

definition g_lookup_failed :: str where
  \<comment> \<open>could not find information about the package\<close>
  "g_lookup_failed =
     [1053, 1077, 32, 1091, 1076, 1072, 1083, 1086, 1089, 1100, 32, 1085, 1072, 1081, 1090,
      1080, 32, 1080, 1085, 1092, 1086, 1088, 1084, 1072, 1094, 1080, 1102, 32, 1086, 32,
      1087, 1086, 1089, 1099, 1083, 1082, 1077, 46]"

definition about_title :: str where
  \<comment> \<open>About\<close>
  "about_title =
     [1054, 32, 1087, 1088, 1086, 1075, 1088, 1072, 1084, 1084, 1077]"

definition about_text :: str where
  \<comment> \<open>Delivery service / Version 1.0 / A simple application for sending and tracking packages, managing couriers, working with customer reviews and integration with Yandex Maps\<close>
  "about_text =
     [1057, 1083, 1091, 1078, 1073, 1072, 32, 1076, 1086, 1089, 1090, 1072, 1074, 1082,
      1080, 10, 10, 1042, 1077, 1088, 1089, 1080, 1103, 32, 49, 46, 48, 10, 10, 1055,
      1088, 1086, 1089, 1090, 1086, 1077, 32, 1087, 1088, 1080, 1083, 1086, 1078, 1077,
      1085, 1080, 1077, 32, 1076, 1083, 1103, 32, 1086, 1090, 1087, 1088, 1072, 1074,
      1082, 1080, 32, 1080, 32, 1086, 1090, 1089, 1083, 1077, 1078, 1080, 1074, 1072,
      1085, 1080, 1103, 32, 1087, 1086, 1089, 1099, 1083, 1086, 1082, 44, 10, 1091,
      1087, 1088, 1072, 1074, 1083, 1077, 1085, 1080, 1103, 32, 1082, 1091, 1088, 1100,
      1077, 1088, 1072, 1084, 1080, 44, 32, 1088, 1072, 1073, 1086, 1090, 1099, 32,
      1089, 32, 1086, 1090, 1079, 1099, 1074, 1072, 1084, 1080, 32, 1082, 1083, 1080,
      1077, 1085, 1090, 1086, 1074, 10, 1080, 32, 1080, 1085, 1090, 1077, 1075, 1088,
      1072, 1094, 1080, 1077, 1081, 32, 1089, 32, 1071, 1085, 1076, 1077, 1082, 1089,
      46, 1050, 1072, 1088, 1090, 1072, 1084, 1080]"

definition courier_id_prefix :: str where
  "courier_id_prefix = asc ''ID: ''"

definition col_sep :: str where
  "col_sep = asc '' | ''"

definition courier_email_prefix :: str where
  "courier_email_prefix = asc '' | Email: ''"

definition ellipsis :: str where
  "ellipsis = asc ''...''"

definition yandex_prefix :: str where
  "yandex_prefix = asc ''https://yandex.ru/maps/?text=''"

definition comment_indent :: str where
  "comment_indent = 10 # asc ''   ''"

definition date_sep :: str where
  "date_sep = asc '' - ''"

definition rating_default :: str where
  "rating_default = asc ''5''"

definition star_full :: nat where
  \<comment> \<open>U+2605 BLACK STAR\<close>
  "star_full = 9733"

definition star_empty :: nat where
  \<comment> \<open>U+2606 WHITE STAR\<close>
  "star_empty = 9734"

end
