(* ===== verification/Gui.thy ===== *)
theory Gui
  imports Prelude Pystr Store Service Gui_Text
begin

text \<open>
  The button handlers of \<open>DeliveryServiceApp\<close> in \<open>gui.py\<close>. The window is the record
  \<open>app\<close>: the content of every entry, text widget, string variable, label and list box
  a handler reads or writes, the current list-box selections, and two logs of what the
  handlers do outside the window: the message boxes shown, in order, and the URLs
  opened in the browser. Each handler is a function of the window and the database
  (and of the environment: store faults, the clock, the random draws, the user's
  answer to a confirmation, the browser's outcome) to the new window and database.
  An exception that escapes a handler (\<open>int()\<close> of a malformed text, an index past
  the end) is reported by Tk and leaves the window as it was when it was raised, which
  in every handler is before any change.

  Tk's \<open>Text.get("1.0", END)\<close> returns the content followed by a newline
  (\<open>text_get\<close>); \<open>Listbox.get(i)\<close> past the end returns the empty string
  (\<open>listbox_get\<close>); deleting all items of a list box clears its selection.

  Its claims show the handlers against the service they call: refinement, round
  trips through the displayed text, and the behaviours that differ from what the
  handlers announce. The event loop that runs the handlers is in \<open>Session\<close>.
\<close>

datatype dialog = Show_error str str | Show_info str str | Ask_yes_no str str

datatype browser_result = Browser_opened | Browser_not_opened | Browser_raised str

record app =
  sender_entry :: str
  recipient_entry :: str
  sender_address_entry :: str
  recipient_address_entry :: str
  description_text :: str
  result_var :: str
  status_var :: str
  tracking_entry :: str
  status_label :: str
  sender_label :: str
  recipient_label :: str
  description_info :: str
  date_label :: str
  review_tracking_entry :: str
  customer_name_entry :: str
  rating_var :: str
  review_comment_text :: str
  reviews_listbox :: "str list"
  courier_name_entry :: str
  courier_phone_entry :: str
  courier_email_entry :: str
  couriers_listbox :: "str list"
  couriers_selection :: "nat list"
  address_entry :: str
  packages_listbox :: "str list"
  packages_selection :: "nat list"
  dialogs :: "dialog list"
  opened_urls :: "str list"

definition text_get :: "str \<Rightarrow> str" where
  "text_get t = t @ [10]"

definition listbox_get :: "str list \<Rightarrow> nat \<Rightarrow> str" where
  "listbox_get lb i = (if i < length lb then lb ! i else [])"

definition show_dialog :: "dialog \<Rightarrow> app \<Rightarrow> app" where
  "show_dialog dg a = a\<lparr>dialogs := dialogs a @ [dg]\<rparr>"

subsection \<open>Sending and tracking\<close>

definition gui_send_package :: "nat list \<Rightarrow> nat list \<Rightarrow> bool \<Rightarrow> datetime \<Rightarrow> app \<Rightarrow> db \<Rightarrow> app \<times> db" where
  "gui_send_package ls ds fault now a d =
    (let sender = py_strip (sender_entry a);
         recipient = py_strip (recipient_entry a);
         sender_address = py_strip (sender_address_entry a);
         recipient_address = py_strip (recipient_address_entry a);
         description = py_strip (text_get (description_text a))
     in if sender = [] \<or> recipient = [] \<or> description = []
        then (show_dialog (Show_error t_error g_fill_required) a, d)
        else (case send_package ls ds fault now description sender recipient sender_address
                     recipient_address d of
                (Inr result, d') \<Rightarrow>
                  (show_dialog (Show_info t_success (g_sent_prefix @ result))
                     (a\<lparr>result_var := g_sent_prefix @ result,
                        status_var := g_sent_status_prefix @ result,
                        sender_entry := [], recipient_entry := [], sender_address_entry := [],
                        recipient_address_entry := [], description_text := []\<rparr>), d')
              | (Inl result, d') \<Rightarrow>
                  (show_dialog (Show_error t_error result)
                     (a\<lparr>result_var := g_send_error_prefix @ result,
                        status_var := g_send_error_status\<rparr>), d')))"

text \<open>The date shown by the track view: \<open>created_at.split('.')[0]\<close> when the text
  contains a dot, the text itself otherwise.\<close>

definition format_date :: "str \<Rightarrow> str" where
  "format_date created_at =
     (if created_at \<noteq> not_specified
      then (if py_contains [46] created_at then split_head created_at [46] else created_at)
      else created_at)"

definition gui_track_package :: "bool \<Rightarrow> app \<Rightarrow> db \<Rightarrow> app" where
  "gui_track_package fault a d =
    (let tracking_number = py_strip (tracking_entry a) in
     if tracking_number = [] then show_dialog (Show_error t_error g_enter_tracking) a
     else (case track_package fault tracking_number d of
             Inr p \<Rightarrow>
               a\<lparr>status_label := lbl_status @ pkg_status p,
                 sender_label := lbl_sender @ pkg_sender p,
                 recipient_label := lbl_recipient @ pkg_recipient p,
                 description_info := pkg_description p,
                 date_label := lbl_date @ format_date (pkg_created_at p),
                 status_var := pkg_prefix @ tracking_number @ g_tracked_mid @ pkg_status p\<rparr>
           | Inl result \<Rightarrow>
               show_dialog (Show_error t_error result)
                 (a\<lparr>status_label := lbl_status @ info_not_found,
                    sender_label := lbl_sender @ info_not_found,
                    recipient_label := lbl_recipient @ info_not_found,
                    description_info := info_not_found,
                    date_label := lbl_date @ info_not_found,
                    status_var := g_track_error_prefix @ tracking_number\<rparr>)))"

subsection \<open>Reviews\<close>

definition rating_stars :: "int \<Rightarrow> str" where
  "rating_stars rating = replicate (nat rating) star_full @ replicate (nat (5 - rating)) star_empty"

definition review_line :: "review_row \<Rightarrow> str" where
  "review_line r =
     (let created_at = rev_created_at r;
          tracking_text = (if rev_tracking_number r \<noteq> []
                           then review_pkg_prefix @ rev_tracking_number r @ [41] else []);
          date_str = (if py_contains [46] created_at then split_head created_at [46] else created_at);
          comment = rev_comment r
      in rating_stars (rev_rating r) @ [32] @ rev_customer_name r @ tracking_text @ date_sep @
         date_str @
         (if comment \<noteq> []
          then comment_indent @ take 60 comment @ (if 60 < length comment then ellipsis else [])
          else []))"

definition refresh_reviews :: "bool \<Rightarrow> app \<Rightarrow> db \<Rightarrow> app" where
  "refresh_reviews fault a d = a\<lparr>reviews_listbox := map review_line (get_reviews fault d)\<rparr>"

definition gui_add_review :: "bool \<Rightarrow> bool \<Rightarrow> datetime \<Rightarrow> app \<Rightarrow> db \<Rightarrow> app \<times> db" where
  "gui_add_review fault fault' now a d =
    (let tracking_number = py_strip (review_tracking_entry a);
         customer_name = py_strip (customer_name_entry a)
     in case py_int (rating_var a) of
          Inl _ \<Rightarrow> (a, d)
        | Inr rating \<Rightarrow>
            let comment = py_strip (text_get (review_comment_text a)) in
            if customer_name = [] then (show_dialog (Show_error t_error g_enter_name) a, d)
            else (case add_review fault now tracking_number customer_name rating comment d of
                    (Inr result, d') \<Rightarrow>
                      (show_dialog (Show_info t_success result)
                         (refresh_reviews fault'
                            (a\<lparr>status_var := g_review_added_status, review_tracking_entry := [],
                               customer_name_entry := [], rating_var := rating_default,
                               review_comment_text := []\<rparr>) d'), d')
                  | (Inl result, d') \<Rightarrow>
                      (show_dialog (Show_error t_error result)
                         (a\<lparr>status_var := g_review_error_status\<rparr>), d')))"

subsection \<open>Couriers\<close>

definition courier_line :: "courier_row \<Rightarrow> str" where
  "courier_line c =
     courier_id_prefix @ dec_digits (cour_id c) @ col_sep @ cour_name c @
     (if cour_phone c \<noteq> [] then courier_tel_prefix @ cour_phone c else []) @
     (if cour_email c \<noteq> [] then courier_email_prefix @ cour_email c else [])"

definition refresh_couriers :: "bool \<Rightarrow> app \<Rightarrow> db \<Rightarrow> app" where
  "refresh_couriers fault a d =
     a\<lparr>couriers_listbox := map courier_line (get_couriers fault d), couriers_selection := []\<rparr>"

definition gui_add_courier :: "bool \<Rightarrow> bool \<Rightarrow> datetime \<Rightarrow> app \<Rightarrow> db \<Rightarrow> app \<times> db" where
  "gui_add_courier fault fault' now a d =
    (let name = py_strip (courier_name_entry a);
         phone = py_strip (courier_phone_entry a);
         email = py_strip (courier_email_entry a)
     in if name = [] then (show_dialog (Show_error t_error g_enter_courier_name) a, d)
        else (case add_courier fault now name phone email d of
                (Inr result, d') \<Rightarrow>
                  (show_dialog (Show_info t_success result)
                     (refresh_couriers fault'
                        (a\<lparr>status_var := g_courier_added_status, courier_name_entry := [],
                           courier_phone_entry := [], courier_email_entry := []\<rparr>) d'), d')
              | (Inl result, d') \<Rightarrow>
                  (show_dialog (Show_error t_error result)
                     (a\<lparr>status_var := g_courier_error_status\<rparr>), d')))"

text \<open>The id of the selected row: \<open>int(text.split(" | ")[0].replace("ID: ", ""))\<close>.\<close>

definition parse_courier_id :: "str \<Rightarrow> py_error + int" where
  "parse_courier_id selected_text =
     py_bind (py_split selected_text col_sep) (\<lambda>parts.
       py_bind (py_index parts 0) (\<lambda>first. py_int (py_replace first courier_id_prefix [])))"

definition gui_delete_courier :: "bool \<Rightarrow> bool \<Rightarrow> bool \<Rightarrow> app \<Rightarrow> db \<Rightarrow> app \<times> db" where
  "gui_delete_courier confirmed fault fault' a d =
    (if couriers_selection a = [] then (show_dialog (Show_error t_error g_select_courier) a, d)
     else
       let selected_text = listbox_get (couriers_listbox a) (hd (couriers_selection a)) in
       case parse_courier_id selected_text of
         Inl _ \<Rightarrow> (a, d)
       | Inr courier_id \<Rightarrow>
           let a1 = show_dialog (Ask_yes_no t_confirm g_confirm_delete) a in
           if \<not> confirmed then (a1, d)
           else (case remove_courier fault courier_id d of
                   (Inr result, d') \<Rightarrow>
                     (show_dialog (Show_info t_success result)
                        (refresh_couriers fault' (a1\<lparr>status_var := g_courier_removed_status\<rparr>) d'), d')
                 | (Inl result, d') \<Rightarrow>
                     (show_dialog (Show_error t_error result)
                        (a1\<lparr>status_var := g_courier_remove_error_status\<rparr>), d')))"

subsection \<open>Map and addresses\<close>

text \<open>\<open>webbrowser.open\<close> returns whether a browser was started, or raises; the handler
  ignores the returned value.\<close>

definition gui_search_address :: "browser_result \<Rightarrow> app \<Rightarrow> app" where
  "gui_search_address br a =
    (let address = py_strip (address_entry a) in
     if address = [] then show_dialog (Show_error t_error g_enter_address) a
     else (case py_quote address of
             Inl _ \<Rightarrow> a
           | Inr encoded_address \<Rightarrow>
               let yandex_url = yandex_prefix @ encoded_address in
               (case br of
                  Browser_raised e \<Rightarrow> show_dialog (Show_error t_error (g_browser_error_prefix @ e)) a
                | _ \<Rightarrow>
                    show_dialog (Show_info t_success (g_address_prefix @ address @ g_opened_suffix @ [33]))
                      (a\<lparr>opened_urls := opened_urls a @ (if br = Browser_opened then [yandex_url] else []),
                         status_var := g_address_prefix @ address @ g_opened_suffix\<rparr>))))"

definition package_line :: "package_row \<Rightarrow> str" where
  "package_line p =
     (let sender_address = pkg_sender_address p; recipient_address = pkg_recipient_address p in
      pkg_prefix @ pkg_tracking_number p @
      (if sender_address \<noteq> [] \<and> sender_address \<noteq> not_specified_m
       then pkg_from_prefix @ take 30 sender_address @ ellipsis else []) @
      (if recipient_address \<noteq> [] \<and> recipient_address \<noteq> not_specified_m
       then pkg_to_prefix @ take 30 recipient_address @ ellipsis else []))"

text \<open>The \<open>ImportError\<close> branch of \<open>refresh_packages_list\<close> is dead: database.py
  defines \<open>get_all_packages\<close>.\<close>

definition gui_refresh_packages_list :: "bool \<Rightarrow> app \<Rightarrow> db \<Rightarrow> app" where
  "gui_refresh_packages_list fault a d =
    (let packages = get_all_packages fault d in
     if packages = [] then a\<lparr>packages_listbox := [g_no_packages], packages_selection := []\<rparr>
     else a\<lparr>packages_listbox := map package_line packages, packages_selection := []\<rparr>)"

definition gui_show_selected_address :: "bool \<Rightarrow> browser_result \<Rightarrow> app \<Rightarrow> db \<Rightarrow> app" where
  "gui_show_selected_address fault br a d =
    (if packages_selection a = [] then show_dialog (Show_error t_error g_select_package) a
     else
       let selected_text = listbox_get (packages_listbox a) (hd (packages_selection a)) in
       if py_contains marker_no_packages selected_text \<or> py_contains marker_unavailable selected_text
       then show_dialog (Show_info t_info g_choose_real) a
       else (case py_index (py_split_ws selected_text) 1 of
               Inl _ \<Rightarrow> a
             | Inr tracking_number \<Rightarrow>
                 (case track_package fault tracking_number d of
                    Inr p \<Rightarrow>
                      let sender_address = pkg_sender_address p;
                          recipient_address = pkg_recipient_address p
                      in if sender_address \<noteq> [] \<or> recipient_address \<noteq> []
                         then gui_search_address br
                                (a\<lparr>address_entry := (if recipient_address \<noteq> [] then recipient_address
                                                     else sender_address)\<rparr>)
                         else show_dialog (Show_info t_info g_no_addresses) a
                  | Inl _ \<Rightarrow> show_dialog (Show_error t_error g_lookup_failed) a)))"

subsection \<open>Building the window\<close>

text \<open>The window before its widgets are filled: every text empty, nothing shown yet.\<close>

definition app_blank :: app where
  "app_blank = \<lparr>sender_entry = [], recipient_entry = [], sender_address_entry = [],
     recipient_address_entry = [], description_text = [], result_var = [], status_var = [],
     tracking_entry = [], status_label = [], sender_label = [], recipient_label = [],
     description_info = [], date_label = [], review_tracking_entry = [], customer_name_entry = [],
     rating_var = [], review_comment_text = [], reviews_listbox = [], courier_name_entry = [],
     courier_phone_entry = [], courier_email_entry = [], couriers_listbox = [],
     couriers_selection = [], address_entry = [], packages_listbox = [], packages_selection = [],
     dialogs = [], opened_urls = []\<rparr>"

text \<open>Each \<open>setup_*_frame\<close> method, by its effect on the state the handlers read: the
  widgets it creates with their initial content, and the list it fills. Labels, frames,
  buttons and geometry carry no state the program reads back.\<close>

definition setup_send_frame :: "app \<Rightarrow> app" where
  "setup_send_frame a =
     a\<lparr>sender_entry := [], recipient_entry := [], sender_address_entry := [],
       recipient_address_entry := [], description_text := [], result_var := g_result_placeholder\<rparr>"

definition setup_track_frame :: "app \<Rightarrow> app" where
  "setup_track_frame a =
     a\<lparr>tracking_entry := [], status_label := lbl_status @ info_not_found,
       sender_label := lbl_sender @ info_not_found, recipient_label := lbl_recipient @ info_not_found,
       description_info := info_not_found, date_label := lbl_date @ info_not_found\<rparr>"

definition setup_review_frame :: "bool \<Rightarrow> db \<Rightarrow> app \<Rightarrow> app" where
  "setup_review_frame fault d a =
     refresh_reviews fault
       (a\<lparr>review_tracking_entry := [], customer_name_entry := [], rating_var := rating_default,
          review_comment_text := [], reviews_listbox := []\<rparr>) d"

definition setup_courier_frame :: "bool \<Rightarrow> db \<Rightarrow> app \<Rightarrow> app" where
  "setup_courier_frame fault d a =
     refresh_couriers fault
       (a\<lparr>courier_name_entry := [], courier_phone_entry := [], courier_email_entry := [],
          couriers_listbox := [], couriers_selection := []\<rparr>) d"

definition setup_map_frame :: "bool \<Rightarrow> db \<Rightarrow> app \<Rightarrow> app" where
  "setup_map_frame fault d a =
     gui_refresh_packages_list fault
       (a\<lparr>address_entry := [], packages_listbox := [], packages_selection := []\<rparr>) d"

text \<open>\<open>__init__\<close>: the frames in the order it sets them up (each list filled from the
  file, with the fault of that read), then the status bar "ready".\<close>

definition gui_init :: "bool \<Rightarrow> bool \<Rightarrow> bool \<Rightarrow> db \<Rightarrow> app" where
  "gui_init fault_reviews fault_couriers fault_packages d =
     (setup_map_frame fault_packages d
       (setup_courier_frame fault_couriers d
         (setup_review_frame fault_reviews d
           (setup_track_frame (setup_send_frame app_blank)))))\<lparr>status_var := g_ready\<rparr>"

subsection \<open>About\<close>

definition gui_show_about :: "app \<Rightarrow> app" where
  "gui_show_about a = show_dialog (Show_info about_title about_text) a"

subsection \<open>Lemmas\<close>

lemmas gui_init_defs = gui_init_def app_blank_def setup_send_frame_def setup_track_frame_def
  setup_review_frame_def setup_courier_frame_def setup_map_frame_def

lemma col_sep_eq: "col_sep = [32, 124, 32]"
  by (simp add: col_sep_def asc_def)

lemma courier_id_prefix_eq: "courier_id_prefix = [73, 68, 58, 32]"
  by (simp add: courier_id_prefix_def asc_def)

lemma id_text_no_sep:
  assumes ds: "ds \<noteq> []" "\<forall>c\<in>set ds. 48 \<le> c \<and> c \<le> 57"
  shows "\<forall>i<length (courier_id_prefix @ ds).
           take (length col_sep) (drop i ((courier_id_prefix @ ds) @ z)) \<noteq> col_sep"
proof (intro allI impI notI)
  fix i
  let ?w = "(courier_id_prefix @ ds) @ z"
  assume i: "i < length (courier_id_prefix @ ds)" and eq: "take (length col_sep) (drop i ?w) = col_sep"
  have w0: "?w ! i = 32" using take_drop_eq_nth [OF eq, of 0] by (simp add: col_sep_eq)
  have w1: "?w ! (i + 1) = 124" using take_drop_eq_nth [OF eq, of 1] by (simp add: col_sep_eq)
  have digit: "?w ! k \<noteq> 32 \<and> ?w ! k \<noteq> 124" if "4 \<le> k" "k < 4 + length ds" for k
  proof -
    have L: "length courier_id_prefix = 4" by (simp add: courier_id_prefix_eq)
    have "?w ! k = (ds @ z) ! (k - 4)" using that by (simp add: nth_append L)
    also have "\<dots> = ds ! (k - 4)" using that by (auto simp: nth_append)
    finally have "?w ! k = ds ! (k - 4)" .
    moreover have "ds ! (k - 4) \<in> set ds" using that by simp
    ultimately show ?thesis using ds(2) by fastforce
  qed
  show False
  proof (cases "i < 4")
    case True
    then consider "i = 0" | "i = 1" | "i = 2" | "i = 3" by linarith
    then show False
    proof cases
      case 4
      have "?w ! 4 \<noteq> 124" using digit [of 4] ds(1) by simp
      with w1 4 show False by simp
    qed (use w0 in \<open>simp_all add: courier_id_prefix_eq\<close>)
  next
    case False
    with i digit [of i] w0 show False by (simp add: courier_id_prefix_eq)
  qed
qed

lemma courier_line_parts:
  "courier_line c = (courier_id_prefix @ dec_digits (cour_id c)) @ col_sep @
     (cour_name c @ (if cour_phone c \<noteq> [] then courier_tel_prefix @ cour_phone c else []) @
      (if cour_email c \<noteq> [] then courier_email_prefix @ cour_email c else []))"
  by (simp add: courier_line_def)

theorem parse_courier_line: "parse_courier_id (courier_line c) = Inr (int (cour_id c))"
proof -
  let ?x = "courier_id_prefix @ dec_digits (cour_id c)"
  let ?z = "col_sep @ (cour_name c @ (if cour_phone c \<noteq> [] then courier_tel_prefix @ cour_phone c else []) @
      (if cour_email c \<noteq> [] then courier_email_prefix @ cour_email c else []))"
  have dig: "\<forall>c\<in>set (dec_digits (cour_id c)). 48 \<le> c \<and> c \<le> 57" using dec_digits_digit by blast
  have split: "split_on col_sep [] (?x @ ?z) = ?x # split_on col_sep [] (drop (length col_sep) ?z)"
    using split_on_first [OF id_text_no_sep [OF dec_digits_ne dig] _ , of ?z "[]"]
    by (simp add: col_sep_eq)
  have repl: "py_replace ?x courier_id_prefix [] = dec_digits (cour_id c)"
  proof -
    have "hd courier_id_prefix \<notin> set (dec_digits (cour_id c))"
      using dig by (auto simp: courier_id_prefix_eq)
    then show ?thesis
      by (simp add: py_replace_def replace_on_prefix replace_on_absent courier_id_prefix_eq)
  qed
  show ?thesis
    unfolding parse_courier_id_def courier_line_parts
    using split repl by (simp add: py_split_def py_bind_def py_index_def col_sep_eq py_int_dec_digits)
qed

lemma adapt_datetime_not_specified: "adapt_datetime dt \<noteq> not_specified"
proof -
  have "hd (adapt_datetime dt) = hd (zpad 4 (dt_year dt))" by (simp add: adapt_datetime_def zpad_ne)
  then have "48 \<le> hd (adapt_datetime dt) \<and> hd (adapt_datetime dt) \<le> 57"
    using zpad_digit [OF hd_in_set [OF zpad_ne]] by simp
  then show ?thesis by (auto simp: not_specified_def)
qed

theorem format_date_adapt: "format_date (adapt_datetime dt) = adapt_datetime (dt\<lparr>dt_microsecond := 0\<rparr>)"
proof (cases "dt_microsecond dt = 0")
  case True
  then have "adapt_datetime dt = adapt_datetime (dt\<lparr>dt_microsecond := 0\<rparr>)"
    by (subst adapt_datetime_split) simp
  then show ?thesis
    using adapt_datetime_no_dot [of dt] adapt_datetime_not_specified [of dt]
    by (simp add: format_date_def py_contains_single)
next
  case False
  let ?b = "adapt_datetime (dt\<lparr>dt_microsecond := 0\<rparr>)"
  have eq: "adapt_datetime dt = ?b @ [46] @ zpad 6 (dt_microsecond dt)"
    using False by (subst adapt_datetime_split) simp
  show ?thesis
    using adapt_datetime_not_specified [of dt] split_head_before [OF adapt_datetime_no_dot [of dt]]
    by (simp add: format_date_def py_contains_single eq)
qed

lemma tracking_format_no_space:
  assumes "tracking_format s"
  shows "list_all (\<lambda>c. \<not> py_isspace c) s \<and> s \<noteq> []"
proof -
  have "s = take 2 s @ s ! 2 # drop 3 s"
    using assms id_take_nth_drop [of 2 s] by (simp add: tracking_format_def)
  then have "set s = set (take 2 s) \<union> {s ! 2} \<union> set (drop 3 s)"
    by (metis Un_insert_right insert_is_Un list.simps(15) set_append sup_commute)
  then show ?thesis
    using assms by (auto simp: tracking_format_def list_all_iff is_ascii_upper_def
        is_ascii_digit_def py_isspace_def)
qed

lemma package_line_split:
  "\<exists>rest. package_line p = [1055, 1086, 1089, 1099, 1083, 1082, 1072] @ 32 # pkg_tracking_number p @ rest \<and>
     (rest = [] \<or> hd rest = 32)"
  by (simp add: package_line_def Let_def pkg_prefix_def pkg_from_prefix_def pkg_to_prefix_def)

theorem package_line_tracking:
  assumes "tracking_format (pkg_tracking_number p)"
  shows "py_index (py_split_ws (package_line p)) 1 = Inr (pkg_tracking_number p)"
proof -
  obtain rest where r: "package_line p = [1055, 1086, 1089, 1099, 1083, 1082, 1072] @ 32 # pkg_tracking_number p @ rest"
      "rest = [] \<or> hd rest = 32"
    using package_line_split by blast
  have w1: "list_all (\<lambda>c. \<not> py_isspace c) [1055, 1086, 1089, 1099, 1083, 1082, 1072]"
    by (simp add: py_isspace_def)
  have sp: "py_isspace 32" and tl: "rest = [] \<or> py_isspace (hd rest)"
    using r(2) by (auto simp: py_isspace_def)
  have tn: "list_all (\<lambda>c. \<not> py_isspace c) (pkg_tracking_number p)" "pkg_tracking_number p \<noteq> []"
    using tracking_format_no_space [OF assms] by simp_all
  show ?thesis unfolding r(1)
    by (rule py_split_ws_second [OF w1 _ sp tn tl]) simp
qed

lemma rating_stars_take:
  assumes "1 \<le> r" "r \<le> 5"
  shows "take 5 (rating_stars r @ x) = replicate (nat r) star_full @ replicate (5 - nat r) star_empty"
proof -
  have "nat (5 - r) = 5 - nat r" using assms by simp
  moreover have "length (rating_stars r) = 5" using assms by (simp add: rating_stars_def)
  ultimately show ?thesis by (simp add: rating_stars_def)
qed

lemma gui_send_package_db:
  "snd (gui_send_package ls ds f t a d) = d \<or>
   snd (gui_send_package ls ds f t a d) = snd (send_package ls ds f t (py_strip (text_get (description_text a)))
     (py_strip (sender_entry a)) (py_strip (recipient_entry a)) (py_strip (sender_address_entry a))
     (py_strip (recipient_address_entry a)) d)"
  by (auto simp: gui_send_package_def Let_def split: prod.splits sum.splits)

lemma gui_add_review_db:
  "snd (gui_add_review f f' t a d) = d \<or>
   (\<exists>rt. snd (gui_add_review f f' t a d) = snd (add_review f t (py_strip (review_tracking_entry a))
      (py_strip (customer_name_entry a)) rt (py_strip (text_get (review_comment_text a))) d))"
  by (auto simp: gui_add_review_def Let_def split: prod.splits sum.splits) (metis snd_conv)+

lemma gui_add_courier_db:
  "snd (gui_add_courier f f' t a d) = d \<or>
   snd (gui_add_courier f f' t a d) = snd (add_courier f t (py_strip (courier_name_entry a))
     (py_strip (courier_phone_entry a)) (py_strip (courier_email_entry a)) d)"
  by (auto simp: gui_add_courier_def Let_def split: prod.splits sum.splits)

lemma gui_delete_courier_db:
  "snd (gui_delete_courier c f f' a d) = d \<or>
   (\<exists>cid. snd (gui_delete_courier c f f' a d) = snd (remove_courier f cid d))"
  by (auto simp: gui_delete_courier_def Let_def split: prod.splits sum.splits) (metis snd_conv)+

lemma rating_var_handlers:
  "rating_var (fst (gui_send_package ls ds f t a d)) = rating_var a"
  "rating_var (gui_track_package f a d) = rating_var a"
  "rating_var (fst (gui_add_review f f' t a d)) \<in> {rating_var a, rating_default}"
  "rating_var (refresh_reviews f a d) = rating_var a"
  "rating_var (fst (gui_add_courier f f' t a d)) = rating_var a"
  "rating_var (refresh_couriers f a d) = rating_var a"
  "rating_var (fst (gui_delete_courier c f f' a d)) = rating_var a"
  "rating_var (gui_search_address br a) = rating_var a"
  "rating_var (gui_refresh_packages_list f a d) = rating_var a"
  "rating_var (gui_show_selected_address f br a d) = rating_var a"
  "rating_var (gui_show_about a) = rating_var a"
  by (auto simp: gui_send_package_def gui_track_package_def gui_add_review_def refresh_reviews_def
      gui_add_courier_def refresh_couriers_def gui_delete_courier_def gui_search_address_def
      gui_refresh_packages_list_def gui_show_selected_address_def gui_show_about_def show_dialog_def Let_def
      split: prod.splits sum.splits browser_result.splits)

lemma courier_widgets_other_handlers:
  "couriers_listbox (fst (gui_send_package ls ds f t a d)) = couriers_listbox a \<and>
   couriers_selection (fst (gui_send_package ls ds f t a d)) = couriers_selection a"
  "couriers_listbox (gui_track_package f a d) = couriers_listbox a \<and>
   couriers_selection (gui_track_package f a d) = couriers_selection a"
  "couriers_listbox (fst (gui_add_review f f' t a d)) = couriers_listbox a \<and>
   couriers_selection (fst (gui_add_review f f' t a d)) = couriers_selection a"
  "couriers_listbox (refresh_reviews f a d) = couriers_listbox a \<and>
   couriers_selection (refresh_reviews f a d) = couriers_selection a"
  "couriers_listbox (gui_search_address br a) = couriers_listbox a \<and>
   couriers_selection (gui_search_address br a) = couriers_selection a"
  "couriers_listbox (gui_refresh_packages_list f a d) = couriers_listbox a \<and>
   couriers_selection (gui_refresh_packages_list f a d) = couriers_selection a"
  "couriers_listbox (gui_show_selected_address f br a d) = couriers_listbox a \<and>
   couriers_selection (gui_show_selected_address f br a d) = couriers_selection a"
  "couriers_listbox (gui_show_about a) = couriers_listbox a \<and>
   couriers_selection (gui_show_about a) = couriers_selection a"
  by (auto simp: gui_send_package_def gui_track_package_def gui_add_review_def refresh_reviews_def
      gui_search_address_def gui_refresh_packages_list_def gui_show_selected_address_def
      gui_show_about_def show_dialog_def Let_def split: prod.splits sum.splits browser_result.splits)

lemma package_widgets_other_handlers:
  "packages_listbox (fst (gui_send_package ls ds f t a d)) = packages_listbox a \<and>
   packages_selection (fst (gui_send_package ls ds f t a d)) = packages_selection a"
  "packages_listbox (gui_track_package f a d) = packages_listbox a \<and>
   packages_selection (gui_track_package f a d) = packages_selection a"
  "packages_listbox (fst (gui_add_review f f' t a d)) = packages_listbox a \<and>
   packages_selection (fst (gui_add_review f f' t a d)) = packages_selection a"
  "packages_listbox (refresh_reviews f a d) = packages_listbox a \<and>
   packages_selection (refresh_reviews f a d) = packages_selection a"
  "packages_listbox (fst (gui_add_courier f f' t a d)) = packages_listbox a \<and>
   packages_selection (fst (gui_add_courier f f' t a d)) = packages_selection a"
  "packages_listbox (refresh_couriers f a d) = packages_listbox a \<and>
   packages_selection (refresh_couriers f a d) = packages_selection a"
  "packages_listbox (fst (gui_delete_courier c f f' a d)) = packages_listbox a \<and>
   packages_selection (fst (gui_delete_courier c f f' a d)) = packages_selection a"
  "packages_listbox (gui_search_address br a) = packages_listbox a \<and>
   packages_selection (gui_search_address br a) = packages_selection a"
  "packages_listbox (gui_show_selected_address f br a d) = packages_listbox a \<and>
   packages_selection (gui_show_selected_address f br a d) = packages_selection a"
  "packages_listbox (gui_show_about a) = packages_listbox a \<and>
   packages_selection (gui_show_about a) = packages_selection a"
  by (auto simp: gui_send_package_def gui_track_package_def gui_add_review_def refresh_reviews_def
      gui_add_courier_def refresh_couriers_def gui_delete_courier_def
      gui_search_address_def gui_show_selected_address_def
      gui_show_about_def show_dialog_def Let_def split: prod.splits sum.splits browser_result.splits)

lemma gui_delete_listed_courier:
  assumes "\<not> stmt_fails fault d" "c \<in> set (couriers d)" "couriers_selection a = [k]"
    "k < length (couriers_listbox a)" "couriers_listbox a ! k = courier_line c"
  shows "snd (gui_delete_courier True fault f' a d) =
           d\<lparr>couriers := filter (\<lambda>c'. cour_id c' \<noteq> cour_id c) (couriers d)\<rparr> \<and>
         last (dialogs (fst (gui_delete_courier True fault f' a d))) = Show_info t_success msg_courier_removed"
proof -
  have "remove_courier fault (int (cour_id c)) d =
          (Inr msg_courier_removed, d\<lparr>couriers := filter (\<lambda>c'. cour_id c' \<noteq> cour_id c) (couriers d)\<rparr>)"
    using assms(1,2) by (auto simp: remove_courier_result)
  then show ?thesis
    using assms(3-) parse_courier_line [of c]
    by (simp add: gui_delete_courier_def listbox_get_def Let_def show_dialog_def refresh_couriers_def)
qed

subsection \<open>Properties of the handlers\<close>

text \<open>C17. Deleting the courier selected in the list, after a refresh and with the
  deletion confirmed, has the effect on the database of \<open>remove_courier\<close> on the id of
  exactly that courier: the id read back from the list line is the courier's id,
  whatever its name, phone and e-mail contain.\<close>

theorem gui_delete_selected_courier:
  assumes "k < length (get_couriers False d)"
  shows "snd (gui_delete_courier True fault fault' ((refresh_couriers False a d)\<lparr>couriers_selection := [k]\<rparr>) d) =
         snd (remove_courier fault (int (cour_id (get_couriers False d ! k))) d)"
  using assms
  by (simp add: gui_delete_courier_def refresh_couriers_def listbox_get_def parse_courier_line Let_def
      split: prod.splits sum.splits)

theorem gui_delete_selected_courier_witness:
  "0 < length (get_couriers False (fresh_db\<lparr>couriers := [\<lparr>cour_id = 7, cour_name = [65], cour_phone = [], cour_email = [],
       cour_status = courier_status_active, cour_created_at = []\<rparr>], seq_couriers := 7\<rparr>)) \<and>
   snd (gui_delete_courier True False False ((refresh_couriers False (gui_init False False False fresh_db) (fresh_db\<lparr>couriers := [\<lparr>cour_id = 7, cour_name = [65], cour_phone = [], cour_email = [],
       cour_status = courier_status_active, cour_created_at = []\<rparr>], seq_couriers := 7\<rparr>))\<lparr>couriers_selection := [0]\<rparr>) (fresh_db\<lparr>couriers := [\<lparr>cour_id = 7, cour_name = [65], cour_phone = [], cour_email = [],
       cour_status = courier_status_active, cour_created_at = []\<rparr>], seq_couriers := 7\<rparr>)) =
   fresh_db\<lparr>couriers := [], seq_couriers := 7\<rparr>"
proof -
  have h: "0 < length (get_couriers False (fresh_db\<lparr>couriers := [\<lparr>cour_id = 7, cour_name = [65], cour_phone = [], cour_email = [],
       cour_status = courier_status_active, cour_created_at = []\<rparr>], seq_couriers := 7\<rparr>))" by (simp add: get_couriers_def get_all_couriers_def stmt_fails_def)
  show ?thesis
    using h gui_delete_selected_courier [OF h, of False False "(gui_init False False False fresh_db)"]
    by (simp add: remove_courier_result get_couriers_def get_all_couriers_def stmt_fails_def)
qed

text \<open>C18. When the sender, the recipient and the description are not blank, the send
  handler changes the database exactly as \<open>send_package\<close> on the stripped fields does
  (the description with the newline Tk appends removed).\<close>

theorem gui_send_package_refines:
  assumes "py_strip (sender_entry a) \<noteq> []" "py_strip (recipient_entry a) \<noteq> []"
    "py_strip (text_get (description_text a)) \<noteq> []"
  shows "snd (gui_send_package ls ds fault now a d) =
         snd (send_package ls ds fault now (py_strip (text_get (description_text a)))
                (py_strip (sender_entry a)) (py_strip (recipient_entry a))
                (py_strip (sender_address_entry a)) (py_strip (recipient_address_entry a)) d)"
  using assms by (simp add: gui_send_package_def Let_def split: prod.splits sum.splits)

theorem gui_send_package_refines_witness:
  "py_strip (sender_entry ((gui_init False False False fresh_db)\<lparr>sender_entry := [32, 83], recipient_entry := [82], description_text := [68]\<rparr>)) = [83] \<and>
   py_strip (recipient_entry ((gui_init False False False fresh_db)\<lparr>sender_entry := [32, 83], recipient_entry := [82], description_text := [68]\<rparr>)) = [82] \<and>
   py_strip (text_get (description_text ((gui_init False False False fresh_db)\<lparr>sender_entry := [32, 83], recipient_entry := [82], description_text := [68]\<rparr>))) = [68] \<and>
   snd (gui_send_package [0, 0] [0, 0, 0, 0, 0, 1] False datetime_min
          ((gui_init False False False fresh_db)\<lparr>sender_entry := [32, 83], recipient_entry := [82], description_text := [68]\<rparr>) fresh_db) =
   snd (send_package [0, 0] [0, 0, 0, 0, 0, 1] False datetime_min [68] [83] [82] [] [] fresh_db)"
proof -
  have h: "py_strip (sender_entry ((gui_init False False False fresh_db)\<lparr>sender_entry := [32, 83], recipient_entry := [82], description_text := [68]\<rparr>)) = [83]"
    "py_strip (recipient_entry ((gui_init False False False fresh_db)\<lparr>sender_entry := [32, 83], recipient_entry := [82], description_text := [68]\<rparr>)) = [82]"
    "py_strip (text_get (description_text ((gui_init False False False fresh_db)\<lparr>sender_entry := [32, 83], recipient_entry := [82], description_text := [68]\<rparr>))) = [68]"
    "py_strip (sender_address_entry ((gui_init False False False fresh_db)\<lparr>sender_entry := [32, 83], recipient_entry := [82], description_text := [68]\<rparr>)) = []"
    "py_strip (recipient_address_entry ((gui_init False False False fresh_db)\<lparr>sender_entry := [32, 83], recipient_entry := [82], description_text := [68]\<rparr>)) = []"
    by (simp_all add: gui_init_defs Let_def py_strip_def py_isspace_def text_get_def refresh_reviews_def
        refresh_couriers_def gui_refresh_packages_list_def)
  show ?thesis
    using gui_send_package_refines [of "(gui_init False False False fresh_db)\<lparr>sender_entry := [32, 83], recipient_entry := [82], description_text := [68]\<rparr>"
        "[0, 0]" "[0, 0, 0, 0, 0, 1]" False datetime_min fresh_db] h
    by simp
qed

text \<open>C19. A sender, recipient or description that is empty or only whitespace is refused
  by the send handler with the "fill in the required fields" dialog, and the database
  is not touched.\<close>

theorem gui_send_package_blank:
  assumes "py_strip (sender_entry a) = [] \<or> py_strip (recipient_entry a) = [] \<or>
           py_strip (text_get (description_text a)) = []"
  shows "gui_send_package ls ds fault now a d = (show_dialog (Show_error t_error g_fill_required) a, d)"
  using assms by (auto simp: gui_send_package_def Let_def)

theorem gui_send_package_blank_witness:
  "py_strip (sender_entry ((gui_init False False False fresh_db)\<lparr>sender_entry := [32, 9], recipient_entry := [82], description_text := [68]\<rparr>)) = [] \<and>
   gui_send_package [0, 0] [0, 0, 0, 0, 0, 1] False datetime_min
     ((gui_init False False False fresh_db)\<lparr>sender_entry := [32, 9], recipient_entry := [82], description_text := [68]\<rparr>) fresh_db =
   (show_dialog (Show_error t_error g_fill_required)
     ((gui_init False False False fresh_db)\<lparr>sender_entry := [32, 9], recipient_entry := [82], description_text := [68]\<rparr>), fresh_db)"
proof -
  have h: "py_strip (sender_entry ((gui_init False False False fresh_db)\<lparr>sender_entry := [32, 9], recipient_entry := [82], description_text := [68]\<rparr>)) = []"
    by (simp add: py_strip_def py_isspace_def)
  show ?thesis
    using h gui_send_package_blank [of "(gui_init False False False fresh_db)\<lparr>sender_entry := [32, 9], recipient_entry := [82], description_text := [68]\<rparr>"
        "[0, 0]" "[0, 0, 0, 0, 0, 1]" False datetime_min fresh_db] by simp
qed

text \<open>C20. Tracking the number a successful send returned shows that package: the initial
  status, the sender, the recipient and the description, and as the date the creation
  time to the second (the microseconds that the stored text carries are cut at the dot).\<close>

theorem gui_track_after_send:
  assumes "db_inv d" "send_package ls ds fault now de s r sa ra d = (Inr tn, d')"
    "py_strip (tracking_entry a) = tn"
  shows "gui_track_package False a d' =
           a\<lparr>status_label := lbl_status @ status_sent, sender_label := lbl_sender @ s,
             recipient_label := lbl_recipient @ r, description_info := de,
             date_label := lbl_date @ adapt_datetime (now\<lparr>dt_microsecond := 0\<rparr>),
             status_var := pkg_prefix @ tn @ g_tracked_mid @ status_sent\<rparr>"
  using assms(2,3)
  by (auto simp: send_package_result [OF assms(1)] gui_track_package_def track_package_def
      get_package_by_tracking_def stmt_fails_def find_fresh_append format_date_adapt split: if_splits)

theorem gui_track_after_send_witness:
  "db_inv fresh_db \<and> send_package [0, 0] [0, 0, 0, 0, 0, 1] False datetime_min [68] [83] [82] [] [] fresh_db = (Inr [65, 65, 45, 48, 48, 48, 48, 48, 49], snd (send_package [0, 0] [0, 0, 0, 0, 0, 1] False datetime_min [68] [83] [82] [] [] fresh_db)) \<and> py_strip (tracking_entry ((gui_init False False False fresh_db)\<lparr>tracking_entry := [65, 65, 45, 48, 48, 48, 48, 48, 49]\<rparr>)) = [65, 65, 45, 48, 48, 48, 48, 48, 49] \<and>
   gui_track_package False ((gui_init False False False fresh_db)\<lparr>tracking_entry := [65, 65, 45, 48, 48, 48, 48, 48, 49]\<rparr>) (snd (send_package [0, 0] [0, 0, 0, 0, 0, 1] False datetime_min [68] [83] [82] [] [] fresh_db)) =
     ((gui_init False False False fresh_db)\<lparr>tracking_entry := [65, 65, 45, 48, 48, 48, 48, 48, 49]\<rparr>)\<lparr>status_label := lbl_status @ status_sent, sender_label := lbl_sender @ [83],
       recipient_label := lbl_recipient @ [82], description_info := [68],
       date_label := lbl_date @ adapt_datetime (datetime_min\<lparr>dt_microsecond := 0\<rparr>),
       status_var := pkg_prefix @ [65, 65, 45, 48, 48, 48, 48, 48, 49] @ g_tracked_mid @ status_sent\<rparr>"
proof -
  have sent: "send_package [0, 0] [0, 0, 0, 0, 0, 1] False datetime_min [68] [83] [82] [] [] fresh_db = (Inr [65, 65, 45, 48, 48, 48, 48, 48, 49], snd (send_package [0, 0] [0, 0, 0, 0, 0, 1] False datetime_min [68] [83] [82] [] [] fresh_db))"
    unfolding send_package_result [OF db_inv_fresh_db]
    by (simp add: generate_tracking_number_def choices_def ascii_uppercase_def digits_def
        stmt_fails_def max_rowid_def)
  have tr: "py_strip (tracking_entry ((gui_init False False False fresh_db)\<lparr>tracking_entry := [65, 65, 45, 48, 48, 48, 48, 48, 49]\<rparr>)) = [65, 65, 45, 48, 48, 48, 48, 48, 49]"
    by (simp add: py_strip_def py_isspace_def)
  show ?thesis
    using db_inv_fresh_db sent tr gui_track_after_send [OF db_inv_fresh_db sent tr] by simp
qed

lemma gui_show_package_line:
  assumes "db_inv d" "\<not> stmt_fails fault d" "p \<in> set (packages d)" "tracking_format (pkg_tracking_number p)"
    "packages_selection a = [k]" "k < length (packages_listbox a)" "packages_listbox a ! k = package_line p"
    "\<not> py_contains marker_no_packages (package_line p)" "\<not> py_contains marker_unavailable (package_line p)"
  shows "gui_show_selected_address fault br a d =
         (if pkg_sender_address p \<noteq> [] \<or> pkg_recipient_address p \<noteq> []
          then gui_search_address br (a\<lparr>address_entry :=
            (if pkg_recipient_address p \<noteq> [] then pkg_recipient_address p else pkg_sender_address p)\<rparr>)
          else show_dialog (Show_info t_info g_no_addresses) a)"
proof -
  have "track_package fault (pkg_tracking_number p) d = Inr p"
    using track_stored_package [OF assms(1,3) _ assms(2)] tracking_format_no_space [OF assms(4)] by blast
  then show ?thesis
    using assms(5-9) package_line_tracking [OF assms(4)]
    by (simp add: gui_show_selected_address_def listbox_get_def Let_def)
qed

lemma no_packages_marked: "py_contains marker_no_packages g_no_packages"
  unfolding py_contains_def list_ex_iff
  by (intro bexI [of _ 0]) (simp_all add: marker_no_packages_def g_no_packages_def)

text \<open>C21. "Show on the map" for a package selected in the refreshed package list looks up
  the package of that line (its tracking number is the second word of the line) and
  searches for its recipient address, or its sender address when it has no recipient
  address, provided the line does not contain one of the placeholder markers.\<close>

theorem gui_show_selected_package:
  assumes "db_inv d" "k < length (get_all_packages False d)" "get_all_packages False d ! k = p"
    "tracking_format (pkg_tracking_number p)"
    "\<not> py_contains marker_no_packages (package_line p)" "\<not> py_contains marker_unavailable (package_line p)"
    "pkg_sender_address p \<noteq> [] \<or> pkg_recipient_address p \<noteq> []"
  shows "gui_show_selected_address False br ((gui_refresh_packages_list False a d)\<lparr>packages_selection := [k]\<rparr>) d =
         gui_search_address br ((gui_refresh_packages_list False a d)\<lparr>packages_selection := [k],
           address_entry := (if pkg_recipient_address p \<noteq> [] then pkg_recipient_address p else pkg_sender_address p)\<rparr>)"
proof -
  have ok: "\<not> stmt_fails False d" using assms(2) by (auto simp: get_all_packages_def)
  have mem: "p \<in> set (packages d)" using assms(2,3) get_all_packages_set nth_mem by blast
  have "packages_listbox ((gui_refresh_packages_list False a d)\<lparr>packages_selection := [k]\<rparr>) =
          map package_line (get_all_packages False d)"
    using assms(2) by (auto simp: gui_refresh_packages_list_def Let_def)
  with gui_show_package_line [OF assms(1) ok mem assms(4), of _ k] assms(2,3,5-7) show ?thesis by simp
qed

theorem gui_show_selected_package_witness:
  "db_inv (fresh_db\<lparr>packages := [\<lparr>pkg_id = 1, pkg_tracking_number = [65, 65, 45, 48, 48, 48, 48, 48, 49],
       pkg_description = [68], pkg_status = status_sent, pkg_sender = [83], pkg_recipient = [82],
       pkg_sender_address = [], pkg_recipient_address = [65], pkg_created_at = []\<rparr>], seq_packages := 1\<rparr>) \<and> 0 < length (get_all_packages False (fresh_db\<lparr>packages := [\<lparr>pkg_id = 1, pkg_tracking_number = [65, 65, 45, 48, 48, 48, 48, 48, 49],
       pkg_description = [68], pkg_status = status_sent, pkg_sender = [83], pkg_recipient = [82],
       pkg_sender_address = [], pkg_recipient_address = [65], pkg_created_at = []\<rparr>], seq_packages := 1\<rparr>)) \<and> get_all_packages False (fresh_db\<lparr>packages := [\<lparr>pkg_id = 1, pkg_tracking_number = [65, 65, 45, 48, 48, 48, 48, 48, 49],
       pkg_description = [68], pkg_status = status_sent, pkg_sender = [83], pkg_recipient = [82],
       pkg_sender_address = [], pkg_recipient_address = [65], pkg_created_at = []\<rparr>], seq_packages := 1\<rparr>) ! 0 = \<lparr>pkg_id = 1, pkg_tracking_number = [65, 65, 45, 48, 48, 48, 48, 48, 49],
       pkg_description = [68], pkg_status = status_sent, pkg_sender = [83], pkg_recipient = [82],
       pkg_sender_address = [], pkg_recipient_address = [65], pkg_created_at = []\<rparr> \<and>
   tracking_format (pkg_tracking_number \<lparr>pkg_id = 1, pkg_tracking_number = [65, 65, 45, 48, 48, 48, 48, 48, 49],
       pkg_description = [68], pkg_status = status_sent, pkg_sender = [83], pkg_recipient = [82],
       pkg_sender_address = [], pkg_recipient_address = [65], pkg_created_at = []\<rparr>) \<and>
   \<not> py_contains marker_no_packages (package_line \<lparr>pkg_id = 1, pkg_tracking_number = [65, 65, 45, 48, 48, 48, 48, 48, 49],
       pkg_description = [68], pkg_status = status_sent, pkg_sender = [83], pkg_recipient = [82],
       pkg_sender_address = [], pkg_recipient_address = [65], pkg_created_at = []\<rparr>) \<and> \<not> py_contains marker_unavailable (package_line \<lparr>pkg_id = 1, pkg_tracking_number = [65, 65, 45, 48, 48, 48, 48, 48, 49],
       pkg_description = [68], pkg_status = status_sent, pkg_sender = [83], pkg_recipient = [82],
       pkg_sender_address = [], pkg_recipient_address = [65], pkg_created_at = []\<rparr>) \<and>
   pkg_recipient_address \<lparr>pkg_id = 1, pkg_tracking_number = [65, 65, 45, 48, 48, 48, 48, 48, 49],
       pkg_description = [68], pkg_status = status_sent, pkg_sender = [83], pkg_recipient = [82],
       pkg_sender_address = [], pkg_recipient_address = [65], pkg_created_at = []\<rparr> = [65] \<and>
   gui_show_selected_address False Browser_opened ((gui_refresh_packages_list False (gui_init False False False fresh_db) (fresh_db\<lparr>packages := [\<lparr>pkg_id = 1, pkg_tracking_number = [65, 65, 45, 48, 48, 48, 48, 48, 49],
       pkg_description = [68], pkg_status = status_sent, pkg_sender = [83], pkg_recipient = [82],
       pkg_sender_address = [], pkg_recipient_address = [65], pkg_created_at = []\<rparr>], seq_packages := 1\<rparr>))\<lparr>packages_selection := [0]\<rparr>) (fresh_db\<lparr>packages := [\<lparr>pkg_id = 1, pkg_tracking_number = [65, 65, 45, 48, 48, 48, 48, 48, 49],
       pkg_description = [68], pkg_status = status_sent, pkg_sender = [83], pkg_recipient = [82],
       pkg_sender_address = [], pkg_recipient_address = [65], pkg_created_at = []\<rparr>], seq_packages := 1\<rparr>) =
   gui_search_address Browser_opened ((gui_refresh_packages_list False (gui_init False False False fresh_db) (fresh_db\<lparr>packages := [\<lparr>pkg_id = 1, pkg_tracking_number = [65, 65, 45, 48, 48, 48, 48, 48, 49],
       pkg_description = [68], pkg_status = status_sent, pkg_sender = [83], pkg_recipient = [82],
       pkg_sender_address = [], pkg_recipient_address = [65], pkg_created_at = []\<rparr>], seq_packages := 1\<rparr>))\<lparr>packages_selection := [0], address_entry := [65]\<rparr>)"
proof -
  have h1: "db_inv (fresh_db\<lparr>packages := [\<lparr>pkg_id = 1, pkg_tracking_number = [65, 65, 45, 48, 48, 48, 48, 48, 49],
       pkg_description = [68], pkg_status = status_sent, pkg_sender = [83], pkg_recipient = [82],
       pkg_sender_address = [], pkg_recipient_address = [65], pkg_created_at = []\<rparr>], seq_packages := 1\<rparr>)" by (simp add: db_inv_def ids_ok_def max_rowid_def)
  have h2: "0 < length (get_all_packages False (fresh_db\<lparr>packages := [\<lparr>pkg_id = 1, pkg_tracking_number = [65, 65, 45, 48, 48, 48, 48, 48, 49],
       pkg_description = [68], pkg_status = status_sent, pkg_sender = [83], pkg_recipient = [82],
       pkg_sender_address = [], pkg_recipient_address = [65], pkg_created_at = []\<rparr>], seq_packages := 1\<rparr>))" "get_all_packages False (fresh_db\<lparr>packages := [\<lparr>pkg_id = 1, pkg_tracking_number = [65, 65, 45, 48, 48, 48, 48, 48, 49],
       pkg_description = [68], pkg_status = status_sent, pkg_sender = [83], pkg_recipient = [82],
       pkg_sender_address = [], pkg_recipient_address = [65], pkg_created_at = []\<rparr>], seq_packages := 1\<rparr>) ! 0 = \<lparr>pkg_id = 1, pkg_tracking_number = [65, 65, 45, 48, 48, 48, 48, 48, 49],
       pkg_description = [68], pkg_status = status_sent, pkg_sender = [83], pkg_recipient = [82],
       pkg_sender_address = [], pkg_recipient_address = [65], pkg_created_at = []\<rparr>"
    by (simp_all add: get_all_packages_def stmt_fails_def)
  have h3: "tracking_format (pkg_tracking_number \<lparr>pkg_id = 1, pkg_tracking_number = [65, 65, 45, 48, 48, 48, 48, 48, 49],
       pkg_description = [68], pkg_status = status_sent, pkg_sender = [83], pkg_recipient = [82],
       pkg_sender_address = [], pkg_recipient_address = [65], pkg_created_at = []\<rparr>)"
    by (simp add: tracking_format_def is_ascii_upper_def is_ascii_digit_def)
  have h4: "\<not> py_contains marker_no_packages (package_line \<lparr>pkg_id = 1, pkg_tracking_number = [65, 65, 45, 48, 48, 48, 48, 48, 49],
       pkg_description = [68], pkg_status = status_sent, pkg_sender = [83], pkg_recipient = [82],
       pkg_sender_address = [], pkg_recipient_address = [65], pkg_created_at = []\<rparr>)" "\<not> py_contains marker_unavailable (package_line \<lparr>pkg_id = 1, pkg_tracking_number = [65, 65, 45, 48, 48, 48, 48, 48, 49],
       pkg_description = [68], pkg_status = status_sent, pkg_sender = [83], pkg_recipient = [82],
       pkg_sender_address = [], pkg_recipient_address = [65], pkg_created_at = []\<rparr>)"
    by (simp_all add: py_contains_def package_line_def marker_no_packages_def marker_unavailable_def
        pkg_prefix_def pkg_to_prefix_def not_specified_m_def ellipsis_def asc_def)
  show ?thesis
    using h1 h2 h3 h4 gui_show_selected_package [OF h1 h2 h3 h4, of Browser_opened "(gui_init False False False fresh_db)"] by simp
qed

text \<open>C22. A package whose recipient address is the word "unavailable" (the marker of the
  placeholder line) cannot be shown on the map: the handler takes its line for the
  placeholder and asks the user to choose a real package.\<close>

theorem gui_show_selected_marker_refused:
  assumes "k < length (get_all_packages False d)" "get_all_packages False d ! k = p"
    "pkg_recipient_address p = marker_unavailable"
  shows "gui_show_selected_address fault br ((gui_refresh_packages_list False a d)\<lparr>packages_selection := [k]\<rparr>) d =
         show_dialog (Show_info t_info g_choose_real) ((gui_refresh_packages_list False a d)\<lparr>packages_selection := [k]\<rparr>)"
proof -
  have t: "take 30 marker_unavailable = marker_unavailable" "marker_unavailable \<noteq> not_specified_m"
      "marker_unavailable \<noteq> []"
    by (simp_all add: marker_unavailable_def not_specified_m_def)
  have "package_line p = (pkg_prefix @ pkg_tracking_number p @
      (if pkg_sender_address p \<noteq> [] \<and> pkg_sender_address p \<noteq> not_specified_m
       then pkg_from_prefix @ take 30 (pkg_sender_address p) @ ellipsis else []) @ pkg_to_prefix) @
      marker_unavailable @ ellipsis"
    using assms(3) t by (simp add: package_line_def Let_def)
  then have "py_contains marker_unavailable (package_line p)"
    by (simp only: py_contains_append)
  then show ?thesis
    using assms(1,2)
    by (auto simp: gui_show_selected_address_def gui_refresh_packages_list_def listbox_get_def Let_def)
qed

theorem gui_show_selected_marker_refused_witness:
  "0 < length (get_all_packages False (fresh_db\<lparr>packages := [\<lparr>pkg_id = 1, pkg_tracking_number = [65, 65, 45, 48, 48, 48, 48, 48, 49],
       pkg_description = [68], pkg_status = status_sent, pkg_sender = [83], pkg_recipient = [82],
       pkg_sender_address = [], pkg_recipient_address = marker_unavailable, pkg_created_at = []\<rparr>], seq_packages := 1\<rparr>)) \<and> get_all_packages False (fresh_db\<lparr>packages := [\<lparr>pkg_id = 1, pkg_tracking_number = [65, 65, 45, 48, 48, 48, 48, 48, 49],
       pkg_description = [68], pkg_status = status_sent, pkg_sender = [83], pkg_recipient = [82],
       pkg_sender_address = [], pkg_recipient_address = marker_unavailable, pkg_created_at = []\<rparr>], seq_packages := 1\<rparr>) ! 0 = \<lparr>pkg_id = 1, pkg_tracking_number = [65, 65, 45, 48, 48, 48, 48, 48, 49],
       pkg_description = [68], pkg_status = status_sent, pkg_sender = [83], pkg_recipient = [82],
       pkg_sender_address = [], pkg_recipient_address = marker_unavailable, pkg_created_at = []\<rparr> \<and>
   pkg_recipient_address \<lparr>pkg_id = 1, pkg_tracking_number = [65, 65, 45, 48, 48, 48, 48, 48, 49],
       pkg_description = [68], pkg_status = status_sent, pkg_sender = [83], pkg_recipient = [82],
       pkg_sender_address = [], pkg_recipient_address = marker_unavailable, pkg_created_at = []\<rparr> = marker_unavailable \<and>
   gui_show_selected_address False Browser_opened ((gui_refresh_packages_list False (gui_init False False False fresh_db) (fresh_db\<lparr>packages := [\<lparr>pkg_id = 1, pkg_tracking_number = [65, 65, 45, 48, 48, 48, 48, 48, 49],
       pkg_description = [68], pkg_status = status_sent, pkg_sender = [83], pkg_recipient = [82],
       pkg_sender_address = [], pkg_recipient_address = marker_unavailable, pkg_created_at = []\<rparr>], seq_packages := 1\<rparr>))\<lparr>packages_selection := [0]\<rparr>) (fresh_db\<lparr>packages := [\<lparr>pkg_id = 1, pkg_tracking_number = [65, 65, 45, 48, 48, 48, 48, 48, 49],
       pkg_description = [68], pkg_status = status_sent, pkg_sender = [83], pkg_recipient = [82],
       pkg_sender_address = [], pkg_recipient_address = marker_unavailable, pkg_created_at = []\<rparr>], seq_packages := 1\<rparr>) =
   show_dialog (Show_info t_info g_choose_real) ((gui_refresh_packages_list False (gui_init False False False fresh_db) (fresh_db\<lparr>packages := [\<lparr>pkg_id = 1, pkg_tracking_number = [65, 65, 45, 48, 48, 48, 48, 48, 49],
       pkg_description = [68], pkg_status = status_sent, pkg_sender = [83], pkg_recipient = [82],
       pkg_sender_address = [], pkg_recipient_address = marker_unavailable, pkg_created_at = []\<rparr>], seq_packages := 1\<rparr>))\<lparr>packages_selection := [0]\<rparr>)"
proof -
  have h: "0 < length (get_all_packages False (fresh_db\<lparr>packages := [\<lparr>pkg_id = 1, pkg_tracking_number = [65, 65, 45, 48, 48, 48, 48, 48, 49],
       pkg_description = [68], pkg_status = status_sent, pkg_sender = [83], pkg_recipient = [82],
       pkg_sender_address = [], pkg_recipient_address = marker_unavailable, pkg_created_at = []\<rparr>], seq_packages := 1\<rparr>))" "get_all_packages False (fresh_db\<lparr>packages := [\<lparr>pkg_id = 1, pkg_tracking_number = [65, 65, 45, 48, 48, 48, 48, 48, 49],
       pkg_description = [68], pkg_status = status_sent, pkg_sender = [83], pkg_recipient = [82],
       pkg_sender_address = [], pkg_recipient_address = marker_unavailable, pkg_created_at = []\<rparr>], seq_packages := 1\<rparr>) ! 0 = \<lparr>pkg_id = 1, pkg_tracking_number = [65, 65, 45, 48, 48, 48, 48, 48, 49],
       pkg_description = [68], pkg_status = status_sent, pkg_sender = [83], pkg_recipient = [82],
       pkg_sender_address = [], pkg_recipient_address = marker_unavailable, pkg_created_at = []\<rparr>"
      "pkg_recipient_address \<lparr>pkg_id = 1, pkg_tracking_number = [65, 65, 45, 48, 48, 48, 48, 48, 49],
       pkg_description = [68], pkg_status = status_sent, pkg_sender = [83], pkg_recipient = [82],
       pkg_sender_address = [], pkg_recipient_address = marker_unavailable, pkg_created_at = []\<rparr> = marker_unavailable"
    by (simp_all add: get_all_packages_def stmt_fails_def)
  show ?thesis
    using h gui_show_selected_marker_refused [OF h, of False Browser_opened "(gui_init False False False fresh_db)"] by simp
qed

text \<open>C23. The address search opens at most one new URL: when the stripped address is not
  blank and the browser reports success, exactly the map service's prefix followed by
  \<open>urllib.parse.quote\<close> of the stripped address, and that encoding consists only of
  unreserved ASCII characters, the slash (quote's default safe character) and percent
  escapes; otherwise no URL.\<close>

theorem gui_search_url_safe:
  assumes "py_quote (py_strip (address_entry a)) = Inr q" "list_all (\<lambda>c. c < 1114112) (address_entry a)"
  shows "opened_urls (gui_search_address br a) =
           opened_urls a @ (if py_strip (address_entry a) \<noteq> [] \<and> br = Browser_opened then [yandex_prefix @ q] else []) \<and>
         list_all (\<lambda>c. url_safe_byte c \<or> c = 37) q"
proof -
  have "list_all (\<lambda>c. c < 1114112) (py_strip (address_entry a))"
    using assms(2) set_py_strip by (fastforce simp: list_all_iff)
  then have "list_all (\<lambda>c. url_safe_byte c \<or> c = 37) q" using py_quote_safe assms(1) by blast
  moreover have "opened_urls (gui_search_address br a) =
           opened_urls a @ (if py_strip (address_entry a) \<noteq> [] \<and> br = Browser_opened then [yandex_prefix @ q] else [])"
    using assms(1) by (auto simp: gui_search_address_def Let_def show_dialog_def split: browser_result.splits)
  ultimately show ?thesis by blast
qed

theorem gui_search_url_safe_witness:
  "py_quote (py_strip (address_entry ((gui_init False False False fresh_db)\<lparr>address_entry := [1052, 32]\<rparr>))) = Inr [37, 68, 48, 37, 57, 67] \<and>
   list_all (\<lambda>c. c < 1114112) (address_entry ((gui_init False False False fresh_db)\<lparr>address_entry := [1052, 32]\<rparr>)) \<and>
   opened_urls (gui_search_address Browser_opened ((gui_init False False False fresh_db)\<lparr>address_entry := [1052, 32]\<rparr>)) = [yandex_prefix @ [37, 68, 48, 37, 57, 67]] \<and>
   opened_urls (gui_search_address Browser_opened ((gui_init False False False fresh_db)\<lparr>address_entry := [1052, 32]\<rparr>)) =
     opened_urls ((gui_init False False False fresh_db)\<lparr>address_entry := [1052, 32]\<rparr>) @ (if py_strip (address_entry ((gui_init False False False fresh_db)\<lparr>address_entry := [1052, 32]\<rparr>)) \<noteq> [] \<and> Browser_opened = Browser_opened then [yandex_prefix @ [37, 68, 48, 37, 57, 67]] else []) \<and>
   list_all (\<lambda>c. url_safe_byte c \<or> c = 37) [37, 68, 48, 37, 57, 67]"
proof -
  have q: "py_quote (py_strip (address_entry ((gui_init False False False fresh_db)\<lparr>address_entry := [1052, 32]\<rparr>))) = Inr [37, 68, 48, 37, 57, 67]"
    by (simp add: py_strip_def py_isspace_def py_quote_def is_surrogate_def utf8_encode_def quote_byte_def url_safe_byte_def hex_upper_def)
  have h: "list_all (\<lambda>c. c < 1114112) (address_entry ((gui_init False False False fresh_db)\<lparr>address_entry := [1052, 32]\<rparr>))" by simp
  have o: "opened_urls ((gui_init False False False fresh_db)\<lparr>address_entry := [1052, 32]\<rparr>) = []"
    by (simp add: gui_init_defs refresh_reviews_def refresh_couriers_def gui_refresh_packages_list_def Let_def)
  have ne: "py_strip (address_entry ((gui_init False False False fresh_db)\<lparr>address_entry := [1052, 32]\<rparr>)) \<noteq> []" by (simp add: py_strip_def py_isspace_def)
  show ?thesis using q h o ne gui_search_url_safe [OF q h, of Browser_opened] by simp
qed

text \<open>C24. When the browser reports that it could not open the page, the address search
  still shows the success dialog "address opened in Yandex Maps", and no page was opened.\<close>

theorem gui_search_not_opened:
  assumes "py_strip (address_entry a) \<noteq> []" "py_quote (py_strip (address_entry a)) = Inr q"
  shows "last (dialogs (gui_search_address Browser_not_opened a)) =
           Show_info t_success (g_address_prefix @ py_strip (address_entry a) @ g_opened_suffix @ [33]) \<and>
         opened_urls (gui_search_address Browser_not_opened a) = opened_urls a"
  using assms by (simp add: gui_search_address_def show_dialog_def Let_def)

theorem gui_search_not_opened_witness:
  "py_strip (address_entry ((gui_init False False False fresh_db)\<lparr>address_entry := [65]\<rparr>)) \<noteq> [] \<and>
   py_quote (py_strip (address_entry ((gui_init False False False fresh_db)\<lparr>address_entry := [65]\<rparr>))) = Inr [65] \<and>
   last (dialogs (gui_search_address Browser_not_opened ((gui_init False False False fresh_db)\<lparr>address_entry := [65]\<rparr>))) =
     Show_info t_success (g_address_prefix @ [65] @ g_opened_suffix @ [33]) \<and>
   opened_urls (gui_search_address Browser_not_opened ((gui_init False False False fresh_db)\<lparr>address_entry := [65]\<rparr>)) = []"
proof -
  have h: "py_strip (address_entry ((gui_init False False False fresh_db)\<lparr>address_entry := [65]\<rparr>)) \<noteq> []"
      "py_quote (py_strip (address_entry ((gui_init False False False fresh_db)\<lparr>address_entry := [65]\<rparr>))) = Inr [65]"
    by (simp_all add: py_strip_def py_isspace_def py_quote_def is_surrogate_def utf8_encode_def
        quote_byte_def url_safe_byte_def)
  show ?thesis
    using h gui_search_not_opened [OF h]
    by (simp add: gui_init_defs Let_def refresh_reviews_def refresh_couriers_def gui_refresh_packages_list_def
        py_strip_def py_isspace_def)
qed

text \<open>C39. Tracking a number that no package has (with a working store) shows the
  service's "not found" message in an error box, resets the information labels to
  "information not found", and reports the failed number in the status bar.\<close>

theorem gui_track_unknown:
  assumes "py_strip (tracking_entry a) = tn" "tn \<noteq> []" "\<not> stmt_fails fault d"
    "tn \<notin> set (map pkg_tracking_number (packages d))"
  shows "gui_track_package fault a d =
           show_dialog (Show_error t_error msg_not_found)
             (a\<lparr>status_label := lbl_status @ info_not_found, sender_label := lbl_sender @ info_not_found,
                recipient_label := lbl_recipient @ info_not_found, description_info := info_not_found,
                date_label := lbl_date @ info_not_found, status_var := g_track_error_prefix @ tn\<rparr>)"
proof -
  have "find (\<lambda>p. pkg_tracking_number p = tn) (packages d) = None"
    using assms(4) by (auto simp: find_None_iff)
  then show ?thesis
    using assms(1-3) by (simp add: gui_track_package_def track_package_def get_package_by_tracking_def)
qed

theorem gui_track_unknown_witness:
  "py_strip (tracking_entry ((gui_init False False False fresh_db)\<lparr>tracking_entry := [65, 32]\<rparr>)) = [65] \<and>
   \<not> stmt_fails False fresh_db \<and> [65] \<notin> set (map pkg_tracking_number (packages fresh_db)) \<and>
   last (dialogs (gui_track_package False ((gui_init False False False fresh_db)\<lparr>tracking_entry := [65, 32]\<rparr>) fresh_db)) =
     Show_error t_error msg_not_found"
proof -
  have h: "py_strip (tracking_entry ((gui_init False False False fresh_db)\<lparr>tracking_entry := [65, 32]\<rparr>)) = [65]"
      "[65] \<noteq> ([]::str)" "\<not> stmt_fails False fresh_db" "[65] \<notin> set (map pkg_tracking_number (packages fresh_db))"
    by (simp_all add: py_strip_def py_isspace_def stmt_fails_def)
  show ?thesis using h gui_track_unknown [OF h] by (simp add: show_dialog_def)
qed

text \<open>C15. Adding a courier through the window, with a working store and rowids left,
  appends the courier with the next AUTOINCREMENT id, an id no courier of the file has;
  the refreshed courier list shows its line, success is reported, and the id read back
  from that line is the new courier's id, so the new courier can be selected and deleted.\<close>

theorem gui_add_courier_listed:
  assumes "db_inv d" "\<not> stmt_fails False d" "seq_couriers d \<noteq> max_rowid" "py_strip (courier_name_entry a) \<noteq> []"
  shows "let c = \<lparr>cour_id = Suc (seq_couriers d), cour_name = py_strip (courier_name_entry a),
                 cour_phone = py_strip (courier_phone_entry a), cour_email = py_strip (courier_email_entry a),
                 cour_status = courier_status_active, cour_created_at = adapt_datetime now\<rparr>
         in snd (gui_add_courier False False now a d) =
              d\<lparr>couriers := couriers d @ [c], seq_couriers := Suc (seq_couriers d)\<rparr> \<and>
            cour_id c \<notin> set (map cour_id (couriers d)) \<and>
            courier_line c \<in> set (couriers_listbox (fst (gui_add_courier False False now a d))) \<and>
            parse_courier_id (courier_line c) = Inr (int (cour_id c)) \<and>
            last (dialogs (fst (gui_add_courier False False now a d))) = Show_info t_success msg_courier_added"
proof -
  have fresh: "Suc (seq_couriers d) \<notin> set (map cour_id (couriers d))"
    using assms(1) by (auto simp: db_inv_def ids_ok_def list_all_iff)
  have ok: "\<not> stmt_fails False (d\<lparr>couriers := xs, seq_couriers := n\<rparr>)" for xs n
    using assms(2) by (simp add: stmt_fails_def)
  show ?thesis
    using assms(2-4) fresh ok parse_courier_line
    by (simp add: gui_add_courier_def add_courier_result [OF assms(1)] Let_def show_dialog_def
        refresh_couriers_def get_couriers_def get_all_couriers_def)
qed

theorem gui_add_courier_listed_witness:
  "db_inv fresh_db \<and>
   \<not> stmt_fails False fresh_db \<and>
   seq_couriers fresh_db \<noteq> max_rowid \<and>
   py_strip (courier_name_entry ((gui_init False False False fresh_db)\<lparr>courier_name_entry := [65]\<rparr>)) \<noteq> [] \<and>
   (let c = \<lparr>cour_id = Suc (seq_couriers fresh_db), cour_name = py_strip (courier_name_entry ((gui_init False False False fresh_db)\<lparr>courier_name_entry := [65]\<rparr>)),
                 cour_phone = py_strip (courier_phone_entry ((gui_init False False False fresh_db)\<lparr>courier_name_entry := [65]\<rparr>)), cour_email = py_strip (courier_email_entry ((gui_init False False False fresh_db)\<lparr>courier_name_entry := [65]\<rparr>)),
                 cour_status = courier_status_active, cour_created_at = adapt_datetime datetime_min\<rparr>
         in snd (gui_add_courier False False datetime_min ((gui_init False False False fresh_db)\<lparr>courier_name_entry := [65]\<rparr>) fresh_db) =
              fresh_db\<lparr>couriers := couriers fresh_db @ [c], seq_couriers := Suc (seq_couriers fresh_db)\<rparr> \<and>
            cour_id c \<notin> set (map cour_id (couriers fresh_db)) \<and>
            courier_line c \<in> set (couriers_listbox (fst (gui_add_courier False False datetime_min ((gui_init False False False fresh_db)\<lparr>courier_name_entry := [65]\<rparr>) fresh_db))) \<and>
            parse_courier_id (courier_line c) = Inr (int (cour_id c)) \<and>
            last (dialogs (fst (gui_add_courier False False datetime_min ((gui_init False False False fresh_db)\<lparr>courier_name_entry := [65]\<rparr>) fresh_db))) = Show_info t_success msg_courier_added)"
proof -
  have h0: "db_inv fresh_db"
    by (rule db_inv_fresh_db)
  have h1: "\<not> stmt_fails False fresh_db"
    by (rule stmt_ok_fresh_db)
  have h2: "seq_couriers fresh_db \<noteq> max_rowid"
    by (simp add: max_rowid_def)
  have h3: "py_strip (courier_name_entry ((gui_init False False False fresh_db)\<lparr>courier_name_entry := [65]\<rparr>)) \<noteq> []"
    by (simp add: py_strip_def py_isspace_def)
  note h = h0 h1 h2 h3
  show ?thesis using h gui_add_courier_listed [OF h, of datetime_min] by blast
qed

text \<open>C32. The window refuses a courier name that is blank after \<open>strip()\<close> with its
  own message and leaves the file unchanged, although the service's own check
  (\<open>if not name\<close>) would accept a whitespace-only name and store it: the window's
  strip is the only guard.\<close>

theorem gui_add_courier_blank:
  assumes "py_strip (courier_name_entry a) = []" "courier_name_entry a \<noteq> []"
    "db_inv d" "\<not> stmt_fails fault d" "seq_couriers d \<noteq> max_rowid"
  shows "gui_add_courier fault fault' now a d = (show_dialog (Show_error t_error g_enter_courier_name) a, d) \<and>
         fst (add_courier fault now (courier_name_entry a) p e d) = Inr msg_courier_added"
  using assms by (simp add: gui_add_courier_def Let_def add_courier_result [OF assms(3)])

theorem gui_add_courier_blank_witness:
  "py_strip (courier_name_entry ((gui_init False False False fresh_db)\<lparr>courier_name_entry := [32]\<rparr>)) = [] \<and>
   courier_name_entry ((gui_init False False False fresh_db)\<lparr>courier_name_entry := [32]\<rparr>) \<noteq> [] \<and>
   db_inv fresh_db \<and>
   \<not> stmt_fails False fresh_db \<and>
   seq_couriers fresh_db \<noteq> max_rowid \<and>
   (gui_add_courier False False datetime_min ((gui_init False False False fresh_db)\<lparr>courier_name_entry := [32]\<rparr>) fresh_db = (show_dialog (Show_error t_error g_enter_courier_name) ((gui_init False False False fresh_db)\<lparr>courier_name_entry := [32]\<rparr>), fresh_db) \<and>
         fst (add_courier False datetime_min (courier_name_entry ((gui_init False False False fresh_db)\<lparr>courier_name_entry := [32]\<rparr>)) [] [] fresh_db) = Inr msg_courier_added)"
proof -
  have h0: "py_strip (courier_name_entry ((gui_init False False False fresh_db)\<lparr>courier_name_entry := [32]\<rparr>)) = []"
    by (simp add: py_strip_def py_isspace_def)
  have h1: "courier_name_entry ((gui_init False False False fresh_db)\<lparr>courier_name_entry := [32]\<rparr>) \<noteq> []"
    by simp
  have h2: "db_inv fresh_db"
    by (rule db_inv_fresh_db)
  have h3: "\<not> stmt_fails False fresh_db"
    by (rule stmt_ok_fresh_db)
  have h4: "seq_couriers fresh_db \<noteq> max_rowid"
    by (simp add: max_rowid_def)
  note h = h0 h1 h2 h3 h4
  show ?thesis using h gui_add_courier_blank [OF h, of False datetime_min "[]" "[]"] by blast
qed

text \<open>C34. Adding a review through the window, with a name, a rating from the combo box,
  a working store and rowids left, appends the review with the next id; the refreshed
  review list shows its line, the form is cleared with the rating reset to "5", and
  success is reported.\<close>

theorem gui_add_review_listed:
  assumes "db_inv d" "\<not> stmt_fails False d" "seq_reviews d \<noteq> max_rowid"
    "py_strip (customer_name_entry a) \<noteq> []" "py_int (rating_var a) = Inr k" "1 \<le> k" "k \<le> 5"
  shows "let r = \<lparr>rev_id = Suc (seq_reviews d), rev_tracking_number = py_strip (review_tracking_entry a),
                 rev_customer_name = py_strip (customer_name_entry a), rev_rating = k,
                 rev_comment = py_strip (text_get (review_comment_text a)), rev_created_at = adapt_datetime now\<rparr>
         in snd (gui_add_review False False now a d) =
              d\<lparr>reviews := reviews d @ [r], seq_reviews := Suc (seq_reviews d)\<rparr> \<and>
            review_line r \<in> set (reviews_listbox (fst (gui_add_review False False now a d))) \<and>
            review_tracking_entry (fst (gui_add_review False False now a d)) = [] \<and>
            customer_name_entry (fst (gui_add_review False False now a d)) = [] \<and>
            rating_var (fst (gui_add_review False False now a d)) = rating_default \<and>
            review_comment_text (fst (gui_add_review False False now a d)) = [] \<and>
            last (dialogs (fst (gui_add_review False False now a d))) = Show_info t_success msg_review_added"
proof -
  have ok: "\<not> stmt_fails False (d\<lparr>reviews := xs, seq_reviews := n\<rparr>)" for xs n
    using assms(2) by (simp add: stmt_fails_def)
  show ?thesis
    using assms(2-) ok
    by (simp add: gui_add_review_def add_review_def create_review_result [OF assms(1)] Let_def show_dialog_def
        refresh_reviews_def get_reviews_def get_all_reviews_def)
qed

theorem gui_add_review_listed_witness:
  "db_inv fresh_db \<and>
   \<not> stmt_fails False fresh_db \<and>
   seq_reviews fresh_db \<noteq> max_rowid \<and>
   py_strip (customer_name_entry ((gui_init False False False fresh_db)\<lparr>customer_name_entry := [65]\<rparr>)) \<noteq> [] \<and>
   py_int (rating_var ((gui_init False False False fresh_db)\<lparr>customer_name_entry := [65]\<rparr>)) = Inr 5 \<and>
   1 \<le> (5::int) \<and>
   (5::int) \<le> 5 \<and>
   (let r = \<lparr>rev_id = Suc (seq_reviews fresh_db), rev_tracking_number = py_strip (review_tracking_entry ((gui_init False False False fresh_db)\<lparr>customer_name_entry := [65]\<rparr>)),
                 rev_customer_name = py_strip (customer_name_entry ((gui_init False False False fresh_db)\<lparr>customer_name_entry := [65]\<rparr>)), rev_rating = 5,
                 rev_comment = py_strip (text_get (review_comment_text ((gui_init False False False fresh_db)\<lparr>customer_name_entry := [65]\<rparr>))), rev_created_at = adapt_datetime datetime_min\<rparr>
         in snd (gui_add_review False False datetime_min ((gui_init False False False fresh_db)\<lparr>customer_name_entry := [65]\<rparr>) fresh_db) =
              fresh_db\<lparr>reviews := reviews fresh_db @ [r], seq_reviews := Suc (seq_reviews fresh_db)\<rparr> \<and>
            review_line r \<in> set (reviews_listbox (fst (gui_add_review False False datetime_min ((gui_init False False False fresh_db)\<lparr>customer_name_entry := [65]\<rparr>) fresh_db))) \<and>
            review_tracking_entry (fst (gui_add_review False False datetime_min ((gui_init False False False fresh_db)\<lparr>customer_name_entry := [65]\<rparr>) fresh_db)) = [] \<and>
            customer_name_entry (fst (gui_add_review False False datetime_min ((gui_init False False False fresh_db)\<lparr>customer_name_entry := [65]\<rparr>) fresh_db)) = [] \<and>
            rating_var (fst (gui_add_review False False datetime_min ((gui_init False False False fresh_db)\<lparr>customer_name_entry := [65]\<rparr>) fresh_db)) = rating_default \<and>
            review_comment_text (fst (gui_add_review False False datetime_min ((gui_init False False False fresh_db)\<lparr>customer_name_entry := [65]\<rparr>) fresh_db)) = [] \<and>
            last (dialogs (fst (gui_add_review False False datetime_min ((gui_init False False False fresh_db)\<lparr>customer_name_entry := [65]\<rparr>) fresh_db))) = Show_info t_success msg_review_added)"
proof -
  have h0: "db_inv fresh_db"
    by (rule db_inv_fresh_db)
  have h1: "\<not> stmt_fails False fresh_db"
    by (rule stmt_ok_fresh_db)
  have h2: "seq_reviews fresh_db \<noteq> max_rowid"
    by (simp add: max_rowid_def)
  have h3: "py_strip (customer_name_entry ((gui_init False False False fresh_db)\<lparr>customer_name_entry := [65]\<rparr>)) \<noteq> []"
    by (simp add: py_strip_def py_isspace_def)
  have h4: "py_int (rating_var ((gui_init False False False fresh_db)\<lparr>customer_name_entry := [65]\<rparr>)) = Inr 5"
    by (simp add: gui_init_defs refresh_reviews_def refresh_couriers_def gui_refresh_packages_list_def Let_def rating_default_def py_int_def asc_def py_strip_def py_isspace_def is_digit_def digits_value_def)
  have h5: "1 \<le> (5::int)"
    by simp
  have h6: "(5::int) \<le> 5"
    by simp
  note h = h0 h1 h2 h3 h4 h5 h6
  show ?thesis using h gui_add_review_listed [OF h, of datetime_min] by blast
qed

text \<open>C37. When the store cannot insert the package (a failing statement, no rowid left,
  or a generated tracking number that is already taken), the send handler shows the
  service's failure message in an error box and in the result line, sets the error
  status, keeps the form as typed, and leaves the file unchanged.\<close>

theorem gui_send_package_store_failure:
  assumes "db_inv d" "py_strip (sender_entry a) \<noteq> []" "py_strip (recipient_entry a) \<noteq> []"
    "py_strip (text_get (description_text a)) \<noteq> []"
    "stmt_fails fault d \<or> seq_packages d = max_rowid \<or>
     generate_tracking_number ls ds \<in> set (map pkg_tracking_number (packages d))"
  shows "gui_send_package ls ds fault now a d =
           (show_dialog (Show_error t_error msg_create_failed)
              (a\<lparr>result_var := g_send_error_prefix @ msg_create_failed, status_var := g_send_error_status\<rparr>), d)"
  using assms(2-) by (simp add: gui_send_package_def send_package_result [OF assms(1)] Let_def)

theorem gui_send_package_store_failure_witness:
  "db_inv fresh_db \<and>
   py_strip (sender_entry ((gui_init False False False fresh_db)\<lparr>sender_entry := [83], recipient_entry := [82], description_text := [68]\<rparr>)) \<noteq> [] \<and>
   py_strip (recipient_entry ((gui_init False False False fresh_db)\<lparr>sender_entry := [83], recipient_entry := [82], description_text := [68]\<rparr>)) \<noteq> [] \<and>
   py_strip (text_get (description_text ((gui_init False False False fresh_db)\<lparr>sender_entry := [83], recipient_entry := [82], description_text := [68]\<rparr>))) \<noteq> [] \<and>
   stmt_fails True fresh_db \<or> seq_packages fresh_db = max_rowid \<or> generate_tracking_number [0, 0] [0, 0, 0, 0, 0, 0] \<in> set (map pkg_tracking_number (packages fresh_db)) \<and>
   (gui_send_package [0, 0] [0, 0, 0, 0, 0, 0] True datetime_min ((gui_init False False False fresh_db)\<lparr>sender_entry := [83], recipient_entry := [82], description_text := [68]\<rparr>) fresh_db =
           (show_dialog (Show_error t_error msg_create_failed)
              (((gui_init False False False fresh_db)\<lparr>sender_entry := [83], recipient_entry := [82], description_text := [68]\<rparr>)\<lparr>result_var := g_send_error_prefix @ msg_create_failed, status_var := g_send_error_status\<rparr>), fresh_db))"
proof -
  have h0: "db_inv fresh_db"
    by (rule db_inv_fresh_db)
  have h1: "py_strip (sender_entry ((gui_init False False False fresh_db)\<lparr>sender_entry := [83], recipient_entry := [82], description_text := [68]\<rparr>)) \<noteq> []"
    by (simp add: py_strip_def py_isspace_def)
  have h2: "py_strip (recipient_entry ((gui_init False False False fresh_db)\<lparr>sender_entry := [83], recipient_entry := [82], description_text := [68]\<rparr>)) \<noteq> []"
    by (simp add: py_strip_def py_isspace_def)
  have h3: "py_strip (text_get (description_text ((gui_init False False False fresh_db)\<lparr>sender_entry := [83], recipient_entry := [82], description_text := [68]\<rparr>))) \<noteq> []"
    by (simp add: py_strip_def py_isspace_def text_get_def)
  have h4: "stmt_fails True fresh_db \<or> seq_packages fresh_db = max_rowid \<or> generate_tracking_number [0, 0] [0, 0, 0, 0, 0, 0] \<in> set (map pkg_tracking_number (packages fresh_db))"
    by (simp add: stmt_fails_def)
  note h = h0 h1 h2 h3 h4
  show ?thesis using h gui_send_package_store_failure [OF h, of datetime_min] by blast
qed

text \<open>C38. Answering "No" to the confirmation after selecting a courier line deletes
  nothing: the question is the only message shown and the file is unchanged.\<close>

theorem gui_delete_courier_declined:
  assumes "couriers_selection a = [k]" "k < length (couriers_listbox a)" "couriers_listbox a ! k = courier_line c"
  shows "gui_delete_courier False fault fault' a d = (show_dialog (Ask_yes_no t_confirm g_confirm_delete) a, d)"
  using assms parse_courier_line [of c] by (simp add: gui_delete_courier_def listbox_get_def Let_def)

theorem gui_delete_courier_declined_witness:
  "couriers_selection ((gui_init False False False fresh_db)\<lparr>couriers_listbox := [courier_line \<lparr>cour_id = 1, cour_name = [65], cour_phone = [], cour_email = [], cour_status = courier_status_active, cour_created_at = adapt_datetime datetime_min\<rparr>], couriers_selection := [0]\<rparr>) = [0] \<and>
   0 < length (couriers_listbox ((gui_init False False False fresh_db)\<lparr>couriers_listbox := [courier_line \<lparr>cour_id = 1, cour_name = [65], cour_phone = [], cour_email = [], cour_status = courier_status_active, cour_created_at = adapt_datetime datetime_min\<rparr>], couriers_selection := [0]\<rparr>)) \<and>
   couriers_listbox ((gui_init False False False fresh_db)\<lparr>couriers_listbox := [courier_line \<lparr>cour_id = 1, cour_name = [65], cour_phone = [], cour_email = [], cour_status = courier_status_active, cour_created_at = adapt_datetime datetime_min\<rparr>], couriers_selection := [0]\<rparr>) ! 0 = courier_line \<lparr>cour_id = 1, cour_name = [65], cour_phone = [], cour_email = [], cour_status = courier_status_active, cour_created_at = adapt_datetime datetime_min\<rparr> \<and>
   (gui_delete_courier False False False ((gui_init False False False fresh_db)\<lparr>couriers_listbox := [courier_line \<lparr>cour_id = 1, cour_name = [65], cour_phone = [], cour_email = [], cour_status = courier_status_active, cour_created_at = adapt_datetime datetime_min\<rparr>], couriers_selection := [0]\<rparr>) fresh_db = (show_dialog (Ask_yes_no t_confirm g_confirm_delete) ((gui_init False False False fresh_db)\<lparr>couriers_listbox := [courier_line \<lparr>cour_id = 1, cour_name = [65], cour_phone = [], cour_email = [], cour_status = courier_status_active, cour_created_at = adapt_datetime datetime_min\<rparr>], couriers_selection := [0]\<rparr>), fresh_db))"
proof -
  have h0: "couriers_selection ((gui_init False False False fresh_db)\<lparr>couriers_listbox := [courier_line \<lparr>cour_id = 1, cour_name = [65], cour_phone = [], cour_email = [], cour_status = courier_status_active, cour_created_at = adapt_datetime datetime_min\<rparr>], couriers_selection := [0]\<rparr>) = [0]"
    by simp
  have h1: "0 < length (couriers_listbox ((gui_init False False False fresh_db)\<lparr>couriers_listbox := [courier_line \<lparr>cour_id = 1, cour_name = [65], cour_phone = [], cour_email = [], cour_status = courier_status_active, cour_created_at = adapt_datetime datetime_min\<rparr>], couriers_selection := [0]\<rparr>))"
    by simp
  have h2: "couriers_listbox ((gui_init False False False fresh_db)\<lparr>couriers_listbox := [courier_line \<lparr>cour_id = 1, cour_name = [65], cour_phone = [], cour_email = [], cour_status = courier_status_active, cour_created_at = adapt_datetime datetime_min\<rparr>], couriers_selection := [0]\<rparr>) ! 0 = courier_line \<lparr>cour_id = 1, cour_name = [65], cour_phone = [], cour_email = [], cour_status = courier_status_active, cour_created_at = adapt_datetime datetime_min\<rparr>"
    by simp
  note h = h0 h1 h2
  show ?thesis using h gui_delete_courier_declined [OF h, of False False fresh_db] by blast
qed

end
