(* ===== verification/App.thy ===== *)
theory App
  imports Prelude Timestamp Tracking Store Service
begin

text \<open>
  The application at the level of the service: \<open>action\<close> lists what a user can
  trigger through \<open>package_service.py\<close>, \<open>app_step\<close> its effect on the file,
  \<open>action_ok\<close> what the environment guarantees about an action (the random draws
  and the clock), and \<open>reachable\<close> the files the program can produce from a new
  one, with \<open>initialize_db\<close> at every start of \<open>main\<close>. The lemmas are the
  invariants of these files, proved by rule induction on \<open>reachable\<close>.
\<close>

subsection \<open>The application as a sequence of service calls\<close>

datatype action =
    Send_package "nat list" "nat list" bool datetime str str str str str
  | Track_package bool str
  | Update_status bool str str
  | Add_courier bool datetime str str str
  | Get_couriers bool
  | Remove_courier bool int
  | Add_review bool datetime str str int str
  | Get_reviews bool

fun app_step :: "action \<Rightarrow> db \<Rightarrow> db" where
  "app_step (Send_package ls ds f t de s r sa ra) d = snd (send_package ls ds f t de s r sa ra d)"
| "app_step (Track_package f tn) d = d"
| "app_step (Update_status f tn st) d = snd (update_status f tn st d)"
| "app_step (Add_courier f t n p e) d = snd (add_courier f t n p e d)"
| "app_step (Get_couriers f) d = d"
| "app_step (Remove_courier f cid) d = snd (remove_courier f cid d)"
| "app_step (Add_review f t tn n rt c) d = snd (add_review f t tn n rt c d)"
| "app_step (Get_reviews f) d = d"

text \<open>What the environment guarantees about an action: the random draws index into
  their populations and the clock gives a valid datetime.\<close>

definition action_ok :: "action \<Rightarrow> bool" where
  "action_ok act =
     (case act of
        Send_package ls ds f t de s r sa ra \<Rightarrow> draws_ok 26 2 ls \<and> draws_ok 10 6 ds \<and> dt_valid t
      | Add_courier f t n p e \<Rightarrow> dt_valid t
      | Add_review f t tn n rt c \<Rightarrow> dt_valid t
      | _ \<Rightarrow> True)"

text \<open>The files the program can produce: a new file, any start of \<open>main\<close> (whose
  \<open>initialize_db\<close> may be the first or a later one), and any user action.\<close>

inductive reachable :: "db \<Rightarrow> bool" where
  new_file: "reachable empty_db"
| start: "reachable d \<Longrightarrow> initialize_db f d = Some d' \<Longrightarrow> reachable d'"
| step: "reachable d \<Longrightarrow> action_ok a \<Longrightarrow> reachable (app_step a d)"

definition ratings_ok :: "db \<Rightarrow> bool" where
  "ratings_ok d \<longleftrightarrow> list_all (\<lambda>r. 1 \<le> rev_rating r \<and> rev_rating r \<le> 5) (reviews d)"

text \<open>The rows of a file as the program writes them: tracking numbers of the generator's
  shape and well-formed timestamps.\<close>

definition rows_ok :: "db \<Rightarrow> bool" where
  "rows_ok d \<longleftrightarrow>
     list_all (\<lambda>p. tracking_format (pkg_tracking_number p) \<and> stamp_ok (pkg_created_at p)) (packages d) \<and>
     list_all (\<lambda>c. stamp_ok (cour_created_at c)) (couriers d) \<and>
     list_all (\<lambda>r. stamp_ok (rev_created_at r)) (reviews d)"

lemma app_step_inv: "db_inv d \<Longrightarrow> db_inv (app_step a d)"
  by (cases a) (simp_all add: send_package_inv update_status_inv add_courier_inv
      remove_courier_inv add_review_inv)

lemma app_step_reviews:
  "reviews (app_step a d) = reviews d \<or>
   (\<exists>r. reviews (app_step a d) = reviews d @ [r] \<and> 1 \<le> rev_rating r \<and> rev_rating r \<le> 5)"
  by (cases a) (auto simp: service_ops store_ops Let_def split: prod.splits if_splits)

lemma app_step_ratings_ok: "ratings_ok d \<Longrightarrow> ratings_ok (app_step a d)"
  using app_step_reviews [of a d] by (auto simp: ratings_ok_def)

lemma reachable_app_inv: "reachable d \<Longrightarrow> db_inv d \<and> ratings_ok d"
proof (induction rule: reachable.induct)
  case new_file
  show ?case using db_inv_empty_db by (simp add: ratings_ok_def empty_db_def)
next
  case (start d f d')
  then show ?case
    by (auto simp: ratings_ok_def initialize_db_def intro: initialize_db_inv split: if_splits)
next
  case (step d a)
  then show ?case by (simp add: app_step_inv app_step_ratings_ok)
qed

lemma reachable_fresh_db: "reachable fresh_db"
  using reachable.start [OF reachable.new_file, of False fresh_db]
  by (simp add: fresh_db_def initialize_db_def)

lemma app_step_rows:
  assumes "action_ok a" "db_inv d" "rows_ok d"
  shows "rows_ok (app_step a d)"
proof (cases a)
  case (Send_package ls ds f t de s r sa ra)
  then have "tracking_format (generate_tracking_number ls ds)" "stamp_ok (adapt_datetime t)"
    using assms(1) generate_tracking_number_format stamp_ok_adapt by (auto simp: action_ok_def)
  then show ?thesis
    using Send_package assms(3) by (simp add: send_package_result [OF assms(2)] rows_ok_def)
next
  case (Update_status f tn st)
  then show ?thesis
    using assms(3) by (auto simp: update_status_def update_package_status_def rows_ok_def list_all_iff)
next
  case (Add_courier f t n p e)
  then have "stamp_ok (adapt_datetime t)" using assms(1) stamp_ok_adapt by (simp add: action_ok_def)
  then show ?thesis
    using Add_courier assms(3) by (simp add: add_courier_result [OF assms(2)] rows_ok_def)
next
  case (Remove_courier f cid)
  then show ?thesis
    using assms(3) by (auto simp: remove_courier_result rows_ok_def list_all_iff)
next
  case (Add_review f t tn n rt c)
  then have "stamp_ok (adapt_datetime t)" using assms(1) stamp_ok_adapt by (simp add: action_ok_def)
  then show ?thesis
    using Add_review assms(3) by (simp add: add_review_def create_review_result [OF assms(2)] rows_ok_def)
qed (use assms(3) in simp_all)

lemma reachable_rows_ok: "reachable d \<Longrightarrow> rows_ok d"
proof (induction rule: reachable.induct)
  case new_file
  show ?case by (simp add: rows_ok_def empty_db_def)
next
  case (start d f d')
  then show ?case by (auto simp: rows_ok_def initialize_db_def split: if_splits)
next
  case (step d a)
  then show ?case using app_step_rows reachable_app_inv by blast
qed

subsection \<open>Properties of the application\<close>

lemma rev_sort_key_stamps:
  fixes f :: "'a \<Rightarrow> str"
  assumes "i < j" "j < length (rev (sort_key f ys))" "list_all (\<lambda>y. stamp_ok (f y)) ys"
  shows "\<exists>t1 t2. parse_stamp (f (rev (sort_key f ys) ! i)) = Some t1 \<and>
                parse_stamp (f (rev (sort_key f ys) ! j)) = Some t2 \<and> \<not> dt_key t1 < dt_key t2"
proof -
  have ex: "\<exists>t. dt_valid t \<and> f (rev (sort_key f ys) ! k) = adapt_datetime t"
    if "k < length (rev (sort_key f ys))" for k
  proof -
    have "rev (sort_key f ys) ! k \<in> set ys" using nth_mem [OF that] by simp
    then have "stamp_ok (f (rev (sort_key f ys) ! k))" using assms(3) by (simp add: list_all_iff)
    then show ?thesis using stamp_okD by blast
  qed
  obtain t1 t2 where t: "dt_valid t1" "f (rev (sort_key f ys) ! i) = adapt_datetime t1"
      "dt_valid t2" "f (rev (sort_key f ys) ! j) = adapt_datetime t2"
    using ex [of i] ex [of j] assms(1,2) by (meson order.strict_trans)
  then show ?thesis
    using rev_sort_key_desc [OF assms(1,2)] adapt_datetime_order parse_stamp_adapt by fastforce
qed

text \<open>C8. In every database file the program can produce, tracking numbers are unique
  and of the documented shape \<open>[A-Z]{2}-[0-9]{6}\<close>, and every review's rating lies in
  1..5. Uniqueness comes from the store's \<open>UNIQUE\<close> constraint; the shape and the
  rating range are checked only by the service, so they hold because every package is
  written through \<open>send_package\<close> and every review through \<open>add_review\<close>.\<close>

theorem reachable_inv:
  assumes "reachable d"
  shows "distinct (map pkg_tracking_number (packages d)) \<and>
         list_all (\<lambda>p. tracking_format (pkg_tracking_number p)) (packages d) \<and>
         (\<forall>r\<in>set (reviews d). 1 \<le> rev_rating r \<and> rev_rating r \<le> 5)"
  using reachable_app_inv [OF assms] reachable_rows_ok [OF assms]
  by (simp add: db_inv_def ratings_ok_def rows_ok_def list_all_iff)

theorem reachable_inv_witness:
  "reachable (app_step (Send_package [0, 0] [0, 0, 0, 0, 0, 1] False datetime_min [68] [83] [82] [] []) (app_step (Add_review False datetime_min [] [65] 5 []) fresh_db)) \<and>
   distinct (map pkg_tracking_number (packages (app_step (Send_package [0, 0] [0, 0, 0, 0, 0, 1] False datetime_min [68] [83] [82] [] []) (app_step (Add_review False datetime_min [] [65] 5 []) fresh_db)))) \<and>
   list_all (\<lambda>p. tracking_format (pkg_tracking_number p)) (packages (app_step (Send_package [0, 0] [0, 0, 0, 0, 0, 1] False datetime_min [68] [83] [82] [] []) (app_step (Add_review False datetime_min [] [65] 5 []) fresh_db))) \<and>
   list_all (\<lambda>r. 1 \<le> rev_rating r \<and> rev_rating r \<le> 5) (reviews (app_step (Send_package [0, 0] [0, 0, 0, 0, 0, 1] False datetime_min [68] [83] [82] [] []) (app_step (Add_review False datetime_min [] [65] 5 []) fresh_db)))"
proof -
  have v: "action_ok (Add_review False datetime_min [] [65] 5 [])"
      "action_ok (Send_package [0, 0] [0, 0, 0, 0, 0, 1] False datetime_min [68] [83] [82] [] [])"
    by (simp_all add: action_ok_def draws_ok_def dt_valid_def datetime_min_def)
  have r: "reachable (app_step (Send_package [0, 0] [0, 0, 0, 0, 0, 1] False datetime_min [68] [83] [82] [] []) (app_step (Add_review False datetime_min [] [65] 5 []) fresh_db))"
    by (intro reachable.step [OF reachable.step [OF reachable_fresh_db]] v)
  show ?thesis using r reachable_inv [OF r] by (simp add: list_all_iff)
qed

text \<open>C29. In every file the program can produce, \<open>get_all_reviews\<close> and
  \<open>get_all_packages\<close> list rows from the newest to the oldest: every stored timestamp
  decodes to a valid datetime, and the text order \<open>ORDER BY created_at DESC\<close> uses is
  the order of those datetimes.\<close>

theorem reachable_listings_newest_first:
  assumes "reachable d" "i < j"
  shows "(j < length (get_all_reviews fault d) \<longrightarrow>
           (\<exists>t1 t2. parse_stamp (rev_created_at (get_all_reviews fault d ! i)) = Some t1 \<and>
                   parse_stamp (rev_created_at (get_all_reviews fault d ! j)) = Some t2 \<and>
                   \<not> dt_key t1 < dt_key t2)) \<and>
         (j < length (get_all_packages fault d) \<longrightarrow>
           (\<exists>t1 t2. parse_stamp (pkg_created_at (get_all_packages fault d ! i)) = Some t1 \<and>
                   parse_stamp (pkg_created_at (get_all_packages fault d ! j)) = Some t2 \<and>
                   \<not> dt_key t1 < dt_key t2))"
proof -
  have ok: "list_all (\<lambda>r. stamp_ok (rev_created_at r)) (reviews d)"
      "list_all (\<lambda>p. stamp_ok (pkg_created_at p)) (packages d)"
    using reachable_rows_ok [OF assms(1)] by (auto simp: rows_ok_def list_all_iff)
  show ?thesis
    using rev_sort_key_stamps [OF assms(2) _ ok(1)] rev_sort_key_stamps [OF assms(2) _ ok(2)]
    by (simp add: get_all_reviews_def get_all_packages_def)
qed

theorem reachable_listings_newest_first_witness:
  "reachable (app_step (Send_package [0, 0] [0, 0, 0, 0, 0, 2] False (datetime_min\<lparr>dt_year := 2024, dt_day := 2\<rparr>) [68] [83] [82] [] []) (app_step (Send_package [0, 0] [0, 0, 0, 0, 0, 1] False (datetime_min\<lparr>dt_year := 2024\<rparr>) [68] [83] [82] [] []) (app_step (Add_review False (datetime_min\<lparr>dt_year := 2024, dt_day := 2\<rparr>) [] [66] 4 []) (app_step (Add_review False (datetime_min\<lparr>dt_year := 2024\<rparr>) [] [65] 5 []) fresh_db)))) \<and> 0 < (1::nat) \<and>
   1 < length (get_all_reviews False (app_step (Send_package [0, 0] [0, 0, 0, 0, 0, 2] False (datetime_min\<lparr>dt_year := 2024, dt_day := 2\<rparr>) [68] [83] [82] [] []) (app_step (Send_package [0, 0] [0, 0, 0, 0, 0, 1] False (datetime_min\<lparr>dt_year := 2024\<rparr>) [68] [83] [82] [] []) (app_step (Add_review False (datetime_min\<lparr>dt_year := 2024, dt_day := 2\<rparr>) [] [66] 4 []) (app_step (Add_review False (datetime_min\<lparr>dt_year := 2024\<rparr>) [] [65] 5 []) fresh_db))))) \<and> 1 < length (get_all_packages False (app_step (Send_package [0, 0] [0, 0, 0, 0, 0, 2] False (datetime_min\<lparr>dt_year := 2024, dt_day := 2\<rparr>) [68] [83] [82] [] []) (app_step (Send_package [0, 0] [0, 0, 0, 0, 0, 1] False (datetime_min\<lparr>dt_year := 2024\<rparr>) [68] [83] [82] [] []) (app_step (Add_review False (datetime_min\<lparr>dt_year := 2024, dt_day := 2\<rparr>) [] [66] 4 []) (app_step (Add_review False (datetime_min\<lparr>dt_year := 2024\<rparr>) [] [65] 5 []) fresh_db))))) \<and>
   (\<exists>t1 t2. parse_stamp (rev_created_at (get_all_reviews False (app_step (Send_package [0, 0] [0, 0, 0, 0, 0, 2] False (datetime_min\<lparr>dt_year := 2024, dt_day := 2\<rparr>) [68] [83] [82] [] []) (app_step (Send_package [0, 0] [0, 0, 0, 0, 0, 1] False (datetime_min\<lparr>dt_year := 2024\<rparr>) [68] [83] [82] [] []) (app_step (Add_review False (datetime_min\<lparr>dt_year := 2024, dt_day := 2\<rparr>) [] [66] 4 []) (app_step (Add_review False (datetime_min\<lparr>dt_year := 2024\<rparr>) [] [65] 5 []) fresh_db)))) ! 0)) = Some t1 \<and>
      parse_stamp (rev_created_at (get_all_reviews False (app_step (Send_package [0, 0] [0, 0, 0, 0, 0, 2] False (datetime_min\<lparr>dt_year := 2024, dt_day := 2\<rparr>) [68] [83] [82] [] []) (app_step (Send_package [0, 0] [0, 0, 0, 0, 0, 1] False (datetime_min\<lparr>dt_year := 2024\<rparr>) [68] [83] [82] [] []) (app_step (Add_review False (datetime_min\<lparr>dt_year := 2024, dt_day := 2\<rparr>) [] [66] 4 []) (app_step (Add_review False (datetime_min\<lparr>dt_year := 2024\<rparr>) [] [65] 5 []) fresh_db)))) ! 1)) = Some t2 \<and> \<not> dt_key t1 < dt_key t2) \<and>
   (\<exists>t1 t2. parse_stamp (pkg_created_at (get_all_packages False (app_step (Send_package [0, 0] [0, 0, 0, 0, 0, 2] False (datetime_min\<lparr>dt_year := 2024, dt_day := 2\<rparr>) [68] [83] [82] [] []) (app_step (Send_package [0, 0] [0, 0, 0, 0, 0, 1] False (datetime_min\<lparr>dt_year := 2024\<rparr>) [68] [83] [82] [] []) (app_step (Add_review False (datetime_min\<lparr>dt_year := 2024, dt_day := 2\<rparr>) [] [66] 4 []) (app_step (Add_review False (datetime_min\<lparr>dt_year := 2024\<rparr>) [] [65] 5 []) fresh_db)))) ! 0)) = Some t1 \<and>
      parse_stamp (pkg_created_at (get_all_packages False (app_step (Send_package [0, 0] [0, 0, 0, 0, 0, 2] False (datetime_min\<lparr>dt_year := 2024, dt_day := 2\<rparr>) [68] [83] [82] [] []) (app_step (Send_package [0, 0] [0, 0, 0, 0, 0, 1] False (datetime_min\<lparr>dt_year := 2024\<rparr>) [68] [83] [82] [] []) (app_step (Add_review False (datetime_min\<lparr>dt_year := 2024, dt_day := 2\<rparr>) [] [66] 4 []) (app_step (Add_review False (datetime_min\<lparr>dt_year := 2024\<rparr>) [] [65] 5 []) fresh_db)))) ! 1)) = Some t2 \<and> \<not> dt_key t1 < dt_key t2)"
proof -
  have v: "action_ok (Add_review False (datetime_min\<lparr>dt_year := 2024\<rparr>) [] [65] 5 [])" "action_ok (Add_review False (datetime_min\<lparr>dt_year := 2024, dt_day := 2\<rparr>) [] [66] 4 [])" "action_ok (Send_package [0, 0] [0, 0, 0, 0, 0, 1] False (datetime_min\<lparr>dt_year := 2024\<rparr>) [68] [83] [82] [] [])" "action_ok (Send_package [0, 0] [0, 0, 0, 0, 0, 2] False (datetime_min\<lparr>dt_year := 2024, dt_day := 2\<rparr>) [68] [83] [82] [] [])"
    by (simp_all add: action_ok_def draws_ok_def dt_valid_def datetime_min_def)
  have r: "reachable (app_step (Send_package [0, 0] [0, 0, 0, 0, 0, 2] False (datetime_min\<lparr>dt_year := 2024, dt_day := 2\<rparr>) [68] [83] [82] [] []) (app_step (Send_package [0, 0] [0, 0, 0, 0, 0, 1] False (datetime_min\<lparr>dt_year := 2024\<rparr>) [68] [83] [82] [] []) (app_step (Add_review False (datetime_min\<lparr>dt_year := 2024, dt_day := 2\<rparr>) [] [66] 4 []) (app_step (Add_review False (datetime_min\<lparr>dt_year := 2024\<rparr>) [] [65] 5 []) fresh_db))))"
    by (intro reachable.step [OF reachable.step [OF reachable.step [OF reachable.step [OF reachable_fresh_db]]]] v)
  have l: "1 < length (get_all_reviews False (app_step (Send_package [0, 0] [0, 0, 0, 0, 0, 2] False (datetime_min\<lparr>dt_year := 2024, dt_day := 2\<rparr>) [68] [83] [82] [] []) (app_step (Send_package [0, 0] [0, 0, 0, 0, 0, 1] False (datetime_min\<lparr>dt_year := 2024\<rparr>) [68] [83] [82] [] []) (app_step (Add_review False (datetime_min\<lparr>dt_year := 2024, dt_day := 2\<rparr>) [] [66] 4 []) (app_step (Add_review False (datetime_min\<lparr>dt_year := 2024\<rparr>) [] [65] 5 []) fresh_db)))))" "1 < length (get_all_packages False (app_step (Send_package [0, 0] [0, 0, 0, 0, 0, 2] False (datetime_min\<lparr>dt_year := 2024, dt_day := 2\<rparr>) [68] [83] [82] [] []) (app_step (Send_package [0, 0] [0, 0, 0, 0, 0, 1] False (datetime_min\<lparr>dt_year := 2024\<rparr>) [68] [83] [82] [] []) (app_step (Add_review False (datetime_min\<lparr>dt_year := 2024, dt_day := 2\<rparr>) [] [66] 4 []) (app_step (Add_review False (datetime_min\<lparr>dt_year := 2024\<rparr>) [] [65] 5 []) fresh_db)))))"
    by (simp_all add: get_all_reviews_def get_all_packages_def add_review_def create_review_def
        send_package_def create_package_def Let_def generate_tracking_number_def choices_def
        ascii_uppercase_def digits_def stmt_fails_def rowid_full_def last_rowid_def max_rowid_def)
  show ?thesis using r l reachable_listings_newest_first [OF r, of 0 1 False] by simp
qed

text \<open>C35. In every file the program can produce, every \<open>created_at\<close> of a package, a
  courier or a review has the shape \<open>YYYY-MM-DD HH:MM:SS\<close> with an optional
  \<open>.ffffff\<close>: the service passes \<open>datetime.now()\<close> and the store writes it through
  sqlite3's default adapter (\<open>isoformat(" ")\<close>), which drops the fraction when the
  microsecond is zero.\<close>

theorem reachable_created_at_shape:
  assumes "reachable d"
    "s \<in> set (map pkg_created_at (packages d) @ map cour_created_at (couriers d) @ map rev_created_at (reviews d))"
  shows "\<exists>y mo da h mi se us.
           s = y @ [45] @ mo @ [45] @ da @ [32] @ h @ [58] @ mi @ [58] @ se @ us \<and>
           length y = 4 \<and> length mo = 2 \<and> length da = 2 \<and> length h = 2 \<and> length mi = 2 \<and>
           length se = 2 \<and> list_all is_digit (y @ mo @ da @ h @ mi @ se) \<and>
           (us = [] \<or> (\<exists>f. us = 46 # f \<and> length f = 6 \<and> list_all is_digit f))"
proof -
  have "stamp_ok s" using reachable_rows_ok [OF assms(1)] assms(2) by (auto simp: rows_ok_def list_all_iff)
  then obtain t where "dt_valid t" "s = adapt_datetime t" using stamp_okD by blast
  then show ?thesis using adapt_datetime_fields by blast
qed

theorem reachable_created_at_shape_witness:
  "reachable (app_step (Add_review False datetime_min [] [65] 5 []) fresh_db) \<and>
   rev_created_at (hd (reviews (app_step (Add_review False datetime_min [] [65] 5 []) fresh_db))) \<in> set (map pkg_created_at (packages (app_step (Add_review False datetime_min [] [65] 5 []) fresh_db)) @ map cour_created_at (couriers (app_step (Add_review False datetime_min [] [65] 5 []) fresh_db)) @ map rev_created_at (reviews (app_step (Add_review False datetime_min [] [65] 5 []) fresh_db))) \<and>
   (\<exists>y mo da h mi se us.
           rev_created_at (hd (reviews (app_step (Add_review False datetime_min [] [65] 5 []) fresh_db))) = y @ [45] @ mo @ [45] @ da @ [32] @ h @ [58] @ mi @ [58] @ se @ us \<and>
           length y = 4 \<and> length mo = 2 \<and> length da = 2 \<and> length h = 2 \<and> length mi = 2 \<and>
           length se = 2 \<and> list_all is_digit (y @ mo @ da @ h @ mi @ se) \<and>
           (us = [] \<or> (\<exists>f. us = 46 # f \<and> length f = 6 \<and> list_all is_digit f)))"
proof -
  have r: "reachable (app_step (Add_review False datetime_min [] [65] 5 []) fresh_db)"
    by (rule reachable.step [OF reachable_fresh_db]) (simp add: action_ok_def dt_valid_def datetime_min_def)
  have m: "rev_created_at (hd (reviews (app_step (Add_review False datetime_min [] [65] 5 []) fresh_db))) \<in> set (map pkg_created_at (packages (app_step (Add_review False datetime_min [] [65] 5 []) fresh_db)) @ map cour_created_at (couriers (app_step (Add_review False datetime_min [] [65] 5 []) fresh_db)) @ map rev_created_at (reviews (app_step (Add_review False datetime_min [] [65] 5 []) fresh_db)))"
    by (simp add: add_review_def create_review_def Let_def stmt_fails_def rowid_full_def last_rowid_def max_rowid_def)
  show ?thesis using r m reachable_created_at_shape [OF r m] by blast
qed
end
