(* ===== verification/Session.thy ===== *)
theory Session
  imports Prelude Store Service Gui App
begin

text \<open>
  A session of the program: \<open>main\<close> initialises a file the program can produce,
  builds the window (\<open>gui_init\<close>) and runs the Tk event loop. \<open>user_input\<close>
  is what the user does to the widgets, \<open>gui_step\<close> one event of the loop, and
  \<open>gui_session\<close> the reachable pairs of window and file. The lemmas show that each
  handler changes the file as one service call or not at all (so a session refines
  \<open>App.reachable\<close>), the invariants of the window the handlers keep (the rating
  variable, the courier list, the package list), and, by \<open>gui_session_fold\<close>,
  liveness: sequences of user events that delete a courier, track a package or open
  a package's address on the map from any state.
\<close>

subsection \<open>Events\<close>

text \<open>What the user can do to the window without pressing a button: type into an entry or
  text widget, choose a rating in the read-only combo box (whose values are "1" to "5"),
  and click a line of a list box (single selection, a line that exists).\<close>

datatype gui_input =
    Type_sender str | Type_recipient str | Type_sender_address str | Type_recipient_address str
  | Type_description str | Type_tracking str | Type_review_tracking str | Type_customer_name str
  | Choose_rating nat | Type_review_comment str | Type_courier_name str | Type_courier_phone str
  | Type_courier_email str | Select_courier nat | Type_address str | Select_package nat

fun user_input :: "gui_input \<Rightarrow> app \<Rightarrow> app" where
  "user_input (Type_sender s) a = a\<lparr>sender_entry := s\<rparr>"
| "user_input (Type_recipient s) a = a\<lparr>recipient_entry := s\<rparr>"
| "user_input (Type_sender_address s) a = a\<lparr>sender_address_entry := s\<rparr>"
| "user_input (Type_recipient_address s) a = a\<lparr>recipient_address_entry := s\<rparr>"
| "user_input (Type_description s) a = a\<lparr>description_text := s\<rparr>"
| "user_input (Type_tracking s) a = a\<lparr>tracking_entry := s\<rparr>"
| "user_input (Type_review_tracking s) a = a\<lparr>review_tracking_entry := s\<rparr>"
| "user_input (Type_customer_name s) a = a\<lparr>customer_name_entry := s\<rparr>"
| "user_input (Choose_rating k) a = (if 1 \<le> k \<and> k \<le> 5 then a\<lparr>rating_var := dec_digits k\<rparr> else a)"
| "user_input (Type_review_comment s) a = a\<lparr>review_comment_text := s\<rparr>"
| "user_input (Type_courier_name s) a = a\<lparr>courier_name_entry := s\<rparr>"
| "user_input (Type_courier_phone s) a = a\<lparr>courier_phone_entry := s\<rparr>"
| "user_input (Type_courier_email s) a = a\<lparr>courier_email_entry := s\<rparr>"
| "user_input (Select_courier i) a =
     (if i < length (couriers_listbox a) then a\<lparr>couriers_selection := [i]\<rparr> else a)"
| "user_input (Type_address s) a = a\<lparr>address_entry := s\<rparr>"
| "user_input (Select_package i) a =
     (if i < length (packages_listbox a) then a\<lparr>packages_selection := [i]\<rparr> else a)"

text \<open>The events of the Tk main loop: an input, a button press with the environment the
  handler meets (store faults of its service call and of the list refresh that follows,
  the clock, the random draws, the answer to the confirmation, the browser's outcome),
  or the About menu item.\<close>

datatype gui_event =
    Input gui_input
  | Press_send "nat list" "nat list" bool datetime
  | Press_track bool
  | Press_add_review bool bool datetime
  | Press_refresh_reviews bool
  | Press_add_courier bool bool datetime
  | Press_refresh_couriers bool
  | Press_delete_courier bool bool bool
  | Press_search browser_result
  | Press_refresh_packages bool
  | Press_show_selected bool browser_result
  | Menu_about

fun gui_step :: "gui_event \<Rightarrow> app \<times> db \<Rightarrow> app \<times> db" where
  "gui_step (Input i) (a, d) = (user_input i a, d)"
| "gui_step (Press_send ls ds f t) (a, d) = gui_send_package ls ds f t a d"
| "gui_step (Press_track f) (a, d) = (gui_track_package f a d, d)"
| "gui_step (Press_add_review f f' t) (a, d) = gui_add_review f f' t a d"
| "gui_step (Press_refresh_reviews f) (a, d) = (refresh_reviews f a d, d)"
| "gui_step (Press_add_courier f f' t) (a, d) = gui_add_courier f f' t a d"
| "gui_step (Press_refresh_couriers f) (a, d) = (refresh_couriers f a d, d)"
| "gui_step (Press_delete_courier c f f') (a, d) = gui_delete_courier c f f' a d"
| "gui_step (Press_search br) (a, d) = (gui_search_address br a, d)"
| "gui_step (Press_refresh_packages f) (a, d) = (gui_refresh_packages_list f a d, d)"
| "gui_step (Press_show_selected f br) (a, d) = (gui_show_selected_address f br a d, d)"
| "gui_step Menu_about (a, d) = (gui_show_about a, d)"

text \<open>What the environment guarantees about an event: \<open>random.choices\<close> returns indices
  into its population (two letters, six digits) and \<open>datetime.now()\<close> a valid datetime.\<close>

definition event_ok :: "gui_event \<Rightarrow> bool" where
  "event_ok e =
     (case e of
        Press_send ls ds f t \<Rightarrow> draws_ok 26 2 ls \<and> draws_ok 10 6 ds \<and> dt_valid t
      | Press_add_review f f' t \<Rightarrow> dt_valid t
      | Press_add_courier f f' t \<Rightarrow> dt_valid t
      | _ \<Rightarrow> True)"

text \<open>The rating variable holds one of the combo box's values.\<close>

definition rating_choice_ok :: "app \<Rightarrow> bool" where
  "rating_choice_ok a \<longleftrightarrow> list_ex (\<lambda>k. rating_var a = dec_digits k) [1, 2, 3, 4, 5]"

text \<open>The courier list shows couriers of the file, and its selection is at most one
  existing line.\<close>

definition courier_view_ok :: "app \<Rightarrow> db \<Rightarrow> bool" where
  "courier_view_ok a d \<longleftrightarrow>
     length (couriers_selection a) \<le> 1 \<and>
     list_all (\<lambda>i. i < length (couriers_listbox a)) (couriers_selection a) \<and>
     list_all (\<lambda>l. list_ex (\<lambda>c. l = courier_line c) (couriers d)) (couriers_listbox a)"

text \<open>The package list of the map tab shows lines of packages of the file (or the
  placeholder line), and its selection is at most one existing line.\<close>

definition package_view_ok :: "app \<Rightarrow> db \<Rightarrow> bool" where
  "package_view_ok a d \<longleftrightarrow>
     length (packages_selection a) \<le> 1 \<and>
     list_all (\<lambda>i. i < length (packages_listbox a)) (packages_selection a) \<and>
     list_all (\<lambda>l. l = g_no_packages \<or> list_ex (\<lambda>p. l = package_line p) (packages d)) (packages_listbox a)"

text \<open>The sessions of the program: \<open>main\<close> initialises a file the program can produce,
  builds the window (\<open>gui_init\<close>), and runs the Tk event loop, one \<open>gui_step\<close> per event.\<close>

inductive gui_session :: "app \<times> db \<Rightarrow> bool" where
  launch: "reachable d \<Longrightarrow> initialize_db f d = Some d' \<Longrightarrow> gui_session (gui_init f1 f2 f3 d', d')"
| event: "gui_session s \<Longrightarrow> event_ok e \<Longrightarrow> gui_session (gui_step e s)"

subsection \<open>Lemmas\<close>

lemma rating_choice_ok_choose:
  "1 \<le> k \<Longrightarrow> k \<le> (5::nat) \<Longrightarrow> rating_choice_ok (a\<lparr>rating_var := dec_digits k\<rparr>)"
  unfolding rating_choice_ok_def list_ex_iff by (intro bexI [of _ k]) auto

lemma gui_step_rating:
  assumes "rating_choice_ok a"
  shows "rating_choice_ok (fst (gui_step e (a, d)))"
  using assms
proof (cases e)
  case (Input i)
  then show ?thesis
    using assms by (cases i) (simp_all add: rating_choice_ok_choose, simp_all add: rating_choice_ok_def)
next
  case (Press_add_review f f' t)
  moreover have "rating_default = dec_digits 5" by (simp add: rating_default_def asc_def dec_digits.simps)
  ultimately show ?thesis
    using assms rating_var_handlers(3) [of f f' t a d] by (auto simp: rating_choice_ok_def)
qed (use assms in \<open>simp_all add: rating_choice_ok_def rating_var_handlers\<close>)

lemma courier_view_refresh: "courier_view_ok (refresh_couriers f a d) d"
  by (auto simp: courier_view_ok_def refresh_couriers_def get_couriers_def get_all_couriers_def
      list_all_iff list_ex_iff)

lemma courier_view_keep:
  "courier_view_ok a d \<Longrightarrow> couriers_listbox a' = couriers_listbox a \<Longrightarrow>
   couriers_selection a' = couriers_selection a \<Longrightarrow> couriers d' = couriers d \<Longrightarrow> courier_view_ok a' d'"
  by (simp add: courier_view_ok_def)

lemma courier_view_step:
  assumes "courier_view_ok a d"
  shows "courier_view_ok (fst (gui_step e (a, d))) (snd (gui_step e (a, d)))"
proof (cases e)
  case (Input i)
  then show ?thesis using assms
    by (cases i) (auto simp: courier_view_ok_def)
next
  case (Press_send ls ds f t)
  have "couriers (snd (gui_send_package ls ds f t a d)) = couriers d"
    using gui_send_package_db [of ls ds f t a d] couriers_send_package by metis
  then show ?thesis using Press_send assms courier_widgets_other_handlers(1) courier_view_keep by simp
next
  case (Press_add_review f f' t)
  have "couriers (snd (gui_add_review f f' t a d)) = couriers d"
    using gui_add_review_db [of f f' t a d] couriers_add_review by metis
  then show ?thesis using Press_add_review assms courier_widgets_other_handlers(3) courier_view_keep by simp
next
  case (Press_add_courier f f' t)
  then show ?thesis using assms courier_view_refresh
    by (auto simp: gui_add_courier_def Let_def show_dialog_def courier_view_ok_def
        split: prod.splits sum.splits dest: add_courier_Inl)
next
  case (Press_refresh_couriers f)
  then show ?thesis using courier_view_refresh by simp
next
  case (Press_delete_courier c f f')
  then show ?thesis using assms remove_courier_Inl courier_view_refresh
    by (auto simp: gui_delete_courier_def Let_def show_dialog_def courier_view_ok_def
        split: prod.splits sum.splits)
qed (use assms courier_widgets_other_handlers courier_view_keep in \<open>simp_all\<close>)

lemma gui_init_courier_view: "courier_view_ok (gui_init f1 f2 f3 d) d"
  by (auto simp: gui_init_defs Let_def courier_view_ok_def refresh_couriers_def gui_refresh_packages_list_def
      refresh_reviews_def get_couriers_def get_all_couriers_def list_all_iff list_ex_iff)

lemma gui_step_app_step:
  assumes "event_ok e"
  shows "\<exists>act. action_ok act \<and> snd (gui_step e (a, d)) = app_step act d"
proof -
  have "action_ok (Track_package False []) \<and> d = app_step (Track_package False []) d"
    by (simp add: action_ok_def)
  then have id: "\<exists>act. action_ok act \<and> d = app_step act d" by blast
  show ?thesis
  proof (cases e)
    case (Press_send ls ds f t)
    then show ?thesis using assms gui_send_package_db [of ls ds f t a d] id
      by (auto simp: event_ok_def action_ok_def intro: exI [of _ "Send_package ls ds f t _ _ _ _ _"])
  next
    case (Press_add_review f f' t)
    then show ?thesis using assms gui_add_review_db [of f f' t a d] id
      by (auto simp: event_ok_def action_ok_def intro: exI [of _ "Add_review f t _ _ _ _"])
  next
    case (Press_add_courier f f' t)
    then show ?thesis using assms gui_add_courier_db [of f f' t a d] id
      by (auto simp: event_ok_def action_ok_def intro: exI [of _ "Add_courier f t _ _ _"])
  next
    case (Press_delete_courier c f f')
    then show ?thesis using gui_delete_courier_db [of c f f' a d] id
      by (auto simp: action_ok_def intro: exI [of _ "Remove_courier f _"])
  qed (use id in simp_all)
qed

lemma gui_init_rating: "rating_choice_ok (gui_init f1 f2 f3 d)"
proof -
  have "rating_default = dec_digits 5" by (simp add: rating_default_def asc_def dec_digits.simps)
  then show ?thesis
    by (simp add: gui_init_defs Let_def rating_choice_ok_def rating_var_handlers)
qed

lemma gui_session_inv: "gui_session s \<Longrightarrow> reachable (snd s) \<and> rating_choice_ok (fst s)"
proof (induction rule: gui_session.induct)
  case (launch d f d' f1 f2 f3)
  then show ?case using reachable.start gui_init_rating by simp
next
  case (event s e)
  obtain a d where s: "s = (a, d)" by fastforce
  obtain act where "action_ok act" "snd (gui_step e (a, d)) = app_step act d"
    using gui_step_app_step [OF event.hyps(2)] by blast
  then show ?case using event s reachable.step gui_step_rating by auto
qed

lemma gui_session_start: "gui_session (gui_init False False False fresh_db, fresh_db)"
proof -
  have "initialize_db False empty_db = Some fresh_db"
    by (simp add: fresh_db_def initialize_db_def)
  then show ?thesis using gui_session.launch [OF reachable.new_file] by blast
qed

lemma gui_session_courier_view: "gui_session s \<Longrightarrow> courier_view_ok (fst s) (snd s)"
proof (induction rule: gui_session.induct)
  case (launch d f d' f1 f2 f3)
  then show ?case using gui_init_courier_view by simp
next
  case (event s e)
  then show ?case using courier_view_step [of "fst s" "snd s" e] by simp
qed

lemma gui_session_fold: "gui_session s \<Longrightarrow> list_all event_ok es \<Longrightarrow> gui_session (fold gui_step es s)"
proof (induction es arbitrary: s)
  case Nil
  then show ?case by simp
next
  case (Cons e es)
  then show ?case by (simp add: gui_session.event)
qed

lemma gui_step_packages_mono: "set (packages d) \<subseteq> set (packages (snd (gui_step e (a, d))))"
proof (cases e)
  case (Press_send ls ds f t)
  then have "snd (gui_step e (a, d)) = snd (gui_send_package ls ds f t a d)" by simp
  then show ?thesis using gui_send_package_db [of ls ds f t a d] packages_service_calls(1) by (metis order_refl)
next
  case (Press_add_review f f' t)
  then show ?thesis using gui_add_review_db [of f f' t a d] packages_service_calls(2) by auto
next
  case (Press_add_courier f f' t)
  then show ?thesis using gui_add_courier_db [of f f' t a d] packages_service_calls(3) by auto
next
  case (Press_delete_courier c f f')
  then show ?thesis using gui_delete_courier_db [of c f f' a d] packages_service_calls(4) by auto
qed simp_all

lemma package_view_refresh: "package_view_ok (gui_refresh_packages_list f a d) d"
  by (auto simp: package_view_ok_def gui_refresh_packages_list_def get_all_packages_def Let_def
      list_all_iff list_ex_iff)

lemma package_view_keep:
  "package_view_ok a d \<Longrightarrow> packages_listbox a' = packages_listbox a \<Longrightarrow>
   packages_selection a' = packages_selection a \<Longrightarrow> set (packages d) \<subseteq> set (packages d') \<Longrightarrow>
   package_view_ok a' d'"
  by (fastforce simp: package_view_ok_def list_all_iff list_ex_iff)

lemma package_view_step:
  assumes "package_view_ok a d"
  shows "package_view_ok (fst (gui_step e (a, d))) (snd (gui_step e (a, d)))"
proof (cases e)
  case (Input i)
  then show ?thesis using assms
    by (cases i) (auto simp: package_view_ok_def)
next
  case (Press_refresh_packages f)
  then show ?thesis using package_view_refresh by simp
qed (use assms package_widgets_other_handlers package_view_keep gui_step_packages_mono [of d e a] in \<open>simp_all\<close>)

lemma gui_init_package_view: "package_view_ok (gui_init f1 f2 f3 d) d"
  by (auto simp: gui_init_defs Let_def package_view_ok_def refresh_couriers_def gui_refresh_packages_list_def
      refresh_reviews_def get_all_packages_def list_all_iff list_ex_iff)

lemma gui_session_package_view: "gui_session s \<Longrightarrow> package_view_ok (fst s) (snd s)"
proof (induction rule: gui_session.induct)
  case (launch d f d' f1 f2 f3)
  then show ?case using gui_init_package_view by simp
next
  case (event s e)
  then show ?case using package_view_step [of "fst s" "snd s" e] by simp
qed

subsection \<open>Properties of sessions\<close>

lemma gui_session_rows: "gui_session (a, d) \<Longrightarrow> db_inv d \<and> rows_ok d"
  using gui_session_inv [of "(a, d)"] reachable_app_inv reachable_rows_ok by auto

lemma stored_package_ok:
  assumes "gui_session (a, d)" "p \<in> set (packages d)" "\<not> fault"
  shows "db_inv d \<and> \<not> stmt_fails fault d \<and> tracking_format (pkg_tracking_number p) \<and> stamp_ok (pkg_created_at p)"
  using gui_session_rows [OF assms(1)] assms(2,3)
  by (auto simp: rows_ok_def list_all_iff db_inv_def stmt_fails_def)

text \<open>C26. Every database a GUI session works on is one the service-level model reaches:
  the effect of each button handler on the file is that of one service call or of none.
  So every invariant proved of \<open>reachable\<close> (C8, C25) holds in the running program.\<close>

theorem gui_session_reachable: "gui_session (a, d) \<Longrightarrow> reachable d"
  using gui_session_inv by fastforce

theorem gui_session_reachable_witness:
  "gui_session (gui_step (Press_add_review False False datetime_min) (gui_step (Input (Type_customer_name [65])) (gui_init False False False fresh_db, fresh_db))) \<and> reachable (snd (gui_step (Press_add_review False False datetime_min) (gui_step (Input (Type_customer_name [65])) (gui_init False False False fresh_db, fresh_db))))"
proof -
  have s0: "gui_session (gui_step (Press_add_review False False datetime_min) (gui_step (Input (Type_customer_name [65])) (gui_init False False False fresh_db, fresh_db)))"
    by (intro gui_session.event gui_session_start) (simp_all add: event_ok_def dt_valid_def datetime_min_def)
  then have s: "gui_session (fst (gui_step (Press_add_review False False datetime_min) (gui_step (Input (Type_customer_name [65])) (gui_init False False False fresh_db, fresh_db))), snd (gui_step (Press_add_review False False datetime_min) (gui_step (Input (Type_customer_name [65])) (gui_init False False False fresh_db, fresh_db))))" by simp
  show ?thesis using s gui_session_reachable [OF s] by simp
qed

text \<open>C27. In every GUI session the rating variable reads, through \<open>int()\<close>, as an
  integer from 1 to 5: the read-only combo box offers only these values and the
  add-review handler resets it to "5". So \<open>int()\<close> in the add-review handler never
  raises, and the handler never shows the "rating must be from 1 to 5" message: the
  range check of \<open>package_service.add_review\<close> cannot fail for a rating the window
  produces.\<close>

theorem gui_session_rating:
  assumes "gui_session (a, d)"
  shows "(\<exists>k. 1 \<le> k \<and> k \<le> 5 \<and> py_int (rating_var a) = Inr (int k)) \<and>
         list_all (\<lambda>dg. dg \<noteq> Show_error t_error msg_rating_range)
           (drop (length (dialogs a)) (dialogs (fst (gui_add_review f f' t a d))))"
proof -
  obtain k where k: "1 \<le> k" "k \<le> (5::nat)" "py_int (rating_var a) = Inr (int k)"
    using gui_session_inv [OF assms] py_int_dec_digits
    unfolding rating_choice_ok_def list_ex_iff by force
  have ne: "msg_review_add_failed \<noteq> msg_rating_range" "g_enter_name \<noteq> msg_rating_range"
    by (simp_all add: msg_review_add_failed_def msg_rating_range_def g_enter_name_def)
  have "list_all (\<lambda>dg. dg \<noteq> Show_error t_error msg_rating_range)
          (drop (length (dialogs a)) (dialogs (fst (gui_add_review f f' t a d))))"
    using k ne
    by (auto simp: gui_add_review_def add_review_def Let_def show_dialog_def refresh_reviews_def
        split: prod.splits sum.splits if_splits)
  then show ?thesis using k by blast
qed

theorem gui_session_rating_witness:
  "gui_session (gui_step (Press_add_review False False datetime_min) (gui_step (Input (Type_customer_name [65])) (gui_init False False False fresh_db, fresh_db))) \<and>
   (\<exists>k. 1 \<le> k \<and> k \<le> 5 \<and> py_int (rating_var (fst (gui_step (Press_add_review False False datetime_min) (gui_step (Input (Type_customer_name [65])) (gui_init False False False fresh_db, fresh_db))))) = Inr (int k)) \<and>
   list_all (\<lambda>dg. dg \<noteq> Show_error t_error msg_rating_range)
     (drop (length (dialogs (fst (gui_step (Press_add_review False False datetime_min) (gui_step (Input (Type_customer_name [65])) (gui_init False False False fresh_db, fresh_db)))))) (dialogs (fst (gui_add_review False False datetime_min (fst (gui_step (Press_add_review False False datetime_min) (gui_step (Input (Type_customer_name [65])) (gui_init False False False fresh_db, fresh_db)))) (snd (gui_step (Press_add_review False False datetime_min) (gui_step (Input (Type_customer_name [65])) (gui_init False False False fresh_db, fresh_db))))))))"
proof -
  have s0: "gui_session (gui_step (Press_add_review False False datetime_min) (gui_step (Input (Type_customer_name [65])) (gui_init False False False fresh_db, fresh_db)))"
    by (intro gui_session.event gui_session_start) (simp_all add: event_ok_def dt_valid_def datetime_min_def)
  then have s: "gui_session (fst (gui_step (Press_add_review False False datetime_min) (gui_step (Input (Type_customer_name [65])) (gui_init False False False fresh_db, fresh_db))), snd (gui_step (Press_add_review False False datetime_min) (gui_step (Input (Type_customer_name [65])) (gui_init False False False fresh_db, fresh_db))))" by simp
  show ?thesis using s0 gui_session_rating [OF s, of False False datetime_min] by simp
qed

text \<open>C31. In every GUI session, a selected line of the courier list shows a courier of
  the file, and confirming its deletion (with a working store) removes exactly that
  courier and reports success: the list is never stale and the id read back from the
  line is the courier's.\<close>

theorem gui_session_delete_selected:
  assumes "gui_session (a, d)" "couriers_selection a = [k]" "\<not> fault"
  shows "\<exists>c. c \<in> set (couriers d) \<and> couriers_listbox a ! k = courier_line c \<and>
           snd (gui_delete_courier True fault f' a d) =
             d\<lparr>couriers := filter (\<lambda>c'. cour_id c' \<noteq> cour_id c) (couriers d)\<rparr> \<and>
           last (dialogs (fst (gui_delete_courier True fault f' a d))) = Show_info t_success msg_courier_removed"
proof -
  have view: "courier_view_ok a d" using gui_session_courier_view [OF assms(1)] by simp
  then have k: "k < length (couriers_listbox a)" using assms(2) by (simp add: courier_view_ok_def)
  then obtain c where c: "c \<in> set (couriers d)" "couriers_listbox a ! k = courier_line c"
    using view by (fastforce simp: courier_view_ok_def list_all_iff list_ex_iff)
  have "db_inv d" using gui_session_inv [OF assms(1)] reachable_app_inv by simp
  then have ok: "\<not> stmt_fails fault d" using c(1) assms(3) by (auto simp: db_inv_def stmt_fails_def)
  show ?thesis using gui_delete_listed_courier [OF ok c(1) assms(2) k c(2)] c by blast
qed

theorem gui_session_delete_selected_witness:
  "gui_session (gui_step (Input (Select_courier 0)) (gui_step (Press_add_courier False False datetime_min) (gui_step (Input (Type_courier_name [65])) (gui_init False False False fresh_db, fresh_db)))) \<and> couriers_selection (fst (gui_step (Input (Select_courier 0)) (gui_step (Press_add_courier False False datetime_min) (gui_step (Input (Type_courier_name [65])) (gui_init False False False fresh_db, fresh_db))))) = [0] \<and>
   (\<exists>c. c \<in> set (couriers (snd (gui_step (Input (Select_courier 0)) (gui_step (Press_add_courier False False datetime_min) (gui_step (Input (Type_courier_name [65])) (gui_init False False False fresh_db, fresh_db)))))) \<and> couriers_listbox (fst (gui_step (Input (Select_courier 0)) (gui_step (Press_add_courier False False datetime_min) (gui_step (Input (Type_courier_name [65])) (gui_init False False False fresh_db, fresh_db))))) ! 0 = courier_line c \<and>
      snd (gui_delete_courier True False False (fst (gui_step (Input (Select_courier 0)) (gui_step (Press_add_courier False False datetime_min) (gui_step (Input (Type_courier_name [65])) (gui_init False False False fresh_db, fresh_db))))) (snd (gui_step (Input (Select_courier 0)) (gui_step (Press_add_courier False False datetime_min) (gui_step (Input (Type_courier_name [65])) (gui_init False False False fresh_db, fresh_db)))))) =
        snd (gui_step (Input (Select_courier 0)) (gui_step (Press_add_courier False False datetime_min) (gui_step (Input (Type_courier_name [65])) (gui_init False False False fresh_db, fresh_db))))\<lparr>couriers := filter (\<lambda>c'. cour_id c' \<noteq> cour_id c) (couriers (snd (gui_step (Input (Select_courier 0)) (gui_step (Press_add_courier False False datetime_min) (gui_step (Input (Type_courier_name [65])) (gui_init False False False fresh_db, fresh_db))))))\<rparr> \<and>
      last (dialogs (fst (gui_delete_courier True False False (fst (gui_step (Input (Select_courier 0)) (gui_step (Press_add_courier False False datetime_min) (gui_step (Input (Type_courier_name [65])) (gui_init False False False fresh_db, fresh_db))))) (snd (gui_step (Input (Select_courier 0)) (gui_step (Press_add_courier False False datetime_min) (gui_step (Input (Type_courier_name [65])) (gui_init False False False fresh_db, fresh_db)))))))) =
        Show_info t_success msg_courier_removed)"
proof -
  have s0: "gui_session (gui_step (Input (Select_courier 0)) (gui_step (Press_add_courier False False datetime_min) (gui_step (Input (Type_courier_name [65])) (gui_init False False False fresh_db, fresh_db))))" by (intro gui_session.event gui_session_start) (simp_all add: event_ok_def dt_valid_def datetime_min_def)
  then have s: "gui_session (fst (gui_step (Input (Select_courier 0)) (gui_step (Press_add_courier False False datetime_min) (gui_step (Input (Type_courier_name [65])) (gui_init False False False fresh_db, fresh_db)))), snd (gui_step (Input (Select_courier 0)) (gui_step (Press_add_courier False False datetime_min) (gui_step (Input (Type_courier_name [65])) (gui_init False False False fresh_db, fresh_db)))))" by simp
  have sel: "couriers_selection (fst (gui_step (Input (Select_courier 0)) (gui_step (Press_add_courier False False datetime_min) (gui_step (Input (Type_courier_name [65])) (gui_init False False False fresh_db, fresh_db))))) = [0]"
    by (simp add: gui_add_courier_def add_courier_result [OF db_inv_fresh_db] Let_def stmt_fails_def
        max_rowid_def py_strip_def py_isspace_def refresh_couriers_def get_couriers_def get_all_couriers_def
        show_dialog_def gui_init_defs refresh_reviews_def gui_refresh_packages_list_def)
  show ?thesis using s0 sel gui_session_delete_selected [OF s sel, of False False] by simp
qed

text \<open>C36. Every courier of the file can be deleted through the window: from any state
  of a session there is a sequence of events the user can produce (refresh the list,
  click the courier's line, press delete and confirm) after which the session goes on
  and no courier with that id is left.\<close>

theorem gui_session_can_delete_courier:
  assumes "gui_session (a, d)" "c \<in> set (couriers d)"
  shows "\<exists>es. list_all event_ok es \<and> gui_session (fold gui_step es (a, d)) \<and>
           list_all (\<lambda>c'. cour_id c' \<noteq> cour_id c) (couriers (snd (fold gui_step es (a, d))))"
proof -
  have "db_inv d" using gui_session_inv [OF assms(1)] reachable_app_inv by simp
  then have ok: "\<not> stmt_fails False d" using assms(2) by (auto simp: db_inv_def stmt_fails_def)
  then have "c \<in> set (get_couriers False d)" using assms(2) by (simp add: get_couriers_def get_all_couriers_def)
  then obtain k where k: "k < length (get_couriers False d)" "get_couriers False d ! k = c"
    by (auto simp: in_set_conv_nth)
  let ?es = "[Press_refresh_couriers False, Input (Select_courier k), Press_delete_courier True False False]"
  let ?a2 = "(refresh_couriers False a d)\<lparr>couriers_selection := [k]\<rparr>"
  have run: "fold gui_step ?es (a, d) = gui_delete_courier True False False ?a2 d"
    using k by (simp add: refresh_couriers_def)
  have del: "snd (gui_delete_courier True False False ?a2 d) =
               d\<lparr>couriers := filter (\<lambda>c'. cour_id c' \<noteq> cour_id c) (couriers d)\<rparr>"
    using gui_delete_listed_courier [OF ok assms(2), of ?a2 k False] k by (simp add: refresh_couriers_def)
  have evs: "list_all event_ok ?es" by (simp add: event_ok_def)
  show ?thesis
    using run del evs gui_session_fold [OF assms(1) evs]
    by (intro exI [of _ ?es]) (simp add: list_all_iff)
qed

theorem gui_session_can_delete_courier_witness:
  "gui_session (gui_step (Press_add_courier False False datetime_min) (gui_step (Input (Type_courier_name [65])) (gui_init False False False fresh_db, fresh_db))) \<and> \<lparr>cour_id = 1, cour_name = [65], cour_phone = [], cour_email = [], cour_status = courier_status_active,
      cour_created_at = adapt_datetime datetime_min\<rparr> \<in> set (couriers (snd (gui_step (Press_add_courier False False datetime_min) (gui_step (Input (Type_courier_name [65])) (gui_init False False False fresh_db, fresh_db))))) \<and>
   (\<exists>es. list_all event_ok es \<and> gui_session (fold gui_step es (gui_step (Press_add_courier False False datetime_min) (gui_step (Input (Type_courier_name [65])) (gui_init False False False fresh_db, fresh_db)))) \<and>
      list_all (\<lambda>c'. cour_id c' \<noteq> cour_id \<lparr>cour_id = 1, cour_name = [65], cour_phone = [], cour_email = [], cour_status = courier_status_active,
      cour_created_at = adapt_datetime datetime_min\<rparr>) (couriers (snd (fold gui_step es (gui_step (Press_add_courier False False datetime_min) (gui_step (Input (Type_courier_name [65])) (gui_init False False False fresh_db, fresh_db)))))))"
proof -
  have s0: "gui_session (gui_step (Press_add_courier False False datetime_min) (gui_step (Input (Type_courier_name [65])) (gui_init False False False fresh_db, fresh_db)))"
    by (intro gui_session.event gui_session_start) (simp_all add: event_ok_def dt_valid_def datetime_min_def)
  then have s: "gui_session (fst (gui_step (Press_add_courier False False datetime_min) (gui_step (Input (Type_courier_name [65])) (gui_init False False False fresh_db, fresh_db))), snd (gui_step (Press_add_courier False False datetime_min) (gui_step (Input (Type_courier_name [65])) (gui_init False False False fresh_db, fresh_db))))" by simp
  have m: "\<lparr>cour_id = 1, cour_name = [65], cour_phone = [], cour_email = [], cour_status = courier_status_active,
      cour_created_at = adapt_datetime datetime_min\<rparr> \<in> set (couriers (snd (gui_step (Press_add_courier False False datetime_min) (gui_step (Input (Type_courier_name [65])) (gui_init False False False fresh_db, fresh_db)))))"
    by (simp add: gui_add_courier_def add_courier_result [OF db_inv_fresh_db] Let_def stmt_fails_def
        max_rowid_def py_strip_def py_isspace_def gui_init_defs refresh_reviews_def refresh_couriers_def
        gui_refresh_packages_list_def)
  show ?thesis using s0 m gui_session_can_delete_courier [OF s m] by simp
qed

text \<open>C30. Every package of the file can be tracked through the window: from any state of
  a session, typing its tracking number and pressing the track button shows its status,
  sender and recipient, and its creation time as a datetime the default converter reads
  back, printed without microseconds.\<close>

theorem gui_session_can_track_package:
  assumes "gui_session (a, d)" "p \<in> set (packages d)"
  shows "\<exists>es. list_all event_ok es \<and> gui_session (fold gui_step es (a, d)) \<and>
           status_label (fst (fold gui_step es (a, d))) = lbl_status @ pkg_status p \<and>
           sender_label (fst (fold gui_step es (a, d))) = lbl_sender @ pkg_sender p \<and>
           recipient_label (fst (fold gui_step es (a, d))) = lbl_recipient @ pkg_recipient p \<and>
           (\<exists>t. parse_stamp (pkg_created_at p) = Some t \<and>
              date_label (fst (fold gui_step es (a, d))) = lbl_date @ adapt_datetime (t\<lparr>dt_microsecond := 0\<rparr>))"
proof -
  have ok: "db_inv d" "\<not> stmt_fails False d" "tracking_format (pkg_tracking_number p)" "stamp_ok (pkg_created_at p)"
    using stored_package_ok [OF assms, of False] by simp_all
  have sp: "list_all (\<lambda>c. \<not> py_isspace c) (pkg_tracking_number p)" "pkg_tracking_number p \<noteq> []"
    using tracking_format_no_space [OF ok(3)] by simp_all
  then have strip: "py_strip (pkg_tracking_number p) = pkg_tracking_number p"
    using py_strip_no_space by (simp add: list_all_iff)
  have tr: "track_package False (pkg_tracking_number p) d = Inr p"
    using track_stored_package [OF ok(1) assms(2) sp(2) ok(2)] .
  obtain t where t: "dt_valid t" "pkg_created_at p = adapt_datetime t" using stamp_okD [OF ok(4)] by blast
  let ?es = "[Input (Type_tracking (pkg_tracking_number p)), Press_track False]"
  have evs: "list_all event_ok ?es" by (simp add: event_ok_def)
  have run: "fst (fold gui_step ?es (a, d)) = gui_track_package False (a\<lparr>tracking_entry := pkg_tracking_number p\<rparr>) d"
    by simp
  have "status_label (fst (fold gui_step ?es (a, d))) = lbl_status @ pkg_status p \<and>
        sender_label (fst (fold gui_step ?es (a, d))) = lbl_sender @ pkg_sender p \<and>
        recipient_label (fst (fold gui_step ?es (a, d))) = lbl_recipient @ pkg_recipient p \<and>
        date_label (fst (fold gui_step ?es (a, d))) = lbl_date @ adapt_datetime (t\<lparr>dt_microsecond := 0\<rparr>)"
    unfolding run using strip tr t(2) sp(2) by (simp add: gui_track_package_def format_date_adapt Let_def)
  then show ?thesis
    using evs gui_session_fold [OF assms(1) evs] parse_stamp_adapt [OF t(1)] t(2)
    by (intro exI [of _ ?es]) simp
qed
theorem gui_session_can_track_package_witness:
  "gui_session (gui_init False False False ((app_step (Send_package [0, 0] [0, 0, 0, 0, 0, 1] False (datetime_min\<lparr>dt_year := 2024\<rparr>) [68] [83] [82] [] [82]) fresh_db)\<lparr>tables_created := True\<rparr>), (app_step (Send_package [0, 0] [0, 0, 0, 0, 0, 1] False (datetime_min\<lparr>dt_year := 2024\<rparr>) [68] [83] [82] [] [82]) fresh_db)\<lparr>tables_created := True\<rparr>) \<and> hd (packages ((app_step (Send_package [0, 0] [0, 0, 0, 0, 0, 1] False (datetime_min\<lparr>dt_year := 2024\<rparr>) [68] [83] [82] [] [82]) fresh_db)\<lparr>tables_created := True\<rparr>)) \<in> set (packages ((app_step (Send_package [0, 0] [0, 0, 0, 0, 0, 1] False (datetime_min\<lparr>dt_year := 2024\<rparr>) [68] [83] [82] [] [82]) fresh_db)\<lparr>tables_created := True\<rparr>)) \<and>
   (\<exists>es. list_all event_ok es \<and> gui_session (fold gui_step es (gui_init False False False ((app_step (Send_package [0, 0] [0, 0, 0, 0, 0, 1] False (datetime_min\<lparr>dt_year := 2024\<rparr>) [68] [83] [82] [] [82]) fresh_db)\<lparr>tables_created := True\<rparr>), (app_step (Send_package [0, 0] [0, 0, 0, 0, 0, 1] False (datetime_min\<lparr>dt_year := 2024\<rparr>) [68] [83] [82] [] [82]) fresh_db)\<lparr>tables_created := True\<rparr>)) \<and>
           status_label (fst (fold gui_step es (gui_init False False False ((app_step (Send_package [0, 0] [0, 0, 0, 0, 0, 1] False (datetime_min\<lparr>dt_year := 2024\<rparr>) [68] [83] [82] [] [82]) fresh_db)\<lparr>tables_created := True\<rparr>), (app_step (Send_package [0, 0] [0, 0, 0, 0, 0, 1] False (datetime_min\<lparr>dt_year := 2024\<rparr>) [68] [83] [82] [] [82]) fresh_db)\<lparr>tables_created := True\<rparr>))) = lbl_status @ pkg_status (hd (packages ((app_step (Send_package [0, 0] [0, 0, 0, 0, 0, 1] False (datetime_min\<lparr>dt_year := 2024\<rparr>) [68] [83] [82] [] [82]) fresh_db)\<lparr>tables_created := True\<rparr>))) \<and>
           sender_label (fst (fold gui_step es (gui_init False False False ((app_step (Send_package [0, 0] [0, 0, 0, 0, 0, 1] False (datetime_min\<lparr>dt_year := 2024\<rparr>) [68] [83] [82] [] [82]) fresh_db)\<lparr>tables_created := True\<rparr>), (app_step (Send_package [0, 0] [0, 0, 0, 0, 0, 1] False (datetime_min\<lparr>dt_year := 2024\<rparr>) [68] [83] [82] [] [82]) fresh_db)\<lparr>tables_created := True\<rparr>))) = lbl_sender @ pkg_sender (hd (packages ((app_step (Send_package [0, 0] [0, 0, 0, 0, 0, 1] False (datetime_min\<lparr>dt_year := 2024\<rparr>) [68] [83] [82] [] [82]) fresh_db)\<lparr>tables_created := True\<rparr>))) \<and>
           recipient_label (fst (fold gui_step es (gui_init False False False ((app_step (Send_package [0, 0] [0, 0, 0, 0, 0, 1] False (datetime_min\<lparr>dt_year := 2024\<rparr>) [68] [83] [82] [] [82]) fresh_db)\<lparr>tables_created := True\<rparr>), (app_step (Send_package [0, 0] [0, 0, 0, 0, 0, 1] False (datetime_min\<lparr>dt_year := 2024\<rparr>) [68] [83] [82] [] [82]) fresh_db)\<lparr>tables_created := True\<rparr>))) = lbl_recipient @ pkg_recipient (hd (packages ((app_step (Send_package [0, 0] [0, 0, 0, 0, 0, 1] False (datetime_min\<lparr>dt_year := 2024\<rparr>) [68] [83] [82] [] [82]) fresh_db)\<lparr>tables_created := True\<rparr>))) \<and>
           (\<exists>t. parse_stamp (pkg_created_at (hd (packages ((app_step (Send_package [0, 0] [0, 0, 0, 0, 0, 1] False (datetime_min\<lparr>dt_year := 2024\<rparr>) [68] [83] [82] [] [82]) fresh_db)\<lparr>tables_created := True\<rparr>)))) = Some t \<and>
              date_label (fst (fold gui_step es (gui_init False False False ((app_step (Send_package [0, 0] [0, 0, 0, 0, 0, 1] False (datetime_min\<lparr>dt_year := 2024\<rparr>) [68] [83] [82] [] [82]) fresh_db)\<lparr>tables_created := True\<rparr>), (app_step (Send_package [0, 0] [0, 0, 0, 0, 0, 1] False (datetime_min\<lparr>dt_year := 2024\<rparr>) [68] [83] [82] [] [82]) fresh_db)\<lparr>tables_created := True\<rparr>))) = lbl_date @ adapt_datetime (t\<lparr>dt_microsecond := 0\<rparr>)))"
proof -
  have r: "reachable (app_step (Send_package [0, 0] [0, 0, 0, 0, 0, 1] False (datetime_min\<lparr>dt_year := 2024\<rparr>) [68] [83] [82] [] [82]) fresh_db)"
    by (intro reachable.step [OF reachable_fresh_db]) (simp add: action_ok_def draws_ok_def dt_valid_def datetime_min_def)
  have s: "gui_session (gui_init False False False ((app_step (Send_package [0, 0] [0, 0, 0, 0, 0, 1] False (datetime_min\<lparr>dt_year := 2024\<rparr>) [68] [83] [82] [] [82]) fresh_db)\<lparr>tables_created := True\<rparr>), (app_step (Send_package [0, 0] [0, 0, 0, 0, 0, 1] False (datetime_min\<lparr>dt_year := 2024\<rparr>) [68] [83] [82] [] [82]) fresh_db)\<lparr>tables_created := True\<rparr>)"
    by (rule gui_session.launch [OF r, of False]) (simp add: initialize_db_def)
  have m: "hd (packages ((app_step (Send_package [0, 0] [0, 0, 0, 0, 0, 1] False (datetime_min\<lparr>dt_year := 2024\<rparr>) [68] [83] [82] [] [82]) fresh_db)\<lparr>tables_created := True\<rparr>)) \<in> set (packages ((app_step (Send_package [0, 0] [0, 0, 0, 0, 0, 1] False (datetime_min\<lparr>dt_year := 2024\<rparr>) [68] [83] [82] [] [82]) fresh_db)\<lparr>tables_created := True\<rparr>))"
    by (simp add: send_package_def create_package_def Let_def generate_tracking_number_def choices_def ascii_uppercase_def digits_def stmt_fails_def rowid_full_def last_rowid_def max_rowid_def)
  show ?thesis using s m gui_session_can_track_package [OF s m] by blast
qed

text \<open>C33. Every package of the file with a recipient address can be shown on the map:
  from any state of a session, refreshing the package list, clicking the package's line and
  pressing the show button opens the Yandex Maps search for the recipient address, provided
  the line holds neither placeholder text and the address URL-encodes.\<close>

theorem gui_session_can_show_package:
  assumes "gui_session (a, d)" "p \<in> set (packages d)"
    "\<not> py_contains marker_no_packages (package_line p)" "\<not> py_contains marker_unavailable (package_line p)"
    "py_quote (py_strip (pkg_recipient_address p)) = Inr q" "py_strip (pkg_recipient_address p) \<noteq> []"
  shows "\<exists>es. list_all event_ok es \<and> gui_session (fold gui_step es (a, d)) \<and>
           opened_urls (fst (fold gui_step es (a, d))) = opened_urls a @ [yandex_prefix @ q]"
proof -
  have ok: "db_inv d" "\<not> stmt_fails False d" "tracking_format (pkg_tracking_number p)"
    using stored_package_ok [OF assms(1,2), of False] by simp_all
  then have "p \<in> set (get_all_packages False d)" using assms(2) by (simp add: get_all_packages_def)
  then obtain k where k: "k < length (get_all_packages False d)" "get_all_packages False d ! k = p"
    by (auto simp: in_set_conv_nth)
  have ra: "pkg_recipient_address p \<noteq> []" using assms(6) by (auto simp: py_strip_Nil_iff)
  let ?a1 = "gui_refresh_packages_list False a d"
  let ?a2 = "?a1\<lparr>packages_selection := [k]\<rparr>"
  let ?es = "[Press_refresh_packages False, Input (Select_package k), Press_show_selected False Browser_opened]"
  have lb: "k < length (packages_listbox ?a2)" "packages_listbox ?a2 ! k = package_line p"
    using k by (auto simp: gui_refresh_packages_list_def Let_def)
  have run: "fold gui_step ?es (a, d) = (gui_show_selected_address False Browser_opened ?a2 d, d)"
    using k by (auto simp: gui_refresh_packages_list_def Let_def)
  have sh: "gui_show_selected_address False Browser_opened ?a2 d =
                gui_search_address Browser_opened (?a2\<lparr>address_entry := pkg_recipient_address p\<rparr>)"
    using gui_show_package_line [OF ok(1,2) assms(2) ok(3) _ lb assms(3,4), of Browser_opened] ra by simp
  have urls: "opened_urls (gui_search_address Browser_opened (?a2\<lparr>address_entry := pkg_recipient_address p\<rparr>)) =
                opened_urls a @ [yandex_prefix @ q]"
    using assms(5,6) by (simp add: gui_search_address_def show_dialog_def gui_refresh_packages_list_def Let_def)
  have evs: "list_all event_ok ?es" by (simp add: event_ok_def)
  show ?thesis
    using evs gui_session_fold [OF assms(1) evs] run sh urls
    by (intro exI [of _ ?es]) simp
qed
theorem gui_session_can_show_package_witness:
  "gui_session (gui_init False False False ((app_step (Send_package [0, 0] [0, 0, 0, 0, 0, 1] False (datetime_min\<lparr>dt_year := 2024\<rparr>) [68] [83] [82] [] [82]) fresh_db)\<lparr>tables_created := True\<rparr>), (app_step (Send_package [0, 0] [0, 0, 0, 0, 0, 1] False (datetime_min\<lparr>dt_year := 2024\<rparr>) [68] [83] [82] [] [82]) fresh_db)\<lparr>tables_created := True\<rparr>) \<and> hd (packages ((app_step (Send_package [0, 0] [0, 0, 0, 0, 0, 1] False (datetime_min\<lparr>dt_year := 2024\<rparr>) [68] [83] [82] [] [82]) fresh_db)\<lparr>tables_created := True\<rparr>)) \<in> set (packages ((app_step (Send_package [0, 0] [0, 0, 0, 0, 0, 1] False (datetime_min\<lparr>dt_year := 2024\<rparr>) [68] [83] [82] [] [82]) fresh_db)\<lparr>tables_created := True\<rparr>)) \<and>
   \<not> py_contains marker_no_packages (package_line (hd (packages ((app_step (Send_package [0, 0] [0, 0, 0, 0, 0, 1] False (datetime_min\<lparr>dt_year := 2024\<rparr>) [68] [83] [82] [] [82]) fresh_db)\<lparr>tables_created := True\<rparr>)))) \<and> \<not> py_contains marker_unavailable (package_line (hd (packages ((app_step (Send_package [0, 0] [0, 0, 0, 0, 0, 1] False (datetime_min\<lparr>dt_year := 2024\<rparr>) [68] [83] [82] [] [82]) fresh_db)\<lparr>tables_created := True\<rparr>)))) \<and>
   py_quote (py_strip (pkg_recipient_address (hd (packages ((app_step (Send_package [0, 0] [0, 0, 0, 0, 0, 1] False (datetime_min\<lparr>dt_year := 2024\<rparr>) [68] [83] [82] [] [82]) fresh_db)\<lparr>tables_created := True\<rparr>))))) = Inr [82] \<and> py_strip (pkg_recipient_address (hd (packages ((app_step (Send_package [0, 0] [0, 0, 0, 0, 0, 1] False (datetime_min\<lparr>dt_year := 2024\<rparr>) [68] [83] [82] [] [82]) fresh_db)\<lparr>tables_created := True\<rparr>)))) \<noteq> [] \<and>
   (\<exists>es. list_all event_ok es \<and> gui_session (fold gui_step es (gui_init False False False ((app_step (Send_package [0, 0] [0, 0, 0, 0, 0, 1] False (datetime_min\<lparr>dt_year := 2024\<rparr>) [68] [83] [82] [] [82]) fresh_db)\<lparr>tables_created := True\<rparr>), (app_step (Send_package [0, 0] [0, 0, 0, 0, 0, 1] False (datetime_min\<lparr>dt_year := 2024\<rparr>) [68] [83] [82] [] [82]) fresh_db)\<lparr>tables_created := True\<rparr>)) \<and>
           opened_urls (fst (fold gui_step es (gui_init False False False ((app_step (Send_package [0, 0] [0, 0, 0, 0, 0, 1] False (datetime_min\<lparr>dt_year := 2024\<rparr>) [68] [83] [82] [] [82]) fresh_db)\<lparr>tables_created := True\<rparr>), (app_step (Send_package [0, 0] [0, 0, 0, 0, 0, 1] False (datetime_min\<lparr>dt_year := 2024\<rparr>) [68] [83] [82] [] [82]) fresh_db)\<lparr>tables_created := True\<rparr>))) = opened_urls (gui_init False False False ((app_step (Send_package [0, 0] [0, 0, 0, 0, 0, 1] False (datetime_min\<lparr>dt_year := 2024\<rparr>) [68] [83] [82] [] [82]) fresh_db)\<lparr>tables_created := True\<rparr>)) @ [yandex_prefix @ [82]])"
proof -
  have r: "reachable (app_step (Send_package [0, 0] [0, 0, 0, 0, 0, 1] False (datetime_min\<lparr>dt_year := 2024\<rparr>) [68] [83] [82] [] [82]) fresh_db)"
    by (intro reachable.step [OF reachable_fresh_db]) (simp add: action_ok_def draws_ok_def dt_valid_def datetime_min_def)
  have s: "gui_session (gui_init False False False ((app_step (Send_package [0, 0] [0, 0, 0, 0, 0, 1] False (datetime_min\<lparr>dt_year := 2024\<rparr>) [68] [83] [82] [] [82]) fresh_db)\<lparr>tables_created := True\<rparr>), (app_step (Send_package [0, 0] [0, 0, 0, 0, 0, 1] False (datetime_min\<lparr>dt_year := 2024\<rparr>) [68] [83] [82] [] [82]) fresh_db)\<lparr>tables_created := True\<rparr>)"
    by (rule gui_session.launch [OF r, of False]) (simp add: initialize_db_def)
  have m: "hd (packages ((app_step (Send_package [0, 0] [0, 0, 0, 0, 0, 1] False (datetime_min\<lparr>dt_year := 2024\<rparr>) [68] [83] [82] [] [82]) fresh_db)\<lparr>tables_created := True\<rparr>)) \<in> set (packages ((app_step (Send_package [0, 0] [0, 0, 0, 0, 0, 1] False (datetime_min\<lparr>dt_year := 2024\<rparr>) [68] [83] [82] [] [82]) fresh_db)\<lparr>tables_created := True\<rparr>))"
    by (simp add: send_package_def create_package_def Let_def generate_tracking_number_def choices_def ascii_uppercase_def digits_def stmt_fails_def rowid_full_def last_rowid_def max_rowid_def)
  have h: "\<not> py_contains marker_no_packages (package_line (hd (packages ((app_step (Send_package [0, 0] [0, 0, 0, 0, 0, 1] False (datetime_min\<lparr>dt_year := 2024\<rparr>) [68] [83] [82] [] [82]) fresh_db)\<lparr>tables_created := True\<rparr>))))" "\<not> py_contains marker_unavailable (package_line (hd (packages ((app_step (Send_package [0, 0] [0, 0, 0, 0, 0, 1] False (datetime_min\<lparr>dt_year := 2024\<rparr>) [68] [83] [82] [] [82]) fresh_db)\<lparr>tables_created := True\<rparr>))))"
    "py_quote (py_strip (pkg_recipient_address (hd (packages ((app_step (Send_package [0, 0] [0, 0, 0, 0, 0, 1] False (datetime_min\<lparr>dt_year := 2024\<rparr>) [68] [83] [82] [] [82]) fresh_db)\<lparr>tables_created := True\<rparr>))))) = Inr [82]" "py_strip (pkg_recipient_address (hd (packages ((app_step (Send_package [0, 0] [0, 0, 0, 0, 0, 1] False (datetime_min\<lparr>dt_year := 2024\<rparr>) [68] [83] [82] [] [82]) fresh_db)\<lparr>tables_created := True\<rparr>)))) \<noteq> []"
    by (simp_all add: send_package_def create_package_def Let_def generate_tracking_number_def choices_def ascii_uppercase_def digits_def stmt_fails_def rowid_full_def last_rowid_def max_rowid_def package_line_def marker_no_packages_def marker_unavailable_def py_contains_def
        pkg_prefix_def pkg_to_prefix_def ellipsis_def not_specified_m_def py_quote_def py_strip_def py_isspace_def asc_def upt_rec
        is_surrogate_def utf8_encode_def quote_byte_def url_safe_byte_def)
  show ?thesis using s m h gui_session_can_show_package [OF s m h] by blast
qed

text \<open>C40. In every GUI session, a selected line of the package list that is not a
  placeholder shows a package of the file, and "show on the map" (with a working store)
  searches that package's recipient address, else its sender address, or reports that it
  has none: the list may be older than the file, but never names a package the lookup
  cannot find.\<close>

theorem gui_session_show_selected:
  assumes "gui_session (a, d)" "packages_selection a = [k]"
    "\<not> py_contains marker_no_packages (packages_listbox a ! k)"
    "\<not> py_contains marker_unavailable (packages_listbox a ! k)"
  shows "\<exists>p. p \<in> set (packages d) \<and> packages_listbox a ! k = package_line p \<and>
           gui_show_selected_address False br a d =
             (if pkg_sender_address p \<noteq> [] \<or> pkg_recipient_address p \<noteq> []
              then gui_search_address br (a\<lparr>address_entry :=
                (if pkg_recipient_address p \<noteq> [] then pkg_recipient_address p else pkg_sender_address p)\<rparr>)
              else show_dialog (Show_info t_info g_no_addresses) a)"
proof -
  have view: "package_view_ok a d" using gui_session_package_view [OF assms(1)] by simp
  then have k: "k < length (packages_listbox a)" using assms(2) by (simp add: package_view_ok_def)
  then have "packages_listbox a ! k = g_no_packages \<or> (\<exists>p\<in>set (packages d). packages_listbox a ! k = package_line p)"
    using view by (auto simp: package_view_ok_def list_all_iff list_ex_iff)
  then obtain p where p: "p \<in> set (packages d)" "packages_listbox a ! k = package_line p"
    using assms(3) no_packages_marked by auto
  have ok: "db_inv d" "\<not> stmt_fails False d" "tracking_format (pkg_tracking_number p)"
    using stored_package_ok [OF assms(1) p(1), of False] by simp_all
  show ?thesis
    using p gui_show_package_line [OF ok(1,2) p(1) ok(3) assms(2) k p(2)] assms(3,4) by auto
qed
theorem gui_session_show_selected_witness:
  "gui_session (user_input (Select_package 0) (gui_init False False False ((app_step (Send_package [0, 0] [0, 0, 0, 0, 0, 1] False (datetime_min\<lparr>dt_year := 2024\<rparr>) [68] [83] [82] [] [82]) fresh_db)\<lparr>tables_created := True\<rparr>)), (app_step (Send_package [0, 0] [0, 0, 0, 0, 0, 1] False (datetime_min\<lparr>dt_year := 2024\<rparr>) [68] [83] [82] [] [82]) fresh_db)\<lparr>tables_created := True\<rparr>) \<and> packages_selection (user_input (Select_package 0) (gui_init False False False ((app_step (Send_package [0, 0] [0, 0, 0, 0, 0, 1] False (datetime_min\<lparr>dt_year := 2024\<rparr>) [68] [83] [82] [] [82]) fresh_db)\<lparr>tables_created := True\<rparr>))) = [0] \<and>
   \<not> py_contains marker_no_packages (packages_listbox (user_input (Select_package 0) (gui_init False False False ((app_step (Send_package [0, 0] [0, 0, 0, 0, 0, 1] False (datetime_min\<lparr>dt_year := 2024\<rparr>) [68] [83] [82] [] [82]) fresh_db)\<lparr>tables_created := True\<rparr>))) ! 0) \<and>
   \<not> py_contains marker_unavailable (packages_listbox (user_input (Select_package 0) (gui_init False False False ((app_step (Send_package [0, 0] [0, 0, 0, 0, 0, 1] False (datetime_min\<lparr>dt_year := 2024\<rparr>) [68] [83] [82] [] [82]) fresh_db)\<lparr>tables_created := True\<rparr>))) ! 0) \<and>
   (\<exists>p. p \<in> set (packages ((app_step (Send_package [0, 0] [0, 0, 0, 0, 0, 1] False (datetime_min\<lparr>dt_year := 2024\<rparr>) [68] [83] [82] [] [82]) fresh_db)\<lparr>tables_created := True\<rparr>)) \<and> packages_listbox (user_input (Select_package 0) (gui_init False False False ((app_step (Send_package [0, 0] [0, 0, 0, 0, 0, 1] False (datetime_min\<lparr>dt_year := 2024\<rparr>) [68] [83] [82] [] [82]) fresh_db)\<lparr>tables_created := True\<rparr>))) ! 0 = package_line p \<and>
      gui_show_selected_address False Browser_opened (user_input (Select_package 0) (gui_init False False False ((app_step (Send_package [0, 0] [0, 0, 0, 0, 0, 1] False (datetime_min\<lparr>dt_year := 2024\<rparr>) [68] [83] [82] [] [82]) fresh_db)\<lparr>tables_created := True\<rparr>))) ((app_step (Send_package [0, 0] [0, 0, 0, 0, 0, 1] False (datetime_min\<lparr>dt_year := 2024\<rparr>) [68] [83] [82] [] [82]) fresh_db)\<lparr>tables_created := True\<rparr>) =
        (if pkg_sender_address p \<noteq> [] \<or> pkg_recipient_address p \<noteq> []
         then gui_search_address Browser_opened ((user_input (Select_package 0) (gui_init False False False ((app_step (Send_package [0, 0] [0, 0, 0, 0, 0, 1] False (datetime_min\<lparr>dt_year := 2024\<rparr>) [68] [83] [82] [] [82]) fresh_db)\<lparr>tables_created := True\<rparr>)))\<lparr>address_entry :=
           (if pkg_recipient_address p \<noteq> [] then pkg_recipient_address p else pkg_sender_address p)\<rparr>)
         else show_dialog (Show_info t_info g_no_addresses) (user_input (Select_package 0) (gui_init False False False ((app_step (Send_package [0, 0] [0, 0, 0, 0, 0, 1] False (datetime_min\<lparr>dt_year := 2024\<rparr>) [68] [83] [82] [] [82]) fresh_db)\<lparr>tables_created := True\<rparr>)))))"
proof -
  have r: "reachable (app_step (Send_package [0, 0] [0, 0, 0, 0, 0, 1] False (datetime_min\<lparr>dt_year := 2024\<rparr>) [68] [83] [82] [] [82]) fresh_db)"
    by (intro reachable.step [OF reachable_fresh_db]) (simp add: action_ok_def draws_ok_def dt_valid_def datetime_min_def)
  have s0: "gui_session (gui_init False False False ((app_step (Send_package [0, 0] [0, 0, 0, 0, 0, 1] False (datetime_min\<lparr>dt_year := 2024\<rparr>) [68] [83] [82] [] [82]) fresh_db)\<lparr>tables_created := True\<rparr>), (app_step (Send_package [0, 0] [0, 0, 0, 0, 0, 1] False (datetime_min\<lparr>dt_year := 2024\<rparr>) [68] [83] [82] [] [82]) fresh_db)\<lparr>tables_created := True\<rparr>)"
    by (rule gui_session.launch [OF r, of False]) (simp add: initialize_db_def)
  have s: "gui_session (user_input (Select_package 0) (gui_init False False False ((app_step (Send_package [0, 0] [0, 0, 0, 0, 0, 1] False (datetime_min\<lparr>dt_year := 2024\<rparr>) [68] [83] [82] [] [82]) fresh_db)\<lparr>tables_created := True\<rparr>)), (app_step (Send_package [0, 0] [0, 0, 0, 0, 0, 1] False (datetime_min\<lparr>dt_year := 2024\<rparr>) [68] [83] [82] [] [82]) fresh_db)\<lparr>tables_created := True\<rparr>)"
    using gui_session.event [OF s0, of "Input (Select_package 0)"] by (simp add: event_ok_def)
  have h: "packages_selection (user_input (Select_package 0) (gui_init False False False ((app_step (Send_package [0, 0] [0, 0, 0, 0, 0, 1] False (datetime_min\<lparr>dt_year := 2024\<rparr>) [68] [83] [82] [] [82]) fresh_db)\<lparr>tables_created := True\<rparr>))) = [0]"
    "\<not> py_contains marker_no_packages (packages_listbox (user_input (Select_package 0) (gui_init False False False ((app_step (Send_package [0, 0] [0, 0, 0, 0, 0, 1] False (datetime_min\<lparr>dt_year := 2024\<rparr>) [68] [83] [82] [] [82]) fresh_db)\<lparr>tables_created := True\<rparr>))) ! 0)"
    "\<not> py_contains marker_unavailable (packages_listbox (user_input (Select_package 0) (gui_init False False False ((app_step (Send_package [0, 0] [0, 0, 0, 0, 0, 1] False (datetime_min\<lparr>dt_year := 2024\<rparr>) [68] [83] [82] [] [82]) fresh_db)\<lparr>tables_created := True\<rparr>))) ! 0)"
    by (simp_all add: send_package_def create_package_def Let_def generate_tracking_number_def choices_def ascii_uppercase_def digits_def stmt_fails_def rowid_full_def last_rowid_def max_rowid_def gui_init_defs refresh_couriers_def refresh_reviews_def gui_refresh_packages_list_def get_all_packages_def get_couriers_def get_all_couriers_def get_reviews_def get_all_reviews_def package_line_def marker_no_packages_def marker_unavailable_def py_contains_def
        pkg_prefix_def pkg_to_prefix_def ellipsis_def not_specified_m_def asc_def upt_rec)
  show ?thesis using s h gui_session_show_selected [OF s h] by blast
qed

end
