(* ===== verification/Main_Loop.thy ===== *)
theory Main_Loop
  imports Prelude Store Gui App Session "HOL-Library.Stream"
begin

text \<open>
  The run of \<open>main.py\<close>: \<open>initialize_db()\<close>, the window of
  \<open>DeliveryServiceApp\<close>, and \<open>root.mainloop()\<close>, which dispatches events until the
  File menu's Exit item calls \<open>root.quit\<close> or the window manager closes the window
  (Tk's default \<open>WM_DELETE_WINDOW\<close> handler destroys the root window, which also ends
  the loop). The events the loop will receive are a stream, so that a user who never
  does either is a run that does not return: \<open>tk_mainloop\<close> is a
  \<open>partial_function (option)\<close> whose value \<open>None\<close> is that run. The lemmas say when
  the loop returns and that the state it returns in is a state of a session
  (\<open>Session.gui_session\<close>).
\<close>

text \<open>What the loop reads: an event for the window, Exit (\<open>command=self.root.quit\<close>),
  or the window manager's close button.\<close>

datatype loop_event = Event gui_event | Menu_exit | Window_close

fun ends_loop :: "loop_event \<Rightarrow> bool" where
  "ends_loop (Event e) = False"
| "ends_loop Menu_exit = True"
| "ends_loop Window_close = True"

fun loop_step :: "loop_event \<Rightarrow> app \<times> db \<Rightarrow> app \<times> db" where
  "loop_step (Event e) s = gui_step e s"
| "loop_step Menu_exit s = s"
| "loop_step Window_close s = s"

partial_function (option) tk_mainloop :: "loop_event stream \<Rightarrow> app \<times> db \<Rightarrow> (app \<times> db) option" where
  "tk_mainloop es s =
     (case shd es of
        Event e \<Rightarrow> tk_mainloop (stl es) (gui_step e s)
      | Menu_exit \<Rightarrow> Some s
      | Window_close \<Rightarrow> Some s)"

text \<open>\<open>main()\<close> either fails in \<open>initialize_db\<close> (its exceptions are not caught) or
  returns when the loop does.\<close>

datatype main_outcome = Init_failed | Quit "app \<times> db"

definition run_main :: "bool \<Rightarrow> bool \<Rightarrow> bool \<Rightarrow> bool \<Rightarrow> db \<Rightarrow> loop_event stream \<Rightarrow> main_outcome option" where
  "run_main f f1 f2 f3 d es =
     (case initialize_db f d of
        None \<Rightarrow> Some Init_failed
      | Some d' \<Rightarrow> map_option Quit (tk_mainloop es (gui_init f1 f2 f3 d', d')))"

subsection \<open>Lemmas\<close>

lemma tk_mainloop_first_exit:
  "ends_loop (es !! n) \<Longrightarrow> \<forall>i<n. \<not> ends_loop (es !! i) \<Longrightarrow>
   tk_mainloop es s = Some (fold loop_step (stake n es) s)"
proof (induction n arbitrary: es s)
  case 0
  then show ?case by (subst tk_mainloop.simps) (cases "shd es"; simp)
next
  case (Suc n)
  have "\<not> ends_loop (shd es)" using Suc.prems(2) by (metis snth.simps(1) zero_less_Suc)
  then obtain e where e: "shd es = Event e" by (cases "shd es") auto
  have "ends_loop (stl es !! n)" "\<forall>i<n. \<not> ends_loop (stl es !! i)"
    using Suc.prems by (simp_all flip: snth.simps(2))
  then have "tk_mainloop (stl es) (gui_step e s) = Some (fold loop_step (stake n (stl es)) (gui_step e s))"
    by (rule Suc.IH)
  moreover have "tk_mainloop es s = tk_mainloop (stl es) (gui_step e s)"
    using e by (subst tk_mainloop.simps) simp
  moreover have "stake (Suc n) es = Event e # stake n (stl es)" using e by simp
  ultimately show ?case by simp
qed

lemma tk_mainloop_exit_seen:
  assumes "tk_mainloop es s = Some s'"
  shows "\<exists>n. ends_loop (es !! n)"
proof (rule tk_mainloop.raw_induct [where P = "\<lambda>es s s'. \<exists>n. ends_loop (es !! n)", OF _ assms])
  fix f es s s'
  assume IH: "\<And>es s s'. f es s = Some s' \<Longrightarrow> \<exists>n. ends_loop (es !! n)"
    and eq: "(case shd es of Event e \<Rightarrow> f (stl es) (gui_step e s) | Menu_exit \<Rightarrow> Some s
              | Window_close \<Rightarrow> Some s) = Some s'"
  show "\<exists>n. ends_loop (es !! n)"
  proof (cases "shd es")
    case (Event e)
    then obtain n where "ends_loop (stl es !! n)" using eq IH by fastforce
    then show ?thesis by (metis snth.simps(2))
  qed (metis ends_loop.simps(2,3) snth.simps(1))+
qed

lemma tk_mainloop_session:
  assumes "tk_mainloop es s = Some s'" "gui_session s" "sset es \<subseteq> Event ` Collect event_ok \<union> {Menu_exit, Window_close}"
  shows "gui_session s'"
proof -
  have "gui_session s \<longrightarrow> sset es \<subseteq> Event ` Collect event_ok \<union> {Menu_exit, Window_close} \<longrightarrow> gui_session s'"
  proof (rule tk_mainloop.raw_induct [where P = "\<lambda>es s s'. gui_session s \<longrightarrow>
      sset es \<subseteq> Event ` Collect event_ok \<union> {Menu_exit, Window_close} \<longrightarrow> gui_session s'", OF _ assms(1)])
    fix f es s s'
    assume IH: "\<And>es s s'. f es s = Some s' \<Longrightarrow> gui_session s \<longrightarrow>
        sset es \<subseteq> Event ` Collect event_ok \<union> {Menu_exit, Window_close} \<longrightarrow> gui_session s'"
      and eq: "(case shd es of Event e \<Rightarrow> f (stl es) (gui_step e s) | Menu_exit \<Rightarrow> Some s
                | Window_close \<Rightarrow> Some s) = Some s'"
    show "gui_session s \<longrightarrow> sset es \<subseteq> Event ` Collect event_ok \<union> {Menu_exit, Window_close} \<longrightarrow> gui_session s'"
    proof (intro impI)
      assume s: "gui_session s" and ok: "sset es \<subseteq> Event ` Collect event_ok \<union> {Menu_exit, Window_close}"
      show "gui_session s'"
      proof (cases "shd es")
        case (Event e)
        then have "Event e \<in> sset es" by (metis shd_sset)
        then have "event_ok e" using ok by auto
        then have "gui_session (gui_step e s)" using gui_session.event [OF s] by blast
        moreover have "sset (stl es) \<subseteq> Event ` Collect event_ok \<union> {Menu_exit, Window_close}"
          using ok by (auto dest: stl_sset)
        moreover have "f (stl es) (gui_step e s) = Some s'" using eq Event by simp
        ultimately show ?thesis using IH [of "stl es" "gui_step e s" s'] by blast
      qed (use eq s in simp_all)
    qed
  qed
  then show ?thesis using assms(2,3) by blast
qed

lemma tk_mainloop_returns:
  "tk_mainloop es s =
     (if \<exists>n. ends_loop (es !! n) then Some (fold loop_step (stake (LEAST n. ends_loop (es !! n)) es) s) else None)"
proof (cases "\<exists>n. ends_loop (es !! n)")
  case True
  then have "ends_loop (es !! (LEAST n. ends_loop (es !! n)))" "\<forall>i<(LEAST n. ends_loop (es !! n)). \<not> ends_loop (es !! i)"
    by (auto intro: LeastI_ex dest: not_less_Least)
  then show ?thesis using True tk_mainloop_first_exit by simp
next
  case False
  then show ?thesis using tk_mainloop_exit_seen by (cases "tk_mainloop es s") auto
qed

subsection \<open>Properties\<close>

text \<open>C28. \<open>main()\<close> is totally correct with respect to the file it leaves: it returns
  exactly when \<open>initialize_db\<close> raises or the user ends the event loop (File \<rightarrow> Exit or
  closing the window), and runs forever otherwise; when the loop ends, the window and
  file are a state of a GUI session and the file is one the program can produce, so
  every invariant of \<open>App.reachable\<close> holds at the next start.\<close>

theorem main_returns_iff_quit:
  assumes "reachable d" "sset es \<subseteq> Event ` Collect event_ok \<union> {Menu_exit, Window_close}"
  shows "(case run_main f f1 f2 f3 d es of
            None \<Rightarrow> \<not> f \<and> (\<forall>n. \<not> ends_loop (es !! n))
          | Some Init_failed \<Rightarrow> f
          | Some (Quit s) \<Rightarrow> \<not> f \<and> (\<exists>n. ends_loop (es !! n)) \<and> gui_session s \<and> reachable (snd s))"
proof (cases f)
  case True
  then show ?thesis by (simp add: run_main_def initialize_db_def)
next
  case False
  let ?d = "d\<lparr>tables_created := True\<rparr>"
  have init: "initialize_db f d = Some ?d" using False by (simp add: initialize_db_def)
  have s0: "gui_session (gui_init f1 f2 f3 ?d, ?d)" using gui_session.launch [OF assms(1) init] .
  show ?thesis
  proof (cases "tk_mainloop es (gui_init f1 f2 f3 ?d, ?d)")
    case None
    then have "\<forall>n. \<not> ends_loop (es !! n)" using tk_mainloop_returns [of es] by (auto split: if_splits)
    then show ?thesis using None False init by (simp add: run_main_def)
  next
    case (Some s)
    have ses: "gui_session s" using tk_mainloop_session [OF Some s0 assms(2)] .
    have "reachable (snd s)" using gui_session_inv [of s] ses by simp
    moreover have "\<exists>n. ends_loop (es !! n)" using tk_mainloop_exit_seen [OF Some] .
    ultimately show ?thesis using Some False init ses by (simp add: run_main_def)
  qed
qed

theorem main_returns_iff_quit_witness:
  "reachable empty_db \<and> sset (sconst Menu_exit) \<subseteq> Event ` Collect event_ok \<union> {Menu_exit, Window_close} \<and>
   run_main False False False False empty_db (sconst Menu_exit) =
     Some (Quit (gui_init False False False (empty_db\<lparr>tables_created := True\<rparr>), empty_db\<lparr>tables_created := True\<rparr>)) \<and>
   (case run_main False False False False empty_db (sconst Menu_exit) of
      None \<Rightarrow> \<not> False \<and> (\<forall>n. \<not> ends_loop (sconst Menu_exit !! n))
    | Some Init_failed \<Rightarrow> False
    | Some (Quit s) \<Rightarrow> \<not> False \<and> (\<exists>n. ends_loop (sconst Menu_exit !! n)) \<and> gui_session s \<and> reachable (snd s))"
proof -
  have r: "reachable empty_db" by (rule reachable.new_file)
  have e: "sset (sconst Menu_exit) \<subseteq> Event ` Collect event_ok \<union> {Menu_exit, Window_close}" by simp
  have run: "run_main False False False False empty_db (sconst Menu_exit) =
     Some (Quit (gui_init False False False (empty_db\<lparr>tables_created := True\<rparr>), empty_db\<lparr>tables_created := True\<rparr>))"
    by (simp add: run_main_def initialize_db_def) (subst tk_mainloop.simps, simp)
  show ?thesis using r e run main_returns_iff_quit [OF r e, of False False False False] by simp
qed

end
