(* ===== verification/Style.thy ===== *)
theory Style
  imports Prelude "HOL-Library.AList"
begin

text \<open>
  The styling part of gui.py: the colour scheme \<open>COLORS\<close>, a model of the ttk style
  database (\<open>configure\<close>, \<open>map\<close>, inheritance by dotted names, and the lookup a
  widget performs), and \<open>setup_styles\<close> as the sequence of its calls. It is a model
  only: what a widget ends up showing also depends on the theme's own settings and state
  maps, which the program does not fix, so no property of the program is stated here.
\<close>

text \<open>\<open>COLORS\<close> of gui.py, the colour scheme (a dict, kept in its key order).\<close>

definition COLORS :: "(str \<times> str) list" where
  "COLORS =
     [(asc ''dark_red'', asc ''#8B0000''), (asc ''red'', asc ''#B22222''),
      (asc ''light_red'', asc ''#CD5C5C''), (asc ''bg_color'', asc ''#FFEBEE''),
      (asc ''text_color'', asc ''#2E0000''), (asc ''button_bg'', asc ''#C62828''),
      (asc ''button_fg'', asc ''#FFFFFF'')]"

text \<open>\<open>COLORS[k]\<close> for the keys the program uses (all present).\<close>

definition colour :: "string \<Rightarrow> str" where
  "colour k = the (map_of COLORS (asc k))"

text \<open>The option values \<open>setup_styles\<close> passes: colours, font tuples
  \<open>(family, size, *modifiers)\<close> and padding lists.\<close>

datatype style_val = Colour str | Font str nat "str list" | Padding "nat list"

text \<open>The ttk style database (Tk library code, modelled from the documented behaviour of
  \<open>ttk::style\<close>): per style name, its static settings (\<open>configure\<close>) and its dynamic
  state maps (\<open>map\<close>), each option to a list of (state spec, value).\<close>

text \<open>A state spec of \<open>ttk::style map\<close>: flags, each possibly negated (\<open>!disabled\<close>);
  the empty spec matches every state.\<close>

type_synonym state_spec = "(bool \<times> str) list"

record ttk_style =
  st_conf :: "(str \<times> (str \<times> style_val) list) list"
  st_map :: "(str \<times> (str \<times> (state_spec \<times> style_val) list) list) list"

definition style_configure :: "str \<Rightarrow> (str \<times> style_val) list \<Rightarrow> ttk_style \<Rightarrow> ttk_style" where
  "style_configure name opts st =
     st\<lparr>st_conf := AList.update name
        (fold (\<lambda>(k, v). AList.update k v) opts (case map_of (st_conf st) name of None \<Rightarrow> [] | Some cur \<Rightarrow> cur))
        (st_conf st)\<rparr>"

definition style_map :: "str \<Rightarrow> (str \<times> (state_spec \<times> style_val) list) list \<Rightarrow> ttk_style \<Rightarrow> ttk_style" where
  "style_map name specs st =
     st\<lparr>st_map := AList.update name
        (fold (\<lambda>(k, v). AList.update k v) specs (case map_of (st_map st) name of None \<Rightarrow> [] | Some cur \<Rightarrow> cur))
        (st_map st)\<rparr>"

text \<open>A style \<open>A.B\<close> inherits from \<open>B\<close>, and every style from the root style
  \<open>"."\<close>; \<open>style_chain\<close> lists a style and its ancestors.\<close>

definition style_parent :: "str \<Rightarrow> str option" where
  "style_parent s =
     (if s = asc ''.'' then None
      else let p = drop 1 (dropWhile (\<lambda>c. c \<noteq> 46) s) in
           Some (if 46 \<in> set s \<and> p \<noteq> [] then p else asc ''.''))"

function style_chain :: "str \<Rightarrow> str list" where
  "style_chain s = s # (case style_parent s of None \<Rightarrow> [] | Some p \<Rightarrow> style_chain p)"
  by pat_completeness auto
termination
proof (relation "measure (\<lambda>s. if s = asc ''.'' then 0 else Suc (length s))")
  fix s p
  assume "style_parent s = Some p"
  moreover have "length (dropWhile (\<lambda>c. c \<noteq> 46) s) \<le> length s" by (rule length_dropWhile_le)
  moreover have "46 \<in> set s \<Longrightarrow> 0 < length s" by (cases s) auto
  ultimately show "(p, s) \<in> measure (\<lambda>s. if s = asc ''.'' then 0 else Suc (length s))"
    by (auto simp: style_parent_def Let_def asc_def split: if_splits)
qed simp

text \<open>The value of an option for a widget in a given state: the state maps of the style
  and its ancestors first (the first spec the state matches), then the static
  settings along the same chain (\<open>Ttk_QueryStyle\<close>); \<open>None\<close> leaves the option to
  the element's default.\<close>

definition state_matches :: "state_spec \<Rightarrow> str list \<Rightarrow> bool" where
  "state_matches spec state \<longleftrightarrow>
     list_all (\<lambda>(negated, flag). if negated then flag \<notin> set state else flag \<in> set state) spec"

definition state_lookup :: "(state_spec \<times> style_val) list \<Rightarrow> str list \<Rightarrow> style_val option" where
  "state_lookup specs state = map_option snd (find (\<lambda>(spec, v). state_matches spec state) specs)"

definition style_lookup :: "ttk_style \<Rightarrow> str \<Rightarrow> str \<Rightarrow> str list \<Rightarrow> style_val option" where
  "style_lookup st name opt state =
     (case List.map_filter (\<lambda>s. Option.bind (map_of (st_map st) s) (\<lambda>m. Option.bind (map_of m opt) (\<lambda>specs. state_lookup specs state)))
             (style_chain name) of
        v # _ \<Rightarrow> Some v
      | [] \<Rightarrow> (case List.map_filter (\<lambda>s. Option.bind (map_of (st_conf st) s) (\<lambda>c. map_of c opt)) (style_chain name) of
                 v # _ \<Rightarrow> Some v
               | [] \<Rightarrow> None))"

text \<open>\<open>DeliveryServiceApp.setup_styles\<close>: the calls in their order, from whatever the
  current theme has configured.\<close>

definition setup_styles :: "ttk_style \<Rightarrow> ttk_style" where
  "setup_styles st =
     (let st = style_configure (asc ''TFrame'') [(asc ''background'', Colour (colour ''bg_color''))] st;
          st = style_configure (asc ''TLabel'') [(asc ''background'', Colour (colour ''bg_color'')),
                 (asc ''foreground'', Colour (colour ''text_color'')), (asc ''font'', Font (asc ''Arial'') 10 [])] st;
          st = style_configure (asc ''TEntry'') [(asc ''background'', Colour (colour ''bg_color'')),
                 (asc ''foreground'', Colour (colour ''text_color''))] st;
          st = style_configure (asc ''TButton'') [(asc ''background'', Colour (colour ''button_bg'')),
                 (asc ''foreground'', Colour (colour ''button_fg'')), (asc ''font'', Font (asc ''Arial'') 10 [asc ''bold''])] st;
          st = style_configure (asc ''Heading.TLabel'') [(asc ''font'', Font (asc ''Arial'') 16 [asc ''bold'']),
                 (asc ''foreground'', Colour (colour ''dark_red'')), (asc ''background'', Colour (colour ''bg_color''))] st;
          st = style_configure (asc ''Subheading.TLabel'') [(asc ''font'', Font (asc ''Arial'') 12 [asc ''bold'']),
                 (asc ''foreground'', Colour (colour ''red'')), (asc ''background'', Colour (colour ''bg_color''))] st;
          st = style_configure (asc ''TNotebook'') [(asc ''background'', Colour (colour ''bg_color''))] st;
          st = style_configure (asc ''TNotebook.Tab'') [(asc ''font'', Font (asc ''Arial'') 10 [asc ''bold'']),
                 (asc ''padding'', Padding [10, 4]), (asc ''background'', Colour (colour ''light_red'')),
                 (asc ''foreground'', Colour (colour ''text_color''))] st
      in style_map (asc ''TNotebook.Tab'') [(asc ''background'', [([(False, asc ''selected'')], Colour (colour ''dark_red''))]),
           (asc ''foreground'', [([(False, asc ''selected'')], Colour (asc ''white''))])] st)"

end
