(* ===== verification/Spec2Isabelle.thy ===== *)
theory Spec2Isabelle
  imports Prelude Pystr Timestamp Tracking Store Service Gui_Text Gui App Session Main_Loop Style
begin

text \<open>
  \<^bold>\<open>A verification development of the delivery-service application
  (src/ServiceTracking111).\<close>

  \<^bold>\<open>The program.\<close> \<open>main.py\<close> calls \<open>initialize_db\<close> and then runs the Tk
  window of \<open>gui.py\<close>. Each button handler of the window reads its form fields,
  strips them, and calls one function of \<open>package_service.py\<close> (the service),
  which validates the input, generates tracking numbers, and calls one function of
  \<open>database.py\<close> (the store). Each store function runs one SQL statement on
  \<open>delivery_service.db\<close> in its own connection and turns every exception into
  \<open>False\<close>, \<open>None\<close> or \<open>[]\<close>. Everything runs on the single UI thread, so the
  program's behaviour is a sequence of such calls.

  \<^bold>\<open>Theories and what they model.\<close>
  \<^item> \<open>Prelude\<close>: Python strings as lists of code points (\<open>str\<close>), shared
    lemmas on lists and options, and the collections \<open>store_ops\<close> and
    \<open>service_ops\<close> of operation definitions.
  \<^item> \<open>Pystr\<close>: the parts of Python's \<open>str\<close> and \<open>urllib\<close> the handlers call,
    modelled from CPython's documented behaviour: \<open>isspace\<close>, \<open>strip\<close>,
    \<open>split(sep)\<close>, \<open>split()\<close>, \<open>replace\<close>, \<open>in\<close>, \<open>int()\<close> (with its
    \<open>ValueError\<close>), indexing (with its \<open>IndexError\<close>), \<open>str(n)\<close> and
    \<open>urllib.parse.quote\<close> (UTF-8, percent escapes, \<open>UnicodeEncodeError\<close> on
    surrogates).
  \<^item> \<open>Timestamp\<close>: \<open>datetime\<close> as a record and the default \<open>sqlite3\<close> adapter
    (\<open>isoformat(" ")\<close>) that turns \<open>datetime.now()\<close> into the stored
    \<open>created_at\<close> text. Library code, modelled from CPython's behaviour; the
    decoder \<open>parse_stamp\<close>/\<open>stamp_ok\<close> (\<open>fromisoformat\<close>) is a tool of the proofs
    (no code of the program decodes timestamps), used to state that stored texts are
    datetimes and that their text order is the datetime order.
  \<^item> \<open>Tracking\<close>: \<open>generate_tracking_number\<close> (package_service.py), with the
    outcome of \<open>random.choices\<close> passed in as the list of drawn indices.
  \<^item> \<open>Store\<close>: the three tables as records (\<open>package_row\<close>, \<open>courier_row\<close>,
    \<open>review_row\<close>), the file as the record \<open>db\<close> (tables created or not, rows in
    rowid order, \<open>sqlite_sequence\<close> counters), and one definition per function
    of database.py, each returning its result with the new \<open>db\<close>. The
    \<open>UNIQUE\<close> constraint, \<open>AUTOINCREMENT\<close> (including \<open>SQLITE_FULL\<close> at the
    largest rowid), \<open>ORDER BY\<close> and the \<open>rowcount\<close> tests are written out.
    Environmental failures are an input \<open>fault\<close>; a missing table fails the same
    way. \<open>store_call\<close> and \<open>store_effect\<close> collect the writes.
  \<^item> \<open>Service\<close>: one definition per function of package_service.py; the
    \<open>(success, payload)\<close> pairs are sums \<open>str + 'a\<close>, the Russian messages
    code-point constants.
  \<^item> \<open>Gui_Text\<close>: every message, label and format literal of gui.py, as code
    points with an English gloss.
  \<^item> \<open>Gui\<close>: the window of \<open>DeliveryServiceApp\<close> as the record \<open>app\<close> (widget
    contents, list selections, the message boxes shown, the URLs opened), its
    initial state \<open>gui_init\<close> (\<open>__init__\<close>), one definition per handler
    (\<open>gui_send_package\<close>, \<open>gui_track_package\<close>, \<open>gui_add_review\<close>,
    \<open>refresh_reviews\<close>, \<open>gui_add_courier\<close>, \<open>refresh_couriers\<close>,
    \<open>gui_delete_courier\<close>, \<open>gui_search_address\<close>, \<open>gui_refresh_packages_list\<close>,
    \<open>gui_show_selected_address\<close>, \<open>gui_show_about\<close>) and the list-line formats
    (\<open>courier_line\<close>, \<open>review_line\<close>, \<open>package_line\<close>). User input (typing,
    choosing a rating in the read-only combo box, clicking a list line) is
    \<open>user_input\<close>; \<open>gui_step\<close> runs one event of the Tk loop. The environment
    of a handler (store faults, clock, random draws, the answer to the
    confirmation, the browser's outcome) is an argument.
  \<^item> \<open>App\<close>: the application at the level of the service. \<open>action\<close> lists what
    a user can trigger through the service, \<open>app_step\<close> its effect on the file,
    \<open>action_ok\<close> what the environment guarantees (random draws index their
    populations, the clock gives valid datetimes), and \<open>reachable\<close> the files the
    program can produce from a new one, with \<open>initialize_db\<close> at every start of
    \<open>main\<close>; \<open>rows_ok\<close> is the shape of the rows such files hold.
  \<^item> \<open>Session\<close>: the concrete counterpart. \<open>user_input\<close> and \<open>gui_event\<close>
    are what the user does, \<open>gui_step\<close> one event of the Tk loop, \<open>event_ok\<close>
    the environment's guarantees, and \<open>gui_session\<close> the pairs of window and file
    a run of \<open>main\<close> reaches: a reachable file, \<open>initialize_db\<close>, the window of
    \<open>gui_init\<close> (built by the \<open>setup_*_frame\<close> definitions of \<open>Gui\<close>), then
    any sequence of events; \<open>courier_view_ok\<close> and \<open>package_view_ok\<close> are the
    session invariants of the two list boxes.
  \<^item> \<open>Main_Loop\<close>: \<open>main()\<close> as a whole (\<open>run_main\<close>): \<open>initialize_db\<close>,
    the window, and \<open>root.mainloop()\<close> as \<open>tk_mainloop\<close>, a \<open>partial_function
    (option)\<close> over the stream of events the user produces (\<open>loop_event\<close>: a
    \<open>gui_event\<close>, the File menu's Exit, which calls \<open>root.quit\<close>, or the window
    manager's close, whose default handler destroys the root window). \<open>None\<close> is a
    run that never returns.
  \<^item> \<open>Style\<close>: \<open>COLORS\<close> and \<open>setup_styles\<close>, over a model of the ttk style
    database (Tk library code, modelled from its documented behaviour:
    \<open>configure\<close> merges options, \<open>map\<close> sets per-state values under state specs
    with negated and empty specs, a style \<open>A.B\<close> inherits from \<open>B\<close> and every style
    from \<open>"."\<close>, and a widget's lookup tries the state maps along that chain before
    the static settings). No property is stated: what a widget shows also depends on
    the theme's own settings and state maps, which the program does not fix.
  \<^item> This theory: the header, and the properties spanning the window and the file.

  \<^bold>\<open>What is proved.\<close> Tracking: the generator's outputs are exactly the strings
  matching \<open>[A-Z]{2}-[0-9]{6}\<close>, it is injective in its draws, and it has
  676,000,000 outputs. Store: an invariant (unique tracking numbers, increasing
  rowids bounded by \<open>sqlite_sequence\<close>) that every write keeps; courier ids are never
  reused; the status update's effect. Service: every branch of \<open>send_package\<close>,
  \<open>add_review\<close>, \<open>remove_courier\<close> (validation failures write nothing, collisions
  are reported and not retried, a sent package reads back unchanged). GUI: the send
  handler refines \<open>send_package\<close> on the stripped fields, refuses blank ones, and on a
  store failure reports it and keeps the form with the file unchanged; a courier or
  review added through the window appears in its refreshed list, and the courier id
  read back from a list line is the courier's id, so deleting the selected courier
  removes exactly it, and answering "No" deletes nothing; a whitespace-only courier
  name is stopped only by the window's strip; tracking a sent package shows it with its
  date to the second; the package selected for the map is the package of its line,
  except that an address containing a placeholder word blocks it; the map URL is the
  prefix and \<open>quote\<close> of the stripped address; the search reports success without a
  browser. Application: in every reachable file tracking numbers are unique and of the
  documented shape, every rating lies in 1..5, every \<open>created_at\<close> has the shape
  \<open>YYYY-MM-DD HH:MM:SS[.ffffff]\<close>, the review and package listings are newest first
  by the datetimes their timestamps decode to (the adapter's text order is the datetime
  order), and every review line shows one to five stars. Sessions: every GUI session
  works on a reachable file (a refinement, by rule induction on the session), its
  rating variable always reads as 1..5 so the add-review handler never shows the range
  error, a selected courier line always shows a courier of the file so a confirmed
  deletion removes exactly it, a selected package line always shows a package of the
  file so "show on the map" never fails to find it (the list may be older than the
  file, but packages are never deleted), and, by some sequence of user events from any
  state (liveness), every courier can be deleted, every package can be tracked with
  its date read back, and every package with a recipient address can be shown on the
  map. Main program: \<open>main()\<close> returns exactly when \<open>initialize_db\<close> raises or the
  user ends the Tk loop (Exit or closing the window), and runs forever otherwise; when
  the loop ends, window and file are a session state and the file is reachable, so the
  invariants above hold at the next start (total correctness: termination by
  induction on the position of the first ending event and by the fixpoint induction of
  the partial function, the state by the session invariant).

  \<^bold>\<open>Bounds and inputs.\<close> No fuel is needed. The one loop that may run forever is
  the Tk event loop; it is a \<open>partial_function (option)\<close> over an event stream, and
  its termination theorem says exactly when it returns. The other loops are
  \<open>for\<close> loops over finite query results and strings; the string functions of
  \<open>Pystr\<close> and the style chain of \<open>Style\<close> are \<open>function\<close>s whose termination is
  proved by a measure on the string. The
  rowid bound is SQLite's \<open>2^63 - 1\<close>; theorems that need a successful insert
  assume the counter has not reached it. Randomness, the clock, faults and the
  browser are inputs, so every theorem holds for all their values.

  \<^bold>\<open>Not modelled.\<close> Layout (the \<open>pack\<close>/\<open>grid\<close> options of the
  \<open>setup_*_frame\<close> methods, the window's title, size and minimum size) and the
  \<open>bg\<close>/\<open>fg\<close>/\<open>font\<close> options of the classic \<open>tk\<close> widgets (buttons, label
  frames, list boxes): nothing the program reads back; the
  \<open>print\<close> calls in exception handlers; connection leaks on \<open>IntegrityError\<close>
  (recorded as a finding); \<open>sqlite3\<close>'s refusal to bind text holding lone
  surrogates (caught by the store functions like any other error, so it is one more
  way for \<open>fault\<close> to be true); Tk's \<open>exportselection\<close>, by which selecting text in
  another widget clears a list box's selection (the model keeps the selection, which
  only makes the selection invariants stronger than needed); the theme's own element
  defaults, which the style lookup
  leaves open. The order of rows with equal sort keys, which SQL leaves open, is fixed
  to a stable sort.

  \<^bold>\<open>Plan.\<close> (1) store and service; (2) gui.py handlers and the session
  refinement; (3) the timestamp adapter's order and decoder; (4) session invariants
  and liveness, including the package list of the map tab; (5) the main loop and the
  styling model: done. Open: the status bar after each handler as a session property.
\<close>

subsection \<open>Properties spanning the window and the file\<close>

text \<open>C25. Every line of the review list, in a database reachable by the application, starts
  with the review's rating drawn as one to five full stars padded with empty stars to five.\<close>

theorem reachable_review_stars:
  assumes "reachable d" "line \<in> set (reviews_listbox (refresh_reviews fault a d))"
  shows "\<exists>k. 1 \<le> k \<and> k \<le> 5 \<and> take 5 line = replicate k star_full @ replicate (5 - k) star_empty"
proof -
  obtain r where r: "r \<in> set (reviews d)" "line = review_line r"
    using assms(2) by (auto simp: refresh_reviews_def get_reviews_def get_all_reviews_def split: if_splits)
  have b: "1 \<le> rev_rating r" "rev_rating r \<le> 5"
    using reachable_app_inv [OF assms(1)] r(1) by (auto simp: ratings_ok_def list_all_iff)
  show ?thesis
    using b r(2) rating_stars_take [OF b]
    by (intro exI [of _ "nat (rev_rating r)"]) (auto simp: review_line_def Let_def)
qed

theorem reachable_review_stars_witness:
  "reachable (app_step (Add_review False datetime_min [] [65] 4 []) fresh_db) \<and>
   review_line \<lparr>rev_id = 1, rev_tracking_number = [], rev_customer_name = [65], rev_rating = 4,
       rev_comment = [], rev_created_at = adapt_datetime datetime_min\<rparr> \<in>
     set (reviews_listbox (refresh_reviews False (gui_init False False False fresh_db)
       (app_step (Add_review False datetime_min [] [65] 4 []) fresh_db))) \<and>
   (\<exists>k. 1 \<le> k \<and> k \<le> 5 \<and>
     take 5 (review_line \<lparr>rev_id = 1, rev_tracking_number = [], rev_customer_name = [65], rev_rating = 4,
       rev_comment = [], rev_created_at = adapt_datetime datetime_min\<rparr>) =
     replicate k star_full @ replicate (5 - k) star_empty)"
proof -
  have r: "reachable (app_step (Add_review False datetime_min [] [65] 4 []) fresh_db)"
    by (rule reachable.step [OF reachable_fresh_db]) (simp add: action_ok_def dt_valid_def datetime_min_def)
  have m: "review_line \<lparr>rev_id = 1, rev_tracking_number = [], rev_customer_name = [65], rev_rating = 4,
       rev_comment = [], rev_created_at = adapt_datetime datetime_min\<rparr> \<in>
     set (reviews_listbox (refresh_reviews False (gui_init False False False fresh_db)
       (app_step (Add_review False datetime_min [] [65] 4 []) fresh_db)))"
    by (simp add: refresh_reviews_def get_reviews_def get_all_reviews_def add_review_def
        create_review_def stmt_fails_def rowid_full_def last_rowid_def max_rowid_def)
  show ?thesis using r m reachable_review_stars [OF r m] by simp
qed

end
